theory Spec2Isabelle
  imports Main
begin

section \<open>Shared data: literals, source spans, errors\<close>

text \<open>
  The template pipeline of the compiler package: ingestion (\<^verbatim>\<open>ingest.ts\<close>), three of its
  phases (\<^verbatim>\<open>create_i18n_contexts.ts\<close>, \<^verbatim>\<open>resolve_sanitizers.ts\<close>,
  \<^verbatim>\<open>resolve_dollar_event.ts\<close>) and reification (\<^verbatim>\<open>reify.ts\<close>). An exception thrown by
  the source is the value \<open>Inl\<close> of a sum type; a \<^verbatim>\<open>XrefId\<close> is a natural number; a value that
  may be \<^verbatim>\<open>null\<close> or \<^verbatim>\<open>undefined\<close> is an \<open>option\<close>.
\<close>

type_synonym xref = nat

text \<open>A \<^verbatim>\<open>SlotHandle\<close>, read through its only field \<^verbatim>\<open>slot: number|null\<close>.\<close>

type_synonym slot_handle = "nat option"

datatype error = Error string

datatype lit = LNull | LBool bool | LNum int | LStr string

text \<open>\<^verbatim>\<open>ParseSpan\<close>: start and end, relative to the start of the expression.\<close>

datatype parse_span = ParseSpan nat nat

text \<open>
  Modelled from the spec: \<^verbatim>\<open>ParseSourceSpan\<close> and \<^verbatim>\<open>ParseLocation.moveBy\<close> live in
  \<^verbatim>\<open>parse_util.ts\<close>, which is not part of the sources at hand. A location is its character
  offset and \<^verbatim>\<open>moveBy\<close> adds to it. The fields are start, end and fullStart.
\<close>

datatype source_span = ParseSourceSpan nat nat nat

fun convertSourceSpan :: "parse_span \<Rightarrow> source_span option \<Rightarrow> source_span option" where
  "convertSourceSpan span None = None"
| "convertSourceSpan (ParseSpan s e) (Some (ParseSourceSpan bstart bend bfull)) =
     Some (ParseSourceSpan (bstart + s) (bstart + e) (bfull + s))"

section \<open>The template expression AST (\<^verbatim>\<open>expression_parser/ast\<close>)\<close>

text \<open>
  The node classes that \<^verbatim>\<open>convertAst\<close> tests with \<^verbatim>\<open>instanceof\<close>, each with the fields it
  reads. \<^verbatim>\<open>ThisReceiver\<close> is a subclass of \<^verbatim>\<open>ImplicitReceiver\<close> (the source tests
  \<^verbatim>\<open>instanceof e.ImplicitReceiver && !(... instanceof e.ThisReceiver)\<close>), which
  \<open>isImplicitReceiver\<close> records. \<open>OtherAST\<close> is a node of any class the source does not name,
  with its constructor name.
\<close>

datatype (plugins only: size code) ast =
    ASTWithSource ast
  | ImplicitReceiver
  | ThisReceiver
  | PropertyRead parse_span ast string
  | PropertyWrite parse_span ast string ast
  | KeyedWrite parse_span ast ast ast
  | Call parse_span ast "ast list"
  | LiteralPrimitive parse_span lit
  | Binary parse_span string ast ast
  | KeyedRead parse_span ast ast
  | Chain "ast list"
  | LiteralMap parse_span "(string \<times> bool) list" "ast list"
  | LiteralArray "ast list"
  | Conditional parse_span ast ast ast
  | NonNullAssert ast
  | BindingPipe ast string "ast list"
  | SafeKeyedRead parse_span ast ast
  | SafePropertyRead ast string
  | SafeCall ast "ast list"
  | AstEmptyExpr parse_span
  | AstInterpolation "string list" "ast list"
  | OtherAST string

fun isImplicitReceiver :: "ast \<Rightarrow> bool" where
  "isImplicitReceiver ImplicitReceiver = True"
| "isImplicitReceiver ThisReceiver = True"
| "isImplicitReceiver _ = False"

fun isThisReceiver :: "ast \<Rightarrow> bool" where
  "isThisReceiver ThisReceiver = True"
| "isThisReceiver _ = False"

section \<open>Output expressions and IR expressions\<close>

text \<open>
  \<^verbatim>\<open>o.BinaryOperator\<close> and the external references of \<^verbatim>\<open>r3_identifiers\<close> are enumerations
  declared outside the sources at hand; a member is its name.
\<close>

type_synonym binary_operator = string
type_synonym external_reference = string

datatype sanitizer_fn =
    SanitizerFn_Html | SanitizerFn_Script | SanitizerFn_Style | SanitizerFn_Url
  | SanitizerFn_ResourceUrl | SanitizerFn_IframeAttribute

datatype derived_repeater_var = Repeater_First | Repeater_Last | Repeater_Even | Repeater_Odd

text \<open>\<^verbatim>\<open>o.LiteralMapEntry\<close>: key, value and quoted.\<close>

datatype 'e literal_map_entry = LiteralMapEntry string 'e bool

datatype 'e stmt =
    ExpressionStatement 'e "source_span option"
  | ReturnStatement 'e "source_span option"
  | DeclareVarStmt string "'e option"

text \<open>
  One type for \<^verbatim>\<open>o.Expression\<close> and its IR subclasses (\<^verbatim>\<open>ir.Expression\<close>), as the source
  has one class hierarchy. The first block are the output expressions the source builds, the
  second the IR expressions it names.
\<close>

datatype (plugins only: size code) expr =
    ReadVarExpr string
  | WriteVarExpr string expr
  | ReadPropExpr expr string "source_span option"
  | WritePropExpr expr string expr "source_span option"
  | ReadKeyExpr expr expr "source_span option"
  | WriteKeyExpr expr expr expr "source_span option"
  | InvokeFunctionExpr expr "expr list" "source_span option"
  | LiteralExpr lit "source_span option"
  | BinaryOperatorExpr binary_operator expr expr "source_span option"
  | LiteralMapExpr "expr literal_map_entry list" "source_span option"
  | LiteralArrayExpr "expr list"
  | ConditionalExpr expr expr expr "source_span option"
  | ExternalExpr external_reference
  | FunctionExpr "string list" "expr stmt list" "string option"
  | LexicalReadExpr string
  | ContextExpr xref
  | NextContextExpr nat
  | ReferenceExpr xref slot_handle nat
  | RestoreViewExpr "xref + expr"
  | ResetViewExpr expr
  | GetCurrentViewExpr
  | ReadVariableExpr xref "string option"
  | ReadTemporaryExpr xref "string option"
  | AssignTemporaryExpr expr xref "string option"
  | PureFunctionExpr "expr option" "expr list" "expr option" "nat option"
  | PureFunctionParameterExpr nat
  | PipeBindingExpr xref slot_handle string "expr list" "nat option"
  | PipeBindingVariadicExpr xref slot_handle string expr nat "nat option"
  | SanitizerExpr sanitizer_fn
  | SlotLiteralExpr slot_handle
  | SafeKeyedReadExpr expr expr "source_span option"
  | SafePropertyReadExpr expr string
  | SafeInvokeFunctionExpr expr "expr list"
  | EmptyExpr "source_span option"
  | ConditionalCaseExpr "expr option" xref slot_handle "string option"
  | DerivedRepeaterVarExpr xref derived_repeater_var

type_synonym statement = "expr stmt"


section \<open>Operations, compilation units and jobs (\<^verbatim>\<open>ir\<close>, \<^verbatim>\<open>compilation.ts\<close>)\<close>

datatype security_context = NONE | HTML | STYLE | SCRIPT | URL | RESOURCE_URL

datatype namespace = Namespace_HTML | Namespace_SVG | Namespace_Math

datatype binding_kind =
  BindingKind_Attribute | BindingKind_ClassName | BindingKind_StyleProperty | BindingKind_Property
  | BindingKind_Animation

datatype i18n_context_kind = I18nContextKind_RootI18n | I18nContextKind_Icu

text \<open>An \<^verbatim>\<open>i18n.Message\<close>, of which the phases read the \<^verbatim>\<open>id\<close> only.\<close>

datatype i18n_message = Message (message_id: string)

text \<open>\<^verbatim>\<open>o.Expression | ir.Interpolation\<close>, the value of a binding.\<close>

datatype binding_expr = Plain expr | Interpolation "string list" "expr list"

text \<open>Local references: the array ingestion fills, or the constant index it is extracted to.\<close>

datatype local_refs = LocalRefArray "(string \<times> string) list" | LocalRefConst "nat option"

text \<open>
  A defer trigger. Hover, Interaction and Viewport carry \<^verbatim>\<open>targetName\<close>, \<^verbatim>\<open>targetXref\<close>,
  \<^verbatim>\<open>targetSlot\<close>, \<^verbatim>\<open>targetView\<close> and \<^verbatim>\<open>targetSlotViewSteps\<close>.
\<close>

datatype defer_trigger =
    IdleTrigger
  | ImmediateTrigger
  | TimerTrigger nat
  | HoverTrigger "string option" "xref option" "slot_handle option" "xref option" "nat option"
  | InteractionTrigger "string option" "xref option" "slot_handle option" "xref option" "nat option"
  | ViewportTrigger "string option" "xref option" "slot_handle option" "xref option" "nat option"

datatype op_kind =
    OpKind_Text | OpKind_ElementStart | OpKind_Element | OpKind_ElementEnd
  | OpKind_ContainerStart | OpKind_Container | OpKind_ContainerEnd | OpKind_I18nStart
  | OpKind_I18nEnd | OpKind_I18n | OpKind_Template | OpKind_DisableBindings
  | OpKind_EnableBindings | OpKind_Pipe | OpKind_Listener | OpKind_Variable | OpKind_Namespace
  | OpKind_Defer | OpKind_DeferOn | OpKind_ProjectionDef | OpKind_Projection
  | OpKind_RepeaterCreate | OpKind_Statement | OpKind_I18nContext | OpKind_IcuStart
  | OpKind_IcuEnd | OpKind_ExtractedAttribute | OpKind_Binding | OpKind_Advance
  | OpKind_Property | OpKind_Attribute | OpKind_StyleProp | OpKind_ClassProp | OpKind_StyleMap
  | OpKind_ClassMap | OpKind_I18nExpression | OpKind_I18nApply | OpKind_InterpolateText
  | OpKind_HostProperty | OpKind_Conditional | OpKind_Repeater | OpKind_DeferWhen

text \<open>
  The operations (\<^verbatim>\<open>ir.CreateOp\<close> and \<^verbatim>\<open>ir.UpdateOp\<close>), one constructor for each
  \<^verbatim>\<open>OpKind\<close> the sources name, with the fields they read or write. The comment of each
  constructor lists its fields in order.
\<close>

datatype (plugins only: size code) op =
    TextOp xref slot_handle string "source_span option"
      \<comment> \<open>xref, handle, initialValue, sourceSpan\<close>
  | ElementStartOp "string option" xref slot_handle "nat option" local_refs "source_span option"
      \<comment> \<open>tag, xref, handle, attributes, localRefs, sourceSpan\<close>
  | ElementOp "string option" xref slot_handle "nat option" local_refs "source_span option"
  | ElementEndOp xref "source_span option"
  | ContainerStartOp xref slot_handle "nat option" local_refs "source_span option"
      \<comment> \<open>xref, handle, attributes, localRefs, sourceSpan\<close>
  | ContainerOp xref slot_handle "nat option" local_refs "source_span option"
  | ContainerEndOp xref
  | I18nStartOp xref slot_handle xref i18n_message "xref option" "nat option" "nat option"
      \<comment> \<open>xref, handle, root, message, context, messageIndex, subTemplateIndex\<close>
  | I18nOp xref slot_handle xref i18n_message "xref option" "nat option" "nat option"
  | I18nEndOp xref
  | TemplateOp xref slot_handle "string option" "nat option" local_refs "source_span option"
      \<comment> \<open>xref, handle, tag, attributes, localRefs, sourceSpan\<close>
  | DisableBindingsOp xref
  | EnableBindingsOp xref
  | PipeOp xref slot_handle string
      \<comment> \<open>xref, handle, name\<close>
  | ListenerOp xref string "string option" "op list" bool bool bool "source_span option"
      \<comment> \<open>target, name, handlerFnName, handlerOps, consumesDollarEvent, hostListener,
          isAnimationListener, sourceSpan\<close>
  | VariableOp xref "string option" expr
      \<comment> \<open>xref, variable.name, initializer\<close>
  | NamespaceOp namespace
  | DeferOp xref slot_handle slot_handle "slot_handle option" "slot_handle option"
      "slot_handle option" "nat option" "nat option" "nat option" "expr option" "expr option"
      "expr option" "source_span option"
      \<comment> \<open>xref, handle, mainSlot, loadingSlot, placeholderSlot, errorSlot, loadingMinimumTime,
          loadingAfterTime, placeholderMinimumTime, resolverFn, loadingConfig, placeholderConfig,
          sourceSpan\<close>
  | DeferOnOp xref defer_trigger bool "source_span option"
      \<comment> \<open>defer, trigger, prefetch, sourceSpan\<close>
  | ProjectionDefOp "expr option"
  | ProjectionOp xref slot_handle nat "string list" "source_span option"
      \<comment> \<open>xref, handle, projectionSlotIndex, attributes, sourceSpan\<close>
  | RepeaterCreateOp xref slot_handle "xref option" "string option" "nat option" "expr option"
      bool "nat option" "nat option" "source_span option"
      \<comment> \<open>xref, handle, emptyView, tag, attributes, trackByFn, usesComponentInstance, decls,
          vars, sourceSpan\<close>
  | StatementOp statement
  | I18nContextOp i18n_context_kind xref xref i18n_message "source_span option"
      \<comment> \<open>contextKind, xref, i18nBlock, message, sourceSpan\<close>
  | IcuStartOp xref i18n_message "xref option"
      \<comment> \<open>xref, message, context\<close>
  | IcuEndOp xref
  | ExtractedAttributeOp xref binding_kind string "expr option"
  | BindingOp xref binding_kind string binding_expr "string option" security_context bool bool
      "source_span option"
      \<comment> \<open>target, kind, name, expression, unit, securityContext, isTextAttribute,
          isStructuralTemplateAttribute, sourceSpan\<close>
  | AdvanceOp nat "source_span option"
  | PropertyOp xref string binding_expr "expr option" security_context "source_span option"
      \<comment> \<open>target, name, expression, sanitizer, securityContext, sourceSpan\<close>
  | AttributeOp xref string binding_expr "expr option" security_context "source_span option"
  | StylePropOp xref string binding_expr "string option" "source_span option"
      \<comment> \<open>target, name, expression, unit, sourceSpan\<close>
  | ClassPropOp xref string expr "source_span option"
  | StyleMapOp xref binding_expr "source_span option"
  | ClassMapOp xref binding_expr "source_span option"
  | I18nExpressionOp xref expr "source_span option"
  | I18nApplyOp xref slot_handle "source_span option"
  | InterpolateTextOp xref "string list" "expr list" "source_span option"
      \<comment> \<open>target, interpolation.strings, interpolation.expressions, sourceSpan\<close>
  | HostPropertyOp string binding_expr bool "source_span option"
      \<comment> \<open>name, expression, isAnimationTrigger, sourceSpan\<close>
  | ConditionalOp xref slot_handle "expr option" "expr option" "source_span option"
      \<comment> \<open>target, targetSlot, processed, contextValue, sourceSpan\<close>
  | RepeaterOp xref expr "source_span option"
      \<comment> \<open>target, collection, sourceSpan\<close>
  | DeferWhenOp xref expr bool "source_span option"
      \<comment> \<open>target, expr, prefetch, sourceSpan\<close>

primrec kind :: "op \<Rightarrow> op_kind" where
  "kind (TextOp _ _ _ _) = OpKind_Text"
| "kind (ElementStartOp _ _ _ _ _ _) = OpKind_ElementStart"
| "kind (ElementOp _ _ _ _ _ _) = OpKind_Element"
| "kind (ElementEndOp _ _) = OpKind_ElementEnd"
| "kind (ContainerStartOp _ _ _ _ _) = OpKind_ContainerStart"
| "kind (ContainerOp _ _ _ _ _) = OpKind_Container"
| "kind (ContainerEndOp _) = OpKind_ContainerEnd"
| "kind (I18nStartOp _ _ _ _ _ _ _) = OpKind_I18nStart"
| "kind (I18nOp _ _ _ _ _ _ _) = OpKind_I18n"
| "kind (I18nEndOp _) = OpKind_I18nEnd"
| "kind (TemplateOp _ _ _ _ _ _) = OpKind_Template"
| "kind (DisableBindingsOp _) = OpKind_DisableBindings"
| "kind (EnableBindingsOp _) = OpKind_EnableBindings"
| "kind (PipeOp _ _ _) = OpKind_Pipe"
| "kind (ListenerOp _ _ _ _ _ _ _ _) = OpKind_Listener"
| "kind (VariableOp _ _ _) = OpKind_Variable"
| "kind (NamespaceOp _) = OpKind_Namespace"
| "kind (DeferOp _ _ _ _ _ _ _ _ _ _ _ _ _) = OpKind_Defer"
| "kind (DeferOnOp _ _ _ _) = OpKind_DeferOn"
| "kind (ProjectionDefOp _) = OpKind_ProjectionDef"
| "kind (ProjectionOp _ _ _ _ _) = OpKind_Projection"
| "kind (RepeaterCreateOp _ _ _ _ _ _ _ _ _ _) = OpKind_RepeaterCreate"
| "kind (StatementOp _) = OpKind_Statement"
| "kind (I18nContextOp _ _ _ _ _) = OpKind_I18nContext"
| "kind (IcuStartOp _ _ _) = OpKind_IcuStart"
| "kind (IcuEndOp _) = OpKind_IcuEnd"
| "kind (ExtractedAttributeOp _ _ _ _) = OpKind_ExtractedAttribute"
| "kind (BindingOp _ _ _ _ _ _ _ _ _) = OpKind_Binding"
| "kind (AdvanceOp _ _) = OpKind_Advance"
| "kind (PropertyOp _ _ _ _ _ _) = OpKind_Property"
| "kind (AttributeOp _ _ _ _ _ _) = OpKind_Attribute"
| "kind (StylePropOp _ _ _ _ _) = OpKind_StyleProp"
| "kind (ClassPropOp _ _ _ _) = OpKind_ClassProp"
| "kind (StyleMapOp _ _ _) = OpKind_StyleMap"
| "kind (ClassMapOp _ _ _) = OpKind_ClassMap"
| "kind (I18nExpressionOp _ _ _) = OpKind_I18nExpression"
| "kind (I18nApplyOp _ _ _) = OpKind_I18nApply"
| "kind (InterpolateTextOp _ _ _ _) = OpKind_InterpolateText"
| "kind (HostPropertyOp _ _ _ _) = OpKind_HostProperty"
| "kind (ConditionalOp _ _ _ _ _) = OpKind_Conditional"
| "kind (RepeaterOp _ _ _) = OpKind_Repeater"
| "kind (DeferWhenOp _ _ _ _) = OpKind_DeferWhen"

text \<open>
  A compilation unit: its \<^verbatim>\<open>xref\<close>, the create and update lists, whether it is a
  \<^verbatim>\<open>ViewCompilationUnit\<close>, and the \<^verbatim>\<open>fnName\<close>, \<^verbatim>\<open>decls\<close> and \<^verbatim>\<open>vars\<close> that later phases
  assign.
\<close>

record compilation_unit =
  xref :: xref
  create :: "op list"
  update :: "op list"
  isView :: bool
  fnName :: "string option"
  decls :: "nat option"
  vars :: "nat option"

text \<open>
  A compilation job: the id allocator, the root unit's \<^verbatim>\<open>xref\<close> and the units in the order
  \<^verbatim>\<open>job.units\<close> yields them.
\<close>

record compilation_job =
  nextXrefId :: nat
  root :: xref
  units :: "compilation_unit list"

text \<open>
  Modelled from the spec: \<^verbatim>\<open>allocateXrefId\<close> is declared in \<^verbatim>\<open>compilation.ts\<close>, outside
  the sources at hand; the spec's id allocator produces monotonically increasing ids and reuses
  none.
\<close>

definition allocateXrefId :: "compilation_job \<Rightarrow> xref \<times> compilation_job" where
  "allocateXrefId job = (nextXrefId job, job\<lparr>nextXrefId := Suc (nextXrefId job)\<rparr>)"

text \<open>\<^verbatim>\<open>unit.create.push(op)\<close> and \<^verbatim>\<open>unit.update.push(op)\<close> for the unit named \<open>v\<close>.\<close>

definition pushCreate :: "xref \<Rightarrow> op list \<Rightarrow> compilation_job \<Rightarrow> compilation_job" where
  "pushCreate v ops job =
     job\<lparr>units := map (\<lambda>u. if xref u = v then u\<lparr>create := create u @ ops\<rparr> else u) (units job)\<rparr>"

definition pushUpdate :: "xref \<Rightarrow> op list \<Rightarrow> compilation_job \<Rightarrow> compilation_job" where
  "pushUpdate v ops job =
     job\<lparr>units := map (\<lambda>u. if xref u = v then u\<lparr>update := update u @ ops\<rparr> else u) (units job)\<rparr>"

text \<open>\<^verbatim>\<open>job.views.get(xref)\<close>.\<close>

definition views_get :: "compilation_job \<Rightarrow> xref \<Rightarrow> compilation_unit option" where
  "views_get job v = find (\<lambda>u. xref u = v) (units job)"


section \<open>The template AST (\<^verbatim>\<open>render3/r3_ast\<close>)\<close>

text \<open>\<^verbatim>\<open>t.TextAttribute\<close>: name, value and sourceSpan.\<close>

datatype text_attribute = TextAttribute string string "source_span option"

text \<open>
  The template nodes, with the fields that the modelled part of ingestion reads: name,
  attributes and children of a \<^verbatim>\<open>t.Element\<close>; tagName, attributes and children of a
  \<^verbatim>\<open>t.Template\<close>; expression and children of a \<^verbatim>\<open>t.IfBlockBranch\<close>; expression and
  children of a \<^verbatim>\<open>t.ForLoopBlock\<close>. \<open>OtherNode\<close> is a node of any other class, with its
  constructor name.
\<close>

datatype node =
    Element string "text_attribute list" "node list"
  | Template "string option" "text_attribute list" "node list"
  | Text string
  | BoundText ast
  | Comment string
  | IfBlockBranch "ast option" "node list"
  | ForLoopBlock ast "node list"
  | OtherNode string

primrec children :: "node \<Rightarrow> node list" where
  "children (Element name attrs cs) = cs"
| "children (Template tagName attrs cs) = cs"
| "children (Text v) = []"
| "children (BoundText v) = []"
| "children (Comment v) = []"
| "children (IfBlockBranch e cs) = cs"
| "children (ForLoopBlock e cs) = cs"
| "children (OtherNode n) = []"


datatype binding_type =
    BindingType_Property | BindingType_Attribute | BindingType_Class | BindingType_Style
  | BindingType_Animation


section \<open>Expression conversion (\<^verbatim>\<open>convertAst\<close> of \<^verbatim>\<open>ingest.ts\<close>)\<close>

text \<open>
  \<open>B\<close> is the table \<^verbatim>\<open>BINARY_OPERATORS\<close> of \<^verbatim>\<open>conversion.ts\<close>, which is outside the
  sources at hand and therefore a parameter. The job is threaded through the conversion
  because a pipe allocates an id; sub-expressions are converted in the order in which the
  source evaluates them. The last three equations of \<open>convertAst\<close> are the final
  \<^verbatim>\<open>else\<close> of the source, which names the node's class in its message.
  \<open>convertMapEntries\<close> is the \<^verbatim>\<open>ast.keys.map((key, idx) => ...)\<close> of the literal map: a key
  without a value makes the source read a property of \<^verbatim>\<open>undefined\<close>.
\<close>

fun convertAst ::
    "(string \<rightharpoonup> binary_operator) \<Rightarrow> ast \<Rightarrow> compilation_job \<Rightarrow> source_span option
      \<Rightarrow> error + (expr \<times> compilation_job)"
  and convertAstList ::
    "(string \<rightharpoonup> binary_operator) \<Rightarrow> ast list \<Rightarrow> compilation_job \<Rightarrow> source_span option
      \<Rightarrow> error + (expr list \<times> compilation_job)"
  and convertMapEntries ::
    "(string \<rightharpoonup> binary_operator) \<Rightarrow> (string \<times> bool) list \<Rightarrow> ast list \<Rightarrow> compilation_job
      \<Rightarrow> source_span option \<Rightarrow> error + (expr literal_map_entry list \<times> compilation_job)"
where
  "convertAst B (ASTWithSource a) job base = convertAst B a job base"
| "convertAst B (PropertyRead span receiver name) job base =
     (if isImplicitReceiver receiver \<and> \<not> isThisReceiver receiver
      then Inr (LexicalReadExpr name, job)
      else case convertAst B receiver job base of
             Inl err \<Rightarrow> Inl err
           | Inr (r, job1) \<Rightarrow> Inr (ReadPropExpr r name (convertSourceSpan span base), job1))"
| "convertAst B (PropertyWrite span receiver name val) job base =
     (if isImplicitReceiver receiver
      then case convertAst B val job base of
             Inl err \<Rightarrow> Inl err
           | Inr (v, job1) \<Rightarrow>
               Inr (WritePropExpr (ContextExpr (root job)) name v (convertSourceSpan span base),
                    job1)
      else case convertAst B receiver job base of
             Inl err \<Rightarrow> Inl err
           | Inr (r, job1) \<Rightarrow>
               (case convertAst B val job1 base of
                  Inl err \<Rightarrow> Inl err
                | Inr (v, job2) \<Rightarrow>
                    Inr (WritePropExpr r name v (convertSourceSpan span base), job2)))"
| "convertAst B (KeyedWrite span receiver key val) job base =
     (case convertAst B receiver job base of
        Inl err \<Rightarrow> Inl err
      | Inr (r, job1) \<Rightarrow>
          (case convertAst B key job1 base of
             Inl err \<Rightarrow> Inl err
           | Inr (k, job2) \<Rightarrow>
               (case convertAst B val job2 base of
                  Inl err \<Rightarrow> Inl err
                | Inr (v, job3) \<Rightarrow>
                    Inr (WriteKeyExpr r k v (convertSourceSpan span base), job3))))"
| "convertAst B (Call span receiver args) job base =
     (if isImplicitReceiver receiver
      then Inl (Error ''Unexpected ImplicitReceiver'')
      else case convertAst B receiver job base of
             Inl err \<Rightarrow> Inl err
           | Inr (r, job1) \<Rightarrow>
               (case convertAstList B args job1 base of
                  Inl err \<Rightarrow> Inl err
                | Inr (as, job2) \<Rightarrow>
                    Inr (InvokeFunctionExpr r as (convertSourceSpan span base), job2)))"
| "convertAst B (LiteralPrimitive span v) job base =
     Inr (LiteralExpr v (convertSourceSpan span base), job)"
| "convertAst B (Binary span operation left right) job base =
     (case B operation of
        None \<Rightarrow> Inl (Error (''AssertionError: unknown binary operator '' @ operation))
      | Some operator \<Rightarrow>
          (case convertAst B left job base of
             Inl err \<Rightarrow> Inl err
           | Inr (l, job1) \<Rightarrow>
               (case convertAst B right job1 base of
                  Inl err \<Rightarrow> Inl err
                | Inr (r, job2) \<Rightarrow>
                    Inr (BinaryOperatorExpr operator l r (convertSourceSpan span base), job2))))"
| "convertAst B ThisReceiver job base = Inr (ContextExpr (root job), job)"
| "convertAst B (KeyedRead span receiver key) job base =
     (case convertAst B receiver job base of
        Inl err \<Rightarrow> Inl err
      | Inr (r, job1) \<Rightarrow>
          (case convertAst B key job1 base of
             Inl err \<Rightarrow> Inl err
           | Inr (k, job2) \<Rightarrow> Inr (ReadKeyExpr r k (convertSourceSpan span base), job2)))"
| "convertAst B (Chain es) job base = Inl (Error ''AssertionError: Chain in unknown context'')"
| "convertAst B (LiteralMap span keys vals) job base =
     (case convertMapEntries B keys vals job base of
        Inl err \<Rightarrow> Inl err
      | Inr (entries, job1) \<Rightarrow>
          Inr (LiteralMapExpr entries (convertSourceSpan span base), job1))"
| "convertAst B (LiteralArray es) job base =
     (case convertAstList B es job base of
        Inl err \<Rightarrow> Inl err
      | Inr (xs, job1) \<Rightarrow> Inr (LiteralArrayExpr xs, job1))"
| "convertAst B (Conditional span condition trueExp falseExp) job base =
     (case convertAst B condition job base of
        Inl err \<Rightarrow> Inl err
      | Inr (c, job1) \<Rightarrow>
          (case convertAst B trueExp job1 base of
             Inl err \<Rightarrow> Inl err
           | Inr (t, job2) \<Rightarrow>
               (case convertAst B falseExp job2 base of
                  Inl err \<Rightarrow> Inl err
                | Inr (f, job3) \<Rightarrow>
                    Inr (ConditionalExpr c t f (convertSourceSpan span base), job3))))"
| "convertAst B (NonNullAssert a) job base = convertAst B a job base"
| "convertAst B (BindingPipe exp name args) job base =
     (case allocateXrefId job of
        (x, job1) \<Rightarrow>
          (case convertAst B exp job1 base of
             Inl err \<Rightarrow> Inl err
           | Inr (v, job2) \<Rightarrow>
               (case convertAstList B args job2 base of
                  Inl err \<Rightarrow> Inl err
                | Inr (as, job3) \<Rightarrow> Inr (PipeBindingExpr x None name (v # as) None, job3))))"
| "convertAst B (SafeKeyedRead span receiver key) job base =
     (case convertAst B receiver job base of
        Inl err \<Rightarrow> Inl err
      | Inr (r, job1) \<Rightarrow>
          (case convertAst B key job1 base of
             Inl err \<Rightarrow> Inl err
           | Inr (k, job2) \<Rightarrow> Inr (SafeKeyedReadExpr r k (convertSourceSpan span base), job2)))"
| "convertAst B (SafePropertyRead receiver name) job base =
     (case convertAst B receiver job base of
        Inl err \<Rightarrow> Inl err
      | Inr (r, job1) \<Rightarrow> Inr (SafePropertyReadExpr r name, job1))"
| "convertAst B (SafeCall receiver args) job base =
     (case convertAst B receiver job base of
        Inl err \<Rightarrow> Inl err
      | Inr (r, job1) \<Rightarrow>
          (case convertAstList B args job1 base of
             Inl err \<Rightarrow> Inl err
           | Inr (as, job2) \<Rightarrow> Inr (SafeInvokeFunctionExpr r as, job2)))"
| "convertAst B (AstEmptyExpr span) job base = Inr (EmptyExpr (convertSourceSpan span base), job)"
| "convertAst B ImplicitReceiver job base =
     Inl (Error ''Unhandled expression type ImplicitReceiver'')"
| "convertAst B (AstInterpolation strings es) job base =
     Inl (Error ''Unhandled expression type Interpolation'')"
| "convertAst B (OtherAST name) job base = Inl (Error (''Unhandled expression type '' @ name))"
| "convertAstList B [] job base = Inr ([], job)"
| "convertAstList B (a # as) job base =
     (case convertAst B a job base of
        Inl err \<Rightarrow> Inl err
      | Inr (x, job1) \<Rightarrow>
          (case convertAstList B as job1 base of
             Inl err \<Rightarrow> Inl err
           | Inr (xs, job2) \<Rightarrow> Inr (x # xs, job2)))"
| "convertMapEntries B [] vals job base = Inr ([], job)"
| "convertMapEntries B (k # ks) [] job base =
     Inl (Error ''TypeError: Cannot read properties of undefined'')"
| "convertMapEntries B (k # ks) (v # vs) job base =
     (case convertAst B v job base of
        Inl err \<Rightarrow> Inl err
      | Inr (x, job1) \<Rightarrow>
          (case convertMapEntries B ks vs job1 base of
             Inl err \<Rightarrow> Inl err
           | Inr (xs, job2) \<Rightarrow> Inr (LiteralMapEntry (fst k) x (snd k) # xs, job2)))"



section \<open>Bindings (\<^verbatim>\<open>ingestBinding\<close> of \<^verbatim>\<open>ingest.ts\<close>)\<close>

text \<open>The bit flags of \<^verbatim>\<open>enum BindingFlags\<close>; \<^verbatim>\<open>flags & F\<close> is truthy when it is not 0.\<close>

unbundle bit_operations_syntax

definition BindingFlags_TextValue :: nat where "BindingFlags_TextValue = 1"
definition BindingFlags_BindingTargetsTemplate :: nat where "BindingFlags_BindingTargetsTemplate = 2"
definition BindingFlags_IsStructuralTemplateAttribute :: nat where
  "BindingFlags_IsStructuralTemplateAttribute = 4"
definition BindingFlags_OnNgTemplateElement :: nat where "BindingFlags_OnNgTemplateElement = 8"

text \<open>The map \<^verbatim>\<open>BINDING_KINDS\<close>, which has an entry for each binding type.\<close>

primrec BINDING_KINDS :: "binding_type \<Rightarrow> binding_kind" where
  "BINDING_KINDS BindingType_Property = BindingKind_Property"
| "BINDING_KINDS BindingType_Attribute = BindingKind_Attribute"
| "BINDING_KINDS BindingType_Class = BindingKind_ClassName"
| "BINDING_KINDS BindingType_Style = BindingKind_StyleProperty"
| "BINDING_KINDS BindingType_Animation = BindingKind_Animation"

text \<open>\<^verbatim>\<open>if (value instanceof e.ASTWithSource) { value = value.ast; }\<close>\<close>

fun unwrapASTWithSource :: "ast + expr \<Rightarrow> ast + expr" where
  "unwrapASTWithSource (Inl (ASTWithSource a)) = Inl a"
| "unwrapASTWithSource v = v"

text \<open>
  \<open>view\<close> names the unit the binding is ingested into, \<open>x\<close> the op the binding targets.
  The value is a template expression (\<open>Inl\<close>) or an output expression (\<open>Inr\<close>).
\<close>

definition ingestBinding ::
    "(string \<rightharpoonup> binary_operator) \<Rightarrow> compilation_job \<Rightarrow> xref \<Rightarrow> xref \<Rightarrow> string \<Rightarrow> ast + expr
      \<Rightarrow> binding_type \<Rightarrow> string option \<Rightarrow> security_context \<Rightarrow> source_span option \<Rightarrow> nat
      \<Rightarrow> error + compilation_job" where
  "ingestBinding B job view x name val0 type unit securityContext sourceSpan flags =
     (let val = unwrapASTWithSource val0 in
      if flags AND BindingFlags_OnNgTemplateElement \<noteq> 0
         \<and> \<not> (flags AND BindingFlags_BindingTargetsTemplate \<noteq> 0)
         \<and> type = BindingType_Property
      then Inr (pushCreate view [ExtractedAttributeOp x BindingKind_Property name None] job)
      else
        case (case val of
                Inl (AstInterpolation strings es) \<Rightarrow>
                  (case convertAstList B es job None of
                     Inl err \<Rightarrow> Inl err
                   | Inr (xs, job1) \<Rightarrow> Inr (Interpolation strings xs, job1))
              | Inl a \<Rightarrow>
                  (case convertAst B a job None of
                     Inl err \<Rightarrow> Inl err
                   | Inr (e, job1) \<Rightarrow> Inr (Plain e, job1))
              | Inr e \<Rightarrow> Inr (Plain e, job)) of
          Inl err \<Rightarrow> Inl err
        | Inr (expression, job1) \<Rightarrow>
            Inr (pushUpdate view
                  [BindingOp x (BINDING_KINDS type) name expression unit securityContext
                     (flags AND BindingFlags_TextValue \<noteq> 0)
                     (flags AND BindingFlags_IsStructuralTemplateAttribute \<noteq> 0) sourceSpan]
                  job1))"

section \<open>Content projection inference (\<^verbatim>\<open>ingestControlFlowInsertionPoint\<close> of \<^verbatim>\<open>ingest.ts\<close>)\<close>

primrec isComment :: "node \<Rightarrow> bool" where
  "isComment (Element name attrs cs) = False"
| "isComment (Template tagName attrs cs) = False"
| "isComment (Text v) = False"
| "isComment (BoundText v) = False"
| "isComment (Comment v) = True"
| "isComment (IfBlockBranch e cs) = False"
| "isComment (ForLoopBlock e cs) = False"
| "isComment (OtherNode n) = False"

text \<open>
  \<^verbatim>\<open>child instanceof t.Element || (child instanceof t.Template && child.tagName !== null)\<close>
\<close>

primrec isElementOrNamedTemplate :: "node \<Rightarrow> bool" where
  "isElementOrNamedTemplate (Element name attrs cs) = True"
| "isElementOrNamedTemplate (Template tagName attrs cs) = (tagName \<noteq> None)"
| "isElementOrNamedTemplate (Text v) = False"
| "isElementOrNamedTemplate (BoundText v) = False"
| "isElementOrNamedTemplate (Comment v) = False"
| "isElementOrNamedTemplate (IfBlockBranch e cs) = False"
| "isElementOrNamedTemplate (ForLoopBlock e cs) = False"
| "isElementOrNamedTemplate (OtherNode n) = False"

text \<open>\<^verbatim>\<open>root.attributes\<close> and \<^verbatim>\<open>root instanceof t.Element ? root.name : root.tagName\<close>.\<close>

primrec attributes :: "node \<Rightarrow> text_attribute list" where
  "attributes (Element name attrs cs) = attrs"
| "attributes (Template tagName attrs cs) = attrs"
| "attributes (Text v) = []"
| "attributes (BoundText v) = []"
| "attributes (Comment v) = []"
| "attributes (IfBlockBranch e cs) = []"
| "attributes (ForLoopBlock e cs) = []"
| "attributes (OtherNode n) = []"

primrec rootTagName :: "node \<Rightarrow> string option" where
  "rootTagName (Element name attrs cs) = Some name"
| "rootTagName (Template tagName attrs cs) = tagName"
| "rootTagName (Text v) = None"
| "rootTagName (BoundText v) = None"
| "rootTagName (Comment v) = None"
| "rootTagName (IfBlockBranch e cs) = None"
| "rootTagName (ForLoopBlock e cs) = None"
| "rootTagName (OtherNode n) = None"

text \<open>
  The loop over \<^verbatim>\<open>node.children\<close>, with the variable \<^verbatim>\<open>root\<close> as accumulator. The result
  \<open>None\<close> is the \<^verbatim>\<open>return null\<close> inside the loop; \<open>Some r\<close> is the value \<open>r\<close> of \<^verbatim>\<open>root\<close>
  when the loop has run to its end.
\<close>

fun findSingleRoot :: "node list \<Rightarrow> node option \<Rightarrow> node option option" where
  "findSingleRoot [] rootNode = Some rootNode"
| "findSingleRoot (child # rest) rootNode =
     (if isComment child then findSingleRoot rest rootNode
      else if rootNode \<noteq> None then None
      else if isElementOrNamedTemplate child then findSingleRoot rest (Some child)
      else findSingleRoot rest rootNode)"

text \<open>The loop over \<^verbatim>\<open>root.attributes\<close>, one \<^verbatim>\<open>ingestBinding\<close> for each static attribute.\<close>

fun copyRootAttributes ::
    "(string \<rightharpoonup> binary_operator) \<Rightarrow> compilation_job \<Rightarrow> xref \<Rightarrow> xref \<Rightarrow> text_attribute list
      \<Rightarrow> error + compilation_job" where
  "copyRootAttributes B job unit x [] = Inr job"
| "copyRootAttributes B job unit x (TextAttribute name val sourceSpan # rest) =
     (case ingestBinding B job unit x name (Inr (LiteralExpr (LStr val) None))
             BindingType_Attribute None NONE sourceSpan BindingFlags_TextValue of
        Inl err \<Rightarrow> Inl err
      | Inr job1 \<Rightarrow> copyRootAttributes B job1 unit x rest)"

text \<open>
  \<open>unit\<close> names the unit that receives the bindings, \<open>x\<close> the generated template. The
  result is the tag name for the template (\<open>None\<close> is \<^verbatim>\<open>null\<close>) and the job.
\<close>

definition ingestControlFlowInsertionPoint ::
    "(string \<rightharpoonup> binary_operator) \<Rightarrow> compilation_job \<Rightarrow> xref \<Rightarrow> xref \<Rightarrow> node
      \<Rightarrow> error + (string option \<times> compilation_job)" where
  "ingestControlFlowInsertionPoint B job unit x node =
     (case findSingleRoot (children node) None of
        None \<Rightarrow> Inr (None, job)
      | Some None \<Rightarrow> Inr (None, job)
      | Some (Some rootNode) \<Rightarrow>
          (case copyRootAttributes B job unit x (attributes rootNode) of
             Inl err \<Rightarrow> Inl err
           | Inr job1 \<Rightarrow>
               (let tagName = rootTagName rootNode
                in Inr (if tagName = Some ''ng-template'' then None else tagName, job1))))"

section \<open>Defer triggers (\<^verbatim>\<open>ingestDeferBlock\<close> of \<^verbatim>\<open>ingest.ts\<close>)\<close>







section \<open>Deferred blocks (\<^verbatim>\<open>ingestDeferView\<close> and \<^verbatim>\<open>ingestDeferBlock\<close> of \<^verbatim>\<open>ingest.ts\<close>)\<close>
















text \<open>The units of two jobs are the same: a step changed the id allocator at most.\<close>

definition sameUnits :: "compilation_job \<Rightarrow> compilation_job \<Rightarrow> bool" where
  "sameUnits job job' \<longleftrightarrow> units job' = units job"

section \<open>Sanitizer resolution (\<^verbatim>\<open>resolve_sanitizers.ts\<close>)\<close>

text \<open>The map \<^verbatim>\<open>sanitizers\<close>; \<open>None\<close> is a context without entry.\<close>

primrec sanitizers :: "security_context \<Rightarrow> sanitizer_fn option" where
  "sanitizers NONE = None"
| "sanitizers HTML = Some SanitizerFn_Html"
| "sanitizers SCRIPT = Some SanitizerFn_Script"
| "sanitizers STYLE = Some SanitizerFn_Style"
| "sanitizers URL = Some SanitizerFn_Url"
| "sanitizers RESOURCE_URL = Some SanitizerFn_ResourceUrl"

text \<open>
  \<^verbatim>\<open>String.prototype.toLowerCase\<close> on the ASCII letters, which is all that the comparison
  with \<^verbatim>\<open>'iframe'\<close> needs.
\<close>

definition toLowerCase :: "string \<Rightarrow> string" where
  "toLowerCase s =
     map (\<lambda>c. case map_of (zip ''ABCDEFGHIJKLMNOPQRSTUVWXYZ'' ''abcdefghijklmnopqrstuvwxyz'') c of
                None \<Rightarrow> c
              | Some l \<Rightarrow> l) s"

text \<open>
  \<^verbatim>\<open>op.kind === ir.OpKind.ElementStart && op.tag?.toLowerCase() === 'iframe'\<close>
\<close>

definition isIframeElement :: "op \<Rightarrow> bool" where
  "isIframeElement ownerOp =
     (case ownerOp of
        ElementStartOp tag x h attrs refs sp \<Rightarrow>
          (case tag of None \<Rightarrow> False | Some t \<Rightarrow> toLowerCase t = ''iframe'')
      | _ \<Rightarrow> False)"

text \<open>
  Modelled from the spec: \<^verbatim>\<open>ir.isElementOrContainerOp\<close> is declared outside the sources at
  hand. The spec's ``element-like owner op'' is an op of one of the kinds that make up
  \<^verbatim>\<open>ir.ElementOrContainerOps\<close>, the argument type of \<^verbatim>\<open>isIframeElement\<close>.
\<close>

definition isElementOrContainerOp :: "op \<Rightarrow> bool" where
  "isElementOrContainerOp ownerOp \<longleftrightarrow>
     kind ownerOp \<in> {OpKind_Element, OpKind_ElementStart, OpKind_Container,
                     OpKind_ContainerStart, OpKind_Template, OpKind_RepeaterCreate}"

text \<open>
  Modelled from the spec: \<^verbatim>\<open>createOpXrefMap\<close> is declared in \<^verbatim>\<open>util/elements.ts\<close>, outside
  the sources at hand. It resolves a target id to its owner: the create op of the unit that
  has a slot and this \<^verbatim>\<open>xref\<close> (the later one, should two ops share it).
\<close>

definition slotOpXref :: "op \<Rightarrow> xref option" where
  "slotOpXref c =
     (case c of
        TextOp x h v sp \<Rightarrow> Some x
      | ElementStartOp tag x h attrs refs sp \<Rightarrow> Some x
      | ElementOp tag x h attrs refs sp \<Rightarrow> Some x
      | ContainerStartOp x h attrs refs sp \<Rightarrow> Some x
      | ContainerOp x h attrs refs sp \<Rightarrow> Some x
      | I18nStartOp x h r m c mi sti \<Rightarrow> Some x
      | I18nOp x h r m c mi sti \<Rightarrow> Some x
      | TemplateOp x h tag attrs refs sp \<Rightarrow> Some x
      | PipeOp x h n \<Rightarrow> Some x
      | DeferOp x h ms ls ps es lmt lat pmt rf lc pc sp \<Rightarrow> Some x
      | ProjectionOp x h i attrs sp \<Rightarrow> Some x
      | RepeaterCreateOp x h ev tag attrs tb uci d v sp \<Rightarrow> Some x
      | _ \<Rightarrow> None)"

fun createOpXrefMap_of :: "op list \<Rightarrow> (xref \<rightharpoonup> op) \<Rightarrow> (xref \<rightharpoonup> op)" where
  "createOpXrefMap_of [] m = m"
| "createOpXrefMap_of (c # cs) m =
     createOpXrefMap_of cs (case slotOpXref c of None \<Rightarrow> m | Some x \<Rightarrow> m(x \<mapsto> c))"

definition createOpXrefMap :: "compilation_unit \<Rightarrow> (xref \<rightharpoonup> op)" where
  "createOpXrefMap unit = createOpXrefMap_of (create unit) Map.empty"

text \<open>
  The body of \<^verbatim>\<open>case ir.OpKind.Property: case ir.OpKind.Attribute:\<close>, for an op with the
  given target, name and security context. The result is the value that \<^verbatim>\<open>op.sanitizer\<close>
  holds afterwards, and the error if the body throws: the first assignment to
  \<^verbatim>\<open>op.sanitizer\<close> precedes the \<^verbatim>\<open>throw\<close>.

  \<open>enumValue\<close> gives the numeric values of \<^verbatim>\<open>enum SanitizerFn\<close>, which is declared outside
  the sources at hand. They matter because \<^verbatim>\<open>sanitizers.get(...) || null\<close> and
  \<^verbatim>\<open>sanitizerFn ? ... : null\<close> take a member with the value 0 for an absent one.
  \<open>isIframeSecuritySensitiveAttr\<close> is the predicate of that name of
  \<^verbatim>\<open>schema/dom_security_schema.ts\<close>, also outside the sources.
\<close>

definition resolveSanitizer ::
    "(sanitizer_fn \<Rightarrow> nat) \<Rightarrow> (string \<Rightarrow> bool) \<Rightarrow> (xref \<rightharpoonup> op) \<Rightarrow> xref \<Rightarrow> string
      \<Rightarrow> security_context \<Rightarrow> expr option \<times> error option" where
  "resolveSanitizer enumValue isIframeSecuritySensitiveAttr elements target name securityContext =
     (let sanitizerFn =
            (case sanitizers securityContext of
               None \<Rightarrow> None
             | Some fn \<Rightarrow> if enumValue fn = 0 then None else Some fn);
          sanitizer =
            (case sanitizerFn of
               None \<Rightarrow> None
             | Some fn \<Rightarrow> if enumValue fn = 0 then None else Some (SanitizerExpr fn))
      in if sanitizer = None
         then (case elements target of
                 None \<Rightarrow> (None, Some (Error ''Property should have an element-like owner''))
               | Some ownerOp \<Rightarrow>
                   if \<not> isElementOrContainerOp ownerOp
                   then (None, Some (Error ''Property should have an element-like owner''))
                   else if isIframeElement ownerOp \<and> isIframeSecuritySensitiveAttr name
                   then (Some (SanitizerExpr SanitizerFn_IframeAttribute), None)
                   else (None, None))
         else (sanitizer, None))"

text \<open>The \<^verbatim>\<open>switch (op.kind)\<close> for one update op: the op as it is left, and the error.\<close>

definition resolveSanitizersOp ::
    "(sanitizer_fn \<Rightarrow> nat) \<Rightarrow> (string \<Rightarrow> bool) \<Rightarrow> (xref \<rightharpoonup> op) \<Rightarrow> op \<Rightarrow> op \<times> error option" where
  "resolveSanitizersOp enumValue isSensitive elements u =
     (case u of
        PropertyOp target name expression sanitizer securityContext sp \<Rightarrow>
          (case resolveSanitizer enumValue isSensitive elements target name securityContext of
             (s, err) \<Rightarrow> (PropertyOp target name expression s securityContext sp, err))
      | AttributeOp target name expression sanitizer securityContext sp \<Rightarrow>
          (case resolveSanitizer enumValue isSensitive elements target name securityContext of
             (s, err) \<Rightarrow> (AttributeOp target name expression s securityContext sp, err))
      | _ \<Rightarrow> (u, None))"

text \<open>\<^verbatim>\<open>for (const op of unit.update)\<close>: the ops after a throwing op stay as they are.\<close>

fun resolveSanitizersOps ::
    "(sanitizer_fn \<Rightarrow> nat) \<Rightarrow> (string \<Rightarrow> bool) \<Rightarrow> (xref \<rightharpoonup> op) \<Rightarrow> op list
      \<Rightarrow> op list \<times> error option" where
  "resolveSanitizersOps enumValue isSensitive elements [] = ([], None)"
| "resolveSanitizersOps enumValue isSensitive elements (u # us) =
     (case resolveSanitizersOp enumValue isSensitive elements u of
        (u1, Some err) \<Rightarrow> (u1 # us, Some err)
      | (u1, None) \<Rightarrow>
          (case resolveSanitizersOps enumValue isSensitive elements us of
             (us1, err) \<Rightarrow> (u1 # us1, err)))"

text \<open>\<^verbatim>\<open>for (const unit of job.units)\<close>\<close>

fun resolveSanitizersUnits ::
    "(sanitizer_fn \<Rightarrow> nat) \<Rightarrow> (string \<Rightarrow> bool) \<Rightarrow> compilation_unit list
      \<Rightarrow> compilation_unit list \<times> error option" where
  "resolveSanitizersUnits enumValue isSensitive [] = ([], None)"
| "resolveSanitizersUnits enumValue isSensitive (unit # rest) =
     (case resolveSanitizersOps enumValue isSensitive (createOpXrefMap unit) (update unit) of
        (ops1, Some err) \<Rightarrow> (unit\<lparr>update := ops1\<rparr> # rest, Some err)
      | (ops1, None) \<Rightarrow>
          (case resolveSanitizersUnits enumValue isSensitive rest of
             (rest1, err) \<Rightarrow> (unit\<lparr>update := ops1\<rparr> # rest1, err)))"

text \<open>
  The phase. It mutates the job in place, so the result is the job as the phase leaves it
  together with the error it throws, if any.
\<close>

definition resolveSanitizers ::
    "(sanitizer_fn \<Rightarrow> nat) \<Rightarrow> (string \<Rightarrow> bool) \<Rightarrow> compilation_job
      \<Rightarrow> compilation_job \<times> error option" where
  "resolveSanitizers enumValue isSensitive job =
     (case resolveSanitizersUnits enumValue isSensitive (units job) of
        (us, err) \<Rightarrow> (job\<lparr>units := us\<rparr>, err))"

text \<open>
  Modelled from the spec: \<^verbatim>\<open>enum SanitizerFn\<close> of the \<^verbatim>\<open>ir\<close> module is declared outside the
  sources at hand. It is a numeric enum whose members have no initialisers, so that
  TypeScript numbers them from 0 in the order of their declaration, in which \<^verbatim>\<open>Html\<close>
  comes first.
\<close>

primrec sanitizerFnValue :: "sanitizer_fn \<Rightarrow> nat" where
  "sanitizerFnValue SanitizerFn_Html = 0"
| "sanitizerFnValue SanitizerFn_Script = 1"
| "sanitizerFnValue SanitizerFn_Style = 2"
| "sanitizerFnValue SanitizerFn_Url = 3"
| "sanitizerFnValue SanitizerFn_ResourceUrl = 4"
| "sanitizerFnValue SanitizerFn_IframeAttribute = 5"


section \<open>Creation of i18n contexts (\<^verbatim>\<open>create_i18n_contexts.ts\<close>)\<close>

text \<open>
  The state of the first pass: the job (for its id allocator), \<^verbatim>\<open>currentI18nOp\<close> and
  \<^verbatim>\<open>rootContexts\<close>. Of \<^verbatim>\<open>currentI18nOp\<close> the state keeps the three fields that the loop
  reads, \<^verbatim>\<open>xref\<close>, \<^verbatim>\<open>message\<close> and \<^verbatim>\<open>context\<close>. The variable refers to the op object, so an
  assignment to \<^verbatim>\<open>op.context\<close> after \<^verbatim>\<open>currentI18nOp = op\<close> shows in it.
\<close>

type_synonym i18n_pass_state =
  "compilation_job \<times> (xref \<times> i18n_message \<times> xref option) option \<times> (xref \<rightharpoonup> xref)"

text \<open>
  The \<^verbatim>\<open>switch (op.kind)\<close> of the first pass for one create op: the op as it is left, the
  ops pushed to \<^verbatim>\<open>unit.create\<close>, and the new state.
\<close>

definition createI18nContexts_op ::
    "op \<Rightarrow> i18n_pass_state \<Rightarrow> error + (op \<times> op list \<times> i18n_pass_state)" where
  "createI18nContexts_op c st =
     (case st of (job, currentI18nOp, rootContexts) \<Rightarrow>
        (case c of
           I18nStartOp x h r message ctx mi sti \<Rightarrow>
             if x = r
             then (case allocateXrefId job of
                     (newXref, job1) \<Rightarrow>
                       Inr (I18nStartOp x h r message (Some newXref) mi sti,
                            [I18nContextOp I18nContextKind_RootI18n newXref x message None],
                            (job1, Some (x, message, Some newXref), rootContexts(x \<mapsto> newXref))))
             else Inr (c, [], (job, Some (x, message, ctx), rootContexts))
         | I18nEndOp x \<Rightarrow> Inr (c, [], (job, None, rootContexts))
         | IcuStartOp x message ctx \<Rightarrow>
             (case currentI18nOp of
                None \<Rightarrow> Inl (Error ''Unexpected ICU outside of an i18n block.'')
              | Some (curXref, curMessage, curContext) \<Rightarrow>
                  if message_id message \<noteq> message_id curMessage
                  then (case allocateXrefId job of
                          (newXref, job1) \<Rightarrow>
                            Inr (IcuStartOp x message (Some newXref),
                                 [I18nContextOp I18nContextKind_Icu newXref curXref message None],
                                 (job1, currentI18nOp, rootContexts)))
                  else Inr (IcuStartOp x message curContext, [], st))
         | _ \<Rightarrow> Inr (c, [], st)))"

text \<open>
  \<^verbatim>\<open>for (const op of unit.create)\<close> of the first pass. The ops that the loop pushes to the
  list it iterates over are \<^verbatim>\<open>I18nContext\<close> ops, for which the switch has no case: the
  pushed ops are collected and appended.
\<close>

fun createI18nContexts_ops ::
    "op list \<Rightarrow> i18n_pass_state \<Rightarrow> error + (op list \<times> op list \<times> i18n_pass_state)" where
  "createI18nContexts_ops [] st = Inr ([], [], st)"
| "createI18nContexts_ops (c # cs) st =
     (case createI18nContexts_op c st of
        Inl err \<Rightarrow> Inl err
      | Inr (c1, pushed, st1) \<Rightarrow>
          (case createI18nContexts_ops cs st1 of
             Inl err \<Rightarrow> Inl err
           | Inr (cs1, pushed1, st2) \<Rightarrow> Inr (c1 # cs1, pushed @ pushed1, st2)))"

text \<open>\<^verbatim>\<open>for (const unit of job.units)\<close> of the first pass.\<close>

fun createI18nContexts_units ::
    "compilation_unit list \<Rightarrow> i18n_pass_state
      \<Rightarrow> error + (compilation_unit list \<times> i18n_pass_state)" where
  "createI18nContexts_units [] st = Inr ([], st)"
| "createI18nContexts_units (unit # rest) st =
     (case createI18nContexts_ops (create unit) st of
        Inl err \<Rightarrow> Inl err
      | Inr (cs1, pushed, st1) \<Rightarrow>
          (case createI18nContexts_units rest st1 of
             Inl err \<Rightarrow> Inl err
           | Inr (rest1, st2) \<Rightarrow> Inr (unit\<lparr>create := cs1 @ pushed\<rparr> # rest1, st2)))"

text \<open>
  The second pass for one create op;
  \<^verbatim>\<open>rootContexts.get(op.root)!\<close> is \<^verbatim>\<open>undefined\<close> for a root without entry.
\<close>

definition assignRootContext :: "(xref \<rightharpoonup> xref) \<Rightarrow> op \<Rightarrow> op" where
  "assignRootContext rootContexts c =
     (case c of
        I18nStartOp x h r message ctx mi sti \<Rightarrow>
          if x \<noteq> r then I18nStartOp x h r message (rootContexts r) mi sti else c
      | _ \<Rightarrow> c)"

definition createI18nContexts :: "compilation_job \<Rightarrow> error + compilation_job" where
  "createI18nContexts job =
     (case createI18nContexts_units (units job) (job, None, Map.empty) of
        Inl err \<Rightarrow> Inl err
      | Inr (us, (job1, currentI18nOp, rootContexts)) \<Rightarrow>
          Inr (job1\<lparr>units :=
                 map (\<lambda>unit. unit\<lparr>create := map (assignRootContext rootContexts) (create unit)\<rparr>)
                   us\<rparr>))"

section \<open>Visiting and transforming expressions (\<^verbatim>\<open>ir/src/expression.ts\<close>)\<close>

text \<open>
  \<^verbatim>\<open>ir.isIrExpression\<close>: whether an expression is of an IR-specific class. The output
  expressions are the first fourteen constructors of \<open>expr\<close>.
\<close>

primrec isIrExpression :: "expr \<Rightarrow> bool" where
  "isIrExpression (ReadVarExpr n) = False"
| "isIrExpression (WriteVarExpr n v) = False"
| "isIrExpression (ReadPropExpr r n sp) = False"
| "isIrExpression (WritePropExpr r n v sp) = False"
| "isIrExpression (ReadKeyExpr r k sp) = False"
| "isIrExpression (WriteKeyExpr r k v sp) = False"
| "isIrExpression (InvokeFunctionExpr f args sp) = False"
| "isIrExpression (LiteralExpr v sp) = False"
| "isIrExpression (BinaryOperatorExpr operator l r sp) = False"
| "isIrExpression (LiteralMapExpr entries sp) = False"
| "isIrExpression (LiteralArrayExpr es) = False"
| "isIrExpression (ConditionalExpr c t f sp) = False"
| "isIrExpression (ExternalExpr r) = False"
| "isIrExpression (FunctionExpr params stmts name) = False"
| "isIrExpression (LexicalReadExpr n) = True"
| "isIrExpression (ContextExpr v) = True"
| "isIrExpression (NextContextExpr steps) = True"
| "isIrExpression (ReferenceExpr target slot offset) = True"
| "isIrExpression (RestoreViewExpr v) = True"
| "isIrExpression (ResetViewExpr e) = True"
| "isIrExpression GetCurrentViewExpr = True"
| "isIrExpression (ReadVariableExpr x n) = True"
| "isIrExpression (ReadTemporaryExpr x n) = True"
| "isIrExpression (AssignTemporaryExpr e x n) = True"
| "isIrExpression (PureFunctionExpr body args fn varOffset) = True"
| "isIrExpression (PureFunctionParameterExpr i) = True"
| "isIrExpression (PipeBindingExpr x slot n args varOffset) = True"
| "isIrExpression (PipeBindingVariadicExpr x slot n args numArgs varOffset) = True"
| "isIrExpression (SanitizerExpr fn) = True"
| "isIrExpression (SlotLiteralExpr slot) = True"
| "isIrExpression (SafeKeyedReadExpr r k sp) = True"
| "isIrExpression (SafePropertyReadExpr r n) = True"
| "isIrExpression (SafeInvokeFunctionExpr r args) = True"
| "isIrExpression (EmptyExpr sp) = True"
| "isIrExpression (ConditionalCaseExpr e target slot alias) = True"
| "isIrExpression (DerivedRepeaterVarExpr x v) = True"

text \<open>The expressions that a statement or a literal map entry holds.\<close>

primrec stmtExprs :: "'e stmt \<Rightarrow> 'e list" where
  "stmtExprs (ExpressionStatement e sp) = [e]"
| "stmtExprs (ReturnStatement e sp) = [e]"
| "stmtExprs (DeclareVarStmt n v) = (case v of None \<Rightarrow> [] | Some e \<Rightarrow> [e])"

primrec entryValue :: "'e literal_map_entry \<Rightarrow> 'e" where
  "entryValue (LiteralMapEntry k v q) = v"

text \<open>
  The same statement, or entry, or optional expression, with its expressions taken from
  the front of a list, and the rest of the list.
\<close>

primrec stmtWith :: "'e stmt \<Rightarrow> 'e list \<Rightarrow> 'e stmt \<times> 'e list" where
  "stmtWith (ExpressionStatement e sp) cs =
     (case cs of [] \<Rightarrow> (ExpressionStatement e sp, []) | c # r \<Rightarrow> (ExpressionStatement c sp, r))"
| "stmtWith (ReturnStatement e sp) cs =
     (case cs of [] \<Rightarrow> (ReturnStatement e sp, []) | c # r \<Rightarrow> (ReturnStatement c sp, r))"
| "stmtWith (DeclareVarStmt n v) cs =
     (case v of
        None \<Rightarrow> (DeclareVarStmt n None, cs)
      | Some e \<Rightarrow>
          (case cs of [] \<Rightarrow> (DeclareVarStmt n v, []) | c # r \<Rightarrow> (DeclareVarStmt n (Some c), r)))"

primrec stmtsWith :: "'e stmt list \<Rightarrow> 'e list \<Rightarrow> 'e stmt list" where
  "stmtsWith [] cs = []"
| "stmtsWith (s # ss) cs = (case stmtWith s cs of (s1, r) \<Rightarrow> s1 # stmtsWith ss r)"

primrec entriesWith :: "'e literal_map_entry list \<Rightarrow> 'e list \<Rightarrow> 'e literal_map_entry list" where
  "entriesWith [] cs = []"
| "entriesWith (en # ens) cs =
     (case en of LiteralMapEntry k v q \<Rightarrow>
        (case cs of
           [] \<Rightarrow> en # ens
         | c # r \<Rightarrow> LiteralMapEntry k c q # entriesWith ens r))"

definition optionExprs :: "'e option \<Rightarrow> 'e list" where
  "optionExprs v = (case v of None \<Rightarrow> [] | Some e \<Rightarrow> [e])"

definition optionWith :: "'e option \<Rightarrow> 'e list \<Rightarrow> 'e option \<times> 'e list" where
  "optionWith v cs =
     (case v of
        None \<Rightarrow> (None, cs)
      | Some e \<Rightarrow> (case cs of [] \<Rightarrow> (v, []) | c # r \<Rightarrow> (Some c, r)))"

text \<open>The immediate sub-expressions of an expression, in the order of its fields.\<close>

primrec immediate :: "expr \<Rightarrow> expr list" where
  "immediate (ReadVarExpr n) = []"
| "immediate (WriteVarExpr n v) = [v]"
| "immediate (ReadPropExpr r n sp) = [r]"
| "immediate (WritePropExpr r n v sp) = [r, v]"
| "immediate (ReadKeyExpr r k sp) = [r, k]"
| "immediate (WriteKeyExpr r k v sp) = [r, k, v]"
| "immediate (InvokeFunctionExpr f args sp) = f # args"
| "immediate (LiteralExpr v sp) = []"
| "immediate (BinaryOperatorExpr operator l r sp) = [l, r]"
| "immediate (LiteralMapExpr entries sp) = map entryValue entries"
| "immediate (LiteralArrayExpr es) = es"
| "immediate (ConditionalExpr c t f sp) = [c, t, f]"
| "immediate (ExternalExpr r) = []"
| "immediate (FunctionExpr params stmts name) = concat (map stmtExprs stmts)"
| "immediate (LexicalReadExpr n) = []"
| "immediate (ContextExpr v) = []"
| "immediate (NextContextExpr steps) = []"
| "immediate (ReferenceExpr target slot offset) = []"
| "immediate (RestoreViewExpr v) = (case v of Inl x \<Rightarrow> [] | Inr e \<Rightarrow> [e])"
| "immediate (ResetViewExpr e) = [e]"
| "immediate GetCurrentViewExpr = []"
| "immediate (ReadVariableExpr x n) = []"
| "immediate (ReadTemporaryExpr x n) = []"
| "immediate (AssignTemporaryExpr e x n) = [e]"
| "immediate (PureFunctionExpr body args fn varOffset) =
     optionExprs body @ optionExprs fn @ args"
| "immediate (PureFunctionParameterExpr i) = []"
| "immediate (PipeBindingExpr x slot n args varOffset) = args"
| "immediate (PipeBindingVariadicExpr x slot n args numArgs varOffset) = [args]"
| "immediate (SanitizerExpr fn) = []"
| "immediate (SlotLiteralExpr slot) = []"
| "immediate (SafeKeyedReadExpr r k sp) = [r, k]"
| "immediate (SafePropertyReadExpr r n) = [r]"
| "immediate (SafeInvokeFunctionExpr r args) = r # args"
| "immediate (EmptyExpr sp) = []"
| "immediate (ConditionalCaseExpr e target slot alias) = optionExprs e"
| "immediate (DerivedRepeaterVarExpr x v) = []"

text \<open>
  The same expression with its immediate sub-expressions replaced by the members of a list
  of the same length (a shorter list leaves the remaining fields as they are).
\<close>

primrec withImmediate :: "expr \<Rightarrow> expr list \<Rightarrow> expr" where
  "withImmediate (ReadVarExpr n) cs = ReadVarExpr n"
| "withImmediate (WriteVarExpr n v) cs =
     (case cs of [c] \<Rightarrow> WriteVarExpr n c | _ \<Rightarrow> WriteVarExpr n v)"
| "withImmediate (ReadPropExpr r n sp) cs =
     (case cs of [c] \<Rightarrow> ReadPropExpr c n sp | _ \<Rightarrow> ReadPropExpr r n sp)"
| "withImmediate (WritePropExpr r n v sp) cs =
     (case cs of [c, d] \<Rightarrow> WritePropExpr c n d sp | _ \<Rightarrow> WritePropExpr r n v sp)"
| "withImmediate (ReadKeyExpr r k sp) cs =
     (case cs of [c, d] \<Rightarrow> ReadKeyExpr c d sp | _ \<Rightarrow> ReadKeyExpr r k sp)"
| "withImmediate (WriteKeyExpr r k v sp) cs =
     (case cs of [c, d, e] \<Rightarrow> WriteKeyExpr c d e sp | _ \<Rightarrow> WriteKeyExpr r k v sp)"
| "withImmediate (InvokeFunctionExpr f args sp) cs =
     (case cs of [] \<Rightarrow> InvokeFunctionExpr f args sp | c # r \<Rightarrow> InvokeFunctionExpr c r sp)"
| "withImmediate (LiteralExpr v sp) cs = LiteralExpr v sp"
| "withImmediate (BinaryOperatorExpr operator l r sp) cs =
     (case cs of
        [c, d] \<Rightarrow> BinaryOperatorExpr operator c d sp
      | _ \<Rightarrow> BinaryOperatorExpr operator l r sp)"
| "withImmediate (LiteralMapExpr entries sp) cs = LiteralMapExpr (entriesWith entries cs) sp"
| "withImmediate (LiteralArrayExpr es) cs = LiteralArrayExpr cs"
| "withImmediate (ConditionalExpr c t f sp) cs =
     (case cs of [c1, t1, f1] \<Rightarrow> ConditionalExpr c1 t1 f1 sp | _ \<Rightarrow> ConditionalExpr c t f sp)"
| "withImmediate (ExternalExpr r) cs = ExternalExpr r"
| "withImmediate (FunctionExpr params stmts name) cs =
     FunctionExpr params (stmtsWith stmts cs) name"
| "withImmediate (LexicalReadExpr n) cs = LexicalReadExpr n"
| "withImmediate (ContextExpr v) cs = ContextExpr v"
| "withImmediate (NextContextExpr steps) cs = NextContextExpr steps"
| "withImmediate (ReferenceExpr target slot offset) cs = ReferenceExpr target slot offset"
| "withImmediate (RestoreViewExpr v) cs =
     (case v of
        Inl x \<Rightarrow> RestoreViewExpr v
      | Inr e \<Rightarrow> (case cs of [c] \<Rightarrow> RestoreViewExpr (Inr c) | _ \<Rightarrow> RestoreViewExpr v))"
| "withImmediate (ResetViewExpr e) cs =
     (case cs of [c] \<Rightarrow> ResetViewExpr c | _ \<Rightarrow> ResetViewExpr e)"
| "withImmediate GetCurrentViewExpr cs = GetCurrentViewExpr"
| "withImmediate (ReadVariableExpr x n) cs = ReadVariableExpr x n"
| "withImmediate (ReadTemporaryExpr x n) cs = ReadTemporaryExpr x n"
| "withImmediate (AssignTemporaryExpr e x n) cs =
     (case cs of [c] \<Rightarrow> AssignTemporaryExpr c x n | _ \<Rightarrow> AssignTemporaryExpr e x n)"
| "withImmediate (PureFunctionExpr body args fn varOffset) cs =
     (case optionWith body cs of (body1, r1) \<Rightarrow>
        (case optionWith fn r1 of (fn1, r2) \<Rightarrow> PureFunctionExpr body1 r2 fn1 varOffset))"
| "withImmediate (PureFunctionParameterExpr i) cs = PureFunctionParameterExpr i"
| "withImmediate (PipeBindingExpr x slot n args varOffset) cs =
     PipeBindingExpr x slot n cs varOffset"
| "withImmediate (PipeBindingVariadicExpr x slot n args numArgs varOffset) cs =
     (case cs of
        [c] \<Rightarrow> PipeBindingVariadicExpr x slot n c numArgs varOffset
      | _ \<Rightarrow> PipeBindingVariadicExpr x slot n args numArgs varOffset)"
| "withImmediate (SanitizerExpr fn) cs = SanitizerExpr fn"
| "withImmediate (SlotLiteralExpr slot) cs = SlotLiteralExpr slot"
| "withImmediate (SafeKeyedReadExpr r k sp) cs =
     (case cs of [c, d] \<Rightarrow> SafeKeyedReadExpr c d sp | _ \<Rightarrow> SafeKeyedReadExpr r k sp)"
| "withImmediate (SafePropertyReadExpr r n) cs =
     (case cs of [c] \<Rightarrow> SafePropertyReadExpr c n | _ \<Rightarrow> SafePropertyReadExpr r n)"
| "withImmediate (SafeInvokeFunctionExpr r args) cs =
     (case cs of [] \<Rightarrow> SafeInvokeFunctionExpr r args | c # rest \<Rightarrow> SafeInvokeFunctionExpr c rest)"
| "withImmediate (EmptyExpr sp) cs = EmptyExpr sp"
| "withImmediate (ConditionalCaseExpr e target slot alias) cs =
     ConditionalCaseExpr (fst (optionWith e cs)) target slot alias"
| "withImmediate (DerivedRepeaterVarExpr x v) cs = DerivedRepeaterVarExpr x v"

lemma size_stmtExprs: "c \<in> set (stmtExprs s) \<Longrightarrow> size c < size_stmt size s"
  by (cases s) (auto split: option.splits)

lemma size_member: "c \<in> set cs \<Longrightarrow> size (c :: expr) \<le> size_list size cs"
  by (simp add: size_list_estimation')

lemma size_immediate: "c \<in> set (immediate e) \<Longrightarrow> size c < size e"
proof (cases e)
  case (FunctionExpr params stmts name)
  assume "c \<in> set (immediate e)"
  with FunctionExpr obtain s where s: "s \<in> set stmts" "c \<in> set (stmtExprs s)" by auto
  from s(2) have "size c < size_stmt size s" by (rule size_stmtExprs)
  also from s(1) have "size_stmt size s \<le> size_list (size_stmt size) stmts"
    by (simp add: size_list_estimation')
  finally show ?thesis using FunctionExpr by simp
next
  case (LiteralMapExpr entries sp)
  assume "c \<in> set (immediate e)"
  with LiteralMapExpr obtain en where en: "en \<in> set entries" "c = entryValue en" by auto
  from en(2) have "size c < size_literal_map_entry size en" by (cases en) simp
  also from en(1) have "size_literal_map_entry size en
      \<le> size_list (size_literal_map_entry size) entries"
    by (simp add: size_list_estimation')
  finally show ?thesis using LiteralMapExpr by simp
qed (auto simp: optionExprs_def less_Suc_eq_le split: option.splits sum.splits
      dest!: size_member)

text \<open>
  A state-passing map that stops at the first error: \<open>f\<close> is applied to the members of a
  list from left to right.
\<close>

fun mapState :: "('a \<Rightarrow> 's \<Rightarrow> error + 'b \<times> 's) \<Rightarrow> 'a list \<Rightarrow> 's \<Rightarrow> error + 'b list \<times> 's" where
  "mapState f [] s = Inr ([], s)"
| "mapState f (x # xs) s =
     (case f x s of
        Inl err \<Rightarrow> Inl err
      | Inr (y, s1) \<Rightarrow>
          (case mapState f xs s1 of
             Inl err \<Rightarrow> Inl err
           | Inr (ys, s2) \<Rightarrow> Inr (y # ys, s2)))"

lemma mapState_cong [fundef_cong]:
  "xs = ys \<Longrightarrow> s = t \<Longrightarrow> (\<And>x u. x \<in> set ys \<Longrightarrow> f x u = g x u) \<Longrightarrow>
     mapState f xs s = mapState g ys t"
proof (induction ys arbitrary: xs s t)
  case Nil
  then show ?case by simp
next
  case (Cons y ys)
  have "\<And>u. mapState f ys u = mapState g ys u"
    using Cons.IH [OF refl refl] Cons.prems(3) by simp
  then show ?case using Cons.prems by (simp split: sum.splits)
qed

text \<open>
  Modelled from the spec: \<^verbatim>\<open>ir.transformExpressionsInExpression\<close> is declared outside the
  sources at hand. It applies \<open>transform\<close> to every expression nested in the given one and
  to the expression itself, the nested ones first, and puts the results in their places.
  The transforms of the sources throw (\<open>Inl\<close>) or have an effect on a variable of their
  context, which is the state \<open>s\<close> here; they ignore the visitor flags, which are left out.
\<close>

function transformExpressionsInExpression ::
    "(expr \<Rightarrow> 's \<Rightarrow> error + expr \<times> 's) \<Rightarrow> expr \<Rightarrow> 's \<Rightarrow> error + expr \<times> 's" where
  "transformExpressionsInExpression transform e s =
     (case mapState (transformExpressionsInExpression transform) (immediate e) s of
        Inl err \<Rightarrow> Inl err
      | Inr (cs, s1) \<Rightarrow> transform (withImmediate e cs) s1)"
  by pat_completeness auto
termination
  by (relation "measure (\<lambda>(transform, e, s). size e)") (auto simp: size_immediate)

text \<open>An expression and all expressions nested in it.\<close>

function subexprs :: "expr \<Rightarrow> expr list" where
  "subexprs e = e # concat (map subexprs (immediate e))"
  by pat_completeness auto
termination
  by (relation "measure size") (auto simp: size_immediate)


section \<open>Visiting and transforming the expressions of an op\<close>

primrec bindingExprs :: "binding_expr \<Rightarrow> expr list" where
  "bindingExprs (Plain e) = [e]"
| "bindingExprs (Interpolation strings es) = es"

primrec bindingWith :: "binding_expr \<Rightarrow> expr list \<Rightarrow> binding_expr \<times> expr list" where
  "bindingWith (Plain e) cs = (case cs of [] \<Rightarrow> (Plain e, []) | c # r \<Rightarrow> (Plain c, r))"
| "bindingWith (Interpolation strings es) cs =
     (Interpolation strings (take (length es) cs), drop (length es) cs)"

text \<open>The expressions that the fields of an op hold (those of handler ops apart).\<close>

definition opExprs :: "op \<Rightarrow> expr list" where
  "opExprs c =
     (case c of
        VariableOp x n initializer \<Rightarrow> [initializer]
      | DeferOp x h ms ls ps es lmt lat pmt resolverFn loadingConfig placeholderConfig sp \<Rightarrow>
          optionExprs resolverFn @ optionExprs loadingConfig @ optionExprs placeholderConfig
      | ProjectionDefOp d \<Rightarrow> optionExprs d
      | RepeaterCreateOp x h ev tag attrs trackByFn uci d v sp \<Rightarrow> optionExprs trackByFn
      | StatementOp s \<Rightarrow> stmtExprs s
      | ExtractedAttributeOp x k n e \<Rightarrow> optionExprs e
      | BindingOp x k n expression u sc ta st sp \<Rightarrow> bindingExprs expression
      | PropertyOp t n expression sanitizer sc sp \<Rightarrow>
          bindingExprs expression @ optionExprs sanitizer
      | AttributeOp t n expression sanitizer sc sp \<Rightarrow>
          bindingExprs expression @ optionExprs sanitizer
      | StylePropOp t n expression u sp \<Rightarrow> bindingExprs expression
      | ClassPropOp t n e sp \<Rightarrow> [e]
      | StyleMapOp t expression sp \<Rightarrow> bindingExprs expression
      | ClassMapOp t expression sp \<Rightarrow> bindingExprs expression
      | I18nExpressionOp x e sp \<Rightarrow> [e]
      | InterpolateTextOp x strings es sp \<Rightarrow> es
      | HostPropertyOp n expression anim sp \<Rightarrow> bindingExprs expression
      | ConditionalOp t slot processed contextValue sp \<Rightarrow>
          optionExprs processed @ optionExprs contextValue
      | RepeaterOp t collection sp \<Rightarrow> [collection]
      | DeferWhenOp t e p sp \<Rightarrow> [e]
      | _ \<Rightarrow> [])"

text \<open>The same op with these expressions replaced by the members of a list.\<close>

definition withOpExprs :: "op \<Rightarrow> expr list \<Rightarrow> op" where
  "withOpExprs c cs =
     (case c of
        VariableOp x n initializer \<Rightarrow>
          (case cs of [] \<Rightarrow> c | c1 # r \<Rightarrow> VariableOp x n c1)
      | DeferOp x h ms ls ps es lmt lat pmt resolverFn loadingConfig placeholderConfig sp \<Rightarrow>
          (case optionWith resolverFn cs of (rf, r1) \<Rightarrow>
          (case optionWith loadingConfig r1 of (lc, r2) \<Rightarrow>
          (case optionWith placeholderConfig r2 of (pc, r3) \<Rightarrow>
             DeferOp x h ms ls ps es lmt lat pmt rf lc pc sp)))
      | ProjectionDefOp d \<Rightarrow> ProjectionDefOp (fst (optionWith d cs))
      | RepeaterCreateOp x h ev tag attrs trackByFn uci d v sp \<Rightarrow>
          RepeaterCreateOp x h ev tag attrs (fst (optionWith trackByFn cs)) uci d v sp
      | StatementOp s \<Rightarrow> StatementOp (fst (stmtWith s cs))
      | ExtractedAttributeOp x k n e \<Rightarrow> ExtractedAttributeOp x k n (fst (optionWith e cs))
      | BindingOp x k n expression u sc ta st sp \<Rightarrow>
          BindingOp x k n (fst (bindingWith expression cs)) u sc ta st sp
      | PropertyOp t n expression sanitizer sc sp \<Rightarrow>
          (case bindingWith expression cs of (b, r) \<Rightarrow>
             PropertyOp t n b (fst (optionWith sanitizer r)) sc sp)
      | AttributeOp t n expression sanitizer sc sp \<Rightarrow>
          (case bindingWith expression cs of (b, r) \<Rightarrow>
             AttributeOp t n b (fst (optionWith sanitizer r)) sc sp)
      | StylePropOp t n expression u sp \<Rightarrow>
          StylePropOp t n (fst (bindingWith expression cs)) u sp
      | ClassPropOp t n e sp \<Rightarrow> (case cs of [] \<Rightarrow> c | c1 # r \<Rightarrow> ClassPropOp t n c1 sp)
      | StyleMapOp t expression sp \<Rightarrow> StyleMapOp t (fst (bindingWith expression cs)) sp
      | ClassMapOp t expression sp \<Rightarrow> ClassMapOp t (fst (bindingWith expression cs)) sp
      | I18nExpressionOp x e sp \<Rightarrow>
          (case cs of [] \<Rightarrow> c | c1 # r \<Rightarrow> I18nExpressionOp x c1 sp)
      | InterpolateTextOp x strings es sp \<Rightarrow> InterpolateTextOp x strings cs sp
      | HostPropertyOp n expression anim sp \<Rightarrow>
          HostPropertyOp n (fst (bindingWith expression cs)) anim sp
      | ConditionalOp t slot processed contextValue sp \<Rightarrow>
          (case optionWith processed cs of (p, r) \<Rightarrow>
             ConditionalOp t slot p (fst (optionWith contextValue r)) sp)
      | RepeaterOp t collection sp \<Rightarrow> (case cs of [] \<Rightarrow> c | c1 # r \<Rightarrow> RepeaterOp t c1 sp)
      | DeferWhenOp t e p sp \<Rightarrow> (case cs of [] \<Rightarrow> c | c1 # r \<Rightarrow> DeferWhenOp t c1 p sp)
      | _ \<Rightarrow> c)"

text \<open>\<^verbatim>\<open>op.handlerOps\<close> of a listener; no other op has handler ops.\<close>

definition handlerOps :: "op \<Rightarrow> op list" where
  "handlerOps c = (case c of ListenerOp t n hfn hs cde hl al sp \<Rightarrow> hs | _ \<Rightarrow> [])"

definition withHandlerOps :: "op \<Rightarrow> op list \<Rightarrow> op" where
  "withHandlerOps c hs1 =
     (case c of ListenerOp t n hfn hs cde hl al sp \<Rightarrow> ListenerOp t n hfn hs1 cde hl al sp | _ \<Rightarrow> c)"

lemma size_handlerOps: "h \<in> set (handlerOps c) \<Longrightarrow> size h < size c"
  by (cases c) (auto simp: handlerOps_def less_Suc_eq_le size_list_estimation')

text \<open>
  Modelled from the spec: \<^verbatim>\<open>ir.transformExpressionsInOp\<close> is declared outside the sources
  at hand. It transforms every expression that the op holds and, for a listener, every
  expression of its handler ops.
\<close>

function transformExpressionsInOp ::
    "(expr \<Rightarrow> 's \<Rightarrow> error + expr \<times> 's) \<Rightarrow> op \<Rightarrow> 's \<Rightarrow> error + op \<times> 's" where
  "transformExpressionsInOp transform c s =
     (case mapState (transformExpressionsInExpression transform) (opExprs c) s of
        Inl err \<Rightarrow> Inl err
      | Inr (cs, s1) \<Rightarrow>
          (case mapState (transformExpressionsInOp transform) (handlerOps c) s1 of
             Inl err \<Rightarrow> Inl err
           | Inr (hs, s2) \<Rightarrow> Inr (withHandlerOps (withOpExprs c cs) hs, s2)))"
  by pat_completeness auto
termination
  by (relation "measure (\<lambda>(transform, c, s). size c)") (auto simp: size_handlerOps)

text \<open>All expressions of an op, nested ones and those of handler ops included.\<close>

function opSubexprs :: "op \<Rightarrow> expr list" where
  "opSubexprs c =
     concat (map subexprs (opExprs c)) @ concat (map opSubexprs (handlerOps c))"
  by pat_completeness auto
termination
  by (relation "measure size") (auto simp: size_handlerOps)

section \<open>Resolution of \<^verbatim>\<open>$event\<close> (\<^verbatim>\<open>resolve_dollar_event.ts\<close>)\<close>

text \<open>
  The transform that \<^verbatim>\<open>transformDollarEvent\<close> passes for a listener op. The state is the
  \<^verbatim>\<open>consumesDollarEvent\<close> of that op, which the transform sets.
\<close>

definition dollarEventTransform :: "expr \<Rightarrow> bool \<Rightarrow> error + expr \<times> bool" where
  "dollarEventTransform e consumesDollarEvent =
     (case e of
        LexicalReadExpr name \<Rightarrow>
          if name = ''$event'' then Inr (ReadVarExpr name, True) else Inr (e, consumesDollarEvent)
      | _ \<Rightarrow> Inr (e, consumesDollarEvent))"

text \<open>The body of the loop of \<^verbatim>\<open>transformDollarEvent\<close> for one op.\<close>

definition transformDollarEvent_op :: "op \<Rightarrow> error + op" where
  "transformDollarEvent_op c =
     (case c of
        ListenerOp t n hfn hs consumesDollarEvent hl al sp \<Rightarrow>
          (case transformExpressionsInOp dollarEventTransform c consumesDollarEvent of
             Inl err \<Rightarrow> Inl err
           | Inr (c1, consumes1) \<Rightarrow>
               (case c1 of
                  ListenerOp t1 n1 hfn1 hs1 cde1 hl1 al1 sp1 \<Rightarrow>
                    Inr (ListenerOp t1 n1 hfn1 hs1 consumes1 hl1 al1 sp1)
                | _ \<Rightarrow> Inr c1))
      | _ \<Rightarrow> Inr c)"

text \<open>A map that stops at the first error.\<close>

fun mapError :: "('a \<Rightarrow> error + 'b) \<Rightarrow> 'a list \<Rightarrow> error + 'b list" where
  "mapError f [] = Inr []"
| "mapError f (x # xs) =
     (case f x of
        Inl err \<Rightarrow> Inl err
      | Inr y \<Rightarrow> (case mapError f xs of Inl err \<Rightarrow> Inl err | Inr ys \<Rightarrow> Inr (y # ys)))"

definition transformDollarEvent :: "op list \<Rightarrow> error + op list" where
  "transformDollarEvent ops = mapError transformDollarEvent_op ops"

definition resolveDollarEvent_unit :: "compilation_unit \<Rightarrow> error + compilation_unit" where
  "resolveDollarEvent_unit unit =
     (case transformDollarEvent (create unit) of
        Inl err \<Rightarrow> Inl err
      | Inr cs \<Rightarrow>
          (case transformDollarEvent (update unit) of
             Inl err \<Rightarrow> Inl err
           | Inr us \<Rightarrow> Inr (unit\<lparr>create := cs, update := us\<rparr>)))"

definition resolveDollarEvent :: "compilation_job \<Rightarrow> error + compilation_job" where
  "resolveDollarEvent job =
     (case mapError resolveDollarEvent_unit (units job) of
        Inl err \<Rightarrow> Inl err
      | Inr us \<Rightarrow> Inr (job\<lparr>units := us\<rparr>))"

section \<open>Reification (\<^verbatim>\<open>reify.ts\<close>)\<close>

text \<open>\<^verbatim>\<open>ir.OpKind[op.kind]\<close>, the name of a kind.\<close>

primrec opKindName :: "op_kind \<Rightarrow> string" where
  "opKindName OpKind_Text = ''Text''"
| "opKindName OpKind_ElementStart = ''ElementStart''"
| "opKindName OpKind_Element = ''Element''"
| "opKindName OpKind_ElementEnd = ''ElementEnd''"
| "opKindName OpKind_ContainerStart = ''ContainerStart''"
| "opKindName OpKind_Container = ''Container''"
| "opKindName OpKind_ContainerEnd = ''ContainerEnd''"
| "opKindName OpKind_I18nStart = ''I18nStart''"
| "opKindName OpKind_I18nEnd = ''I18nEnd''"
| "opKindName OpKind_I18n = ''I18n''"
| "opKindName OpKind_Template = ''Template''"
| "opKindName OpKind_DisableBindings = ''DisableBindings''"
| "opKindName OpKind_EnableBindings = ''EnableBindings''"
| "opKindName OpKind_Pipe = ''Pipe''"
| "opKindName OpKind_Listener = ''Listener''"
| "opKindName OpKind_Variable = ''Variable''"
| "opKindName OpKind_Namespace = ''Namespace''"
| "opKindName OpKind_Defer = ''Defer''"
| "opKindName OpKind_DeferOn = ''DeferOn''"
| "opKindName OpKind_ProjectionDef = ''ProjectionDef''"
| "opKindName OpKind_Projection = ''Projection''"
| "opKindName OpKind_RepeaterCreate = ''RepeaterCreate''"
| "opKindName OpKind_Statement = ''Statement''"
| "opKindName OpKind_I18nContext = ''I18nContext''"
| "opKindName OpKind_IcuStart = ''IcuStart''"
| "opKindName OpKind_IcuEnd = ''IcuEnd''"
| "opKindName OpKind_ExtractedAttribute = ''ExtractedAttribute''"
| "opKindName OpKind_Binding = ''Binding''"
| "opKindName OpKind_Advance = ''Advance''"
| "opKindName OpKind_Property = ''Property''"
| "opKindName OpKind_Attribute = ''Attribute''"
| "opKindName OpKind_StyleProp = ''StyleProp''"
| "opKindName OpKind_ClassProp = ''ClassProp''"
| "opKindName OpKind_StyleMap = ''StyleMap''"
| "opKindName OpKind_ClassMap = ''ClassMap''"
| "opKindName OpKind_I18nExpression = ''I18nExpression''"
| "opKindName OpKind_I18nApply = ''I18nApply''"
| "opKindName OpKind_InterpolateText = ''InterpolateText''"
| "opKindName OpKind_HostProperty = ''HostProperty''"
| "opKindName OpKind_Conditional = ''Conditional''"
| "opKindName OpKind_Repeater = ''Repeater''"
| "opKindName OpKind_DeferWhen = ''DeferWhen''"

text \<open>
  Modelled from the spec: the instruction builders \<^verbatim>\<open>ng.*\<close> of \<^verbatim>\<open>instruction.ts\<close> are
  declared outside the sources at hand. By the spec a reified op is a Statement op that
  wraps a call of an instruction of the runtime, and a reified IR expression is an output
  expression. \<open>ng_call\<close> is such a statement op and \<open>ng_expr\<close> such a call expression: the
  instruction is an external reference by its name, and the arguments are those that
  \<^verbatim>\<open>reify.ts\<close> passes, in its order, a number, string, boolean or \<^verbatim>\<open>null\<close> as a literal.
\<close>

definition ng_expr :: "string \<Rightarrow> expr list \<Rightarrow> expr" where
  "ng_expr instruction args = InvokeFunctionExpr (ExternalExpr instruction) args None"

definition ng_call :: "string \<Rightarrow> expr list \<Rightarrow> source_span option \<Rightarrow> op" where
  "ng_call instruction args sourceSpan =
     StatementOp (ExpressionStatement (ng_expr instruction args) sourceSpan)"

definition numLit :: "nat \<Rightarrow> expr" where
  "numLit n = LiteralExpr (LNum (int n)) None"

definition strLit :: "string \<Rightarrow> expr" where
  "strLit s = LiteralExpr (LStr s) None"

definition boolLit :: "bool \<Rightarrow> expr" where
  "boolLit b = LiteralExpr (LBool b) None"

definition nullLit :: expr where
  "nullLit = LiteralExpr LNull None"

definition optNumLit :: "nat option \<Rightarrow> expr" where
  "optNumLit n = (case n of None \<Rightarrow> nullLit | Some k \<Rightarrow> numLit k)"

definition optStrLit :: "string option \<Rightarrow> expr" where
  "optStrLit s = (case s of None \<Rightarrow> nullLit | Some t \<Rightarrow> strLit t)"

definition optExpr :: "expr option \<Rightarrow> expr" where
  "optExpr e = (case e of None \<Rightarrow> nullLit | Some x \<Rightarrow> x)"

definition localRefsLit :: "local_refs \<Rightarrow> expr" where
  "localRefsLit refs =
     (case refs of
        LocalRefConst n \<Rightarrow> optNumLit n
      | LocalRefArray rs \<Rightarrow>
          LiteralArrayExpr (concat (map (\<lambda>(name, target). [strLit name, strLit target]) rs)))"

text \<open>The strings and expressions of an interpolation, as two array arguments.\<close>

definition interpolationArgs :: "string list \<Rightarrow> expr list \<Rightarrow> expr list" where
  "interpolationArgs strings es = [LiteralArrayExpr (map strLit strings), LiteralArrayExpr es]"

text \<open>
  \<^verbatim>\<open>o.variable(name)\<close>; a \<^verbatim>\<open>null\<close> that passes a non-null assertion of the source shows as
  the \<^verbatim>\<open>null\<close> literal.
\<close>

definition variable :: "string option \<Rightarrow> expr" where
  "variable name = (case name of None \<Rightarrow> nullLit | Some n \<Rightarrow> ReadVarExpr n)"

text \<open>The map \<^verbatim>\<open>sanitizerIdentifierMap\<close>, which has an entry for each sanitizer.\<close>

primrec sanitizerIdentifierMap :: "sanitizer_fn \<Rightarrow> external_reference" where
  "sanitizerIdentifierMap SanitizerFn_Html = ''sanitizeHtml''"
| "sanitizerIdentifierMap SanitizerFn_IframeAttribute = ''validateIframeAttribute''"
| "sanitizerIdentifierMap SanitizerFn_ResourceUrl = ''sanitizeResourceUrl''"
| "sanitizerIdentifierMap SanitizerFn_Script = ''sanitizeScript''"
| "sanitizerIdentifierMap SanitizerFn_Style = ''sanitizeStyle''"
| "sanitizerIdentifierMap SanitizerFn_Url = ''sanitizeUrl''"

text \<open>
  \<^verbatim>\<open>reifyIrExpression\<close>. The messages of its errors are given without the ids that the
  source interpolates; the last case is the \<^verbatim>\<open>default\<close> of the source, reached by the IR
  expressions that have no case of their own.
\<close>

definition reifyIrExpression :: "expr \<Rightarrow> error + expr" where
  "reifyIrExpression e =
     (if \<not> isIrExpression e then Inr e
      else case e of
        NextContextExpr steps \<Rightarrow> Inr (ng_expr ''nextContext'' [numLit steps])
      | ReferenceExpr target targetSlot offset \<Rightarrow>
          Inr (ng_expr ''reference''
                 [numLit ((case targetSlot of None \<Rightarrow> 0 | Some slot \<Rightarrow> slot) + 1 + offset)])
      | LexicalReadExpr name \<Rightarrow>
          Inl (Error (''AssertionError: unresolved LexicalRead of '' @ name))
      | RestoreViewExpr view \<Rightarrow>
          (case view of
             Inl x \<Rightarrow> Inl (Error ''AssertionError: unresolved RestoreView'')
           | Inr v \<Rightarrow> Inr (ng_expr ''restoreView'' [v]))
      | ResetViewExpr x \<Rightarrow> Inr (ng_expr ''resetView'' [x])
      | GetCurrentViewExpr \<Rightarrow> Inr (ng_expr ''getCurrentView'' [])
      | ReadVariableExpr x name \<Rightarrow>
          (case name of
             None \<Rightarrow> Inl (Error ''Read of unnamed variable'')
           | Some n \<Rightarrow> Inr (ReadVarExpr n))
      | ReadTemporaryExpr x name \<Rightarrow>
          (case name of
             None \<Rightarrow> Inl (Error ''Read of unnamed temporary'')
           | Some n \<Rightarrow> Inr (ReadVarExpr n))
      | AssignTemporaryExpr x xr name \<Rightarrow>
          (case name of
             None \<Rightarrow> Inl (Error ''Assign of unnamed temporary'')
           | Some n \<Rightarrow> Inr (WriteVarExpr n x))
      | PureFunctionExpr body args fn varOffset \<Rightarrow>
          (case fn of
             None \<Rightarrow> Inl (Error ''AssertionError: expected PureFunctions to have been extracted'')
           | Some f \<Rightarrow> Inr (ng_expr ''pureFunction'' (optNumLit varOffset # f # args)))
      | PureFunctionParameterExpr i \<Rightarrow>
          Inl (Error
            ''AssertionError: expected PureFunctionParameterExpr to have been extracted'')
      | PipeBindingExpr x targetSlot name args varOffset \<Rightarrow>
          Inr (ng_expr ''pipeBind'' (optNumLit targetSlot # optNumLit varOffset # args))
      | PipeBindingVariadicExpr x targetSlot name args numArgs varOffset \<Rightarrow>
          Inr (ng_expr ''pipeBindV'' [optNumLit targetSlot, optNumLit varOffset, args])
      | SanitizerExpr fn \<Rightarrow> Inr (ExternalExpr (sanitizerIdentifierMap fn))
      | SlotLiteralExpr slot \<Rightarrow> Inr (optNumLit slot)
      | _ \<Rightarrow> Inl (Error ''AssertionError: Unsupported reification of ir.Expression kind''))"

text \<open>\<open>reifyIrExpression\<close> as a transform without state.\<close>

definition reifyIrExpressionTransform :: "expr \<Rightarrow> unit \<Rightarrow> error + expr \<times> unit" where
  "reifyIrExpressionTransform e u =
     (case reifyIrExpression e of Inl err \<Rightarrow> Inl err | Inr x \<Rightarrow> Inr (x, u))"

text \<open>
  The body of the loop of \<^verbatim>\<open>reifyUpdateOperations\<close> for one op:
  \<^verbatim>\<open>ir.transformExpressionsInOp(op, reifyIrExpression, ...)\<close>, then the switch on the kind,
  whose result replaces the op.
\<close>

definition reifyUpdateOp_switch :: "op \<Rightarrow> error + op" where
  "reifyUpdateOp_switch c =
     (case c of
        AdvanceOp delta sp \<Rightarrow> Inr (ng_call ''advance'' [numLit delta] sp)
      | PropertyOp t name expression sanitizer sc sp \<Rightarrow>
          (case expression of
             Interpolation strings es \<Rightarrow>
               Inr (ng_call ''propertyInterpolate''
                      (strLit name # interpolationArgs strings es @ [optExpr sanitizer]) sp)
           | Plain e \<Rightarrow> Inr (ng_call ''property'' [strLit name, e, optExpr sanitizer] sp))
      | StylePropOp t name expression unit sp \<Rightarrow>
          (case expression of
             Interpolation strings es \<Rightarrow>
               Inr (ng_call ''stylePropInterpolate''
                      (strLit name # interpolationArgs strings es @ [optStrLit unit]) sp)
           | Plain e \<Rightarrow> Inr (ng_call ''styleProp'' [strLit name, e, optStrLit unit] sp))
      | ClassPropOp t name e sp \<Rightarrow> Inr (ng_call ''classProp'' [strLit name, e] sp)
      | StyleMapOp t expression sp \<Rightarrow>
          (case expression of
             Interpolation strings es \<Rightarrow>
               Inr (ng_call ''styleMapInterpolate'' (interpolationArgs strings es) sp)
           | Plain e \<Rightarrow> Inr (ng_call ''styleMap'' [e] sp))
      | ClassMapOp t expression sp \<Rightarrow>
          (case expression of
             Interpolation strings es \<Rightarrow>
               Inr (ng_call ''classMapInterpolate'' (interpolationArgs strings es) sp)
           | Plain e \<Rightarrow> Inr (ng_call ''classMap'' [e] sp))
      | I18nExpressionOp x e sp \<Rightarrow> Inr (ng_call ''i18nExp'' [e] sp)
      | I18nApplyOp x handle sp \<Rightarrow> Inr (ng_call ''i18nApply'' [optNumLit handle] sp)
      | InterpolateTextOp x strings es sp \<Rightarrow>
          Inr (ng_call ''textInterpolate'' (interpolationArgs strings es) sp)
      | AttributeOp t name expression sanitizer sc sp \<Rightarrow>
          (case expression of
             Interpolation strings es \<Rightarrow>
               Inr (ng_call ''attributeInterpolate''
                      (strLit name # interpolationArgs strings es @ [optExpr sanitizer]) sp)
           | Plain e \<Rightarrow> Inr (ng_call ''attribute'' [strLit name, e, optExpr sanitizer] None))
      | HostPropertyOp name expression isAnimationTrigger sp \<Rightarrow>
          (case expression of
             Interpolation strings es \<Rightarrow> Inl (Error ''not yet handled'')
           | Plain e \<Rightarrow>
               if isAnimationTrigger
               then Inr (ng_call ''syntheticHostProperty'' [strLit name, e] sp)
               else Inr (ng_call ''hostProperty'' [strLit name, e] sp))
      | VariableOp x name initializer \<Rightarrow>
          (case name of
             None \<Rightarrow> Inl (Error ''AssertionError: unnamed variable'')
           | Some n \<Rightarrow> Inr (StatementOp (DeclareVarStmt n (Some initializer))))
      | ConditionalOp t targetSlot processed contextValue sp \<Rightarrow>
          (case processed of
             None \<Rightarrow> Inl (Error ''Conditional test was not set.'')
           | Some p \<Rightarrow>
               (case targetSlot of
                  None \<Rightarrow> Inl (Error ''Conditional slot was not set.'')
                | Some slot \<Rightarrow>
                    Inr (ng_call ''conditional'' [numLit slot, p, optExpr contextValue] sp)))
      | RepeaterOp t collection sp \<Rightarrow> Inr (ng_call ''repeater'' [collection] sp)
      | DeferWhenOp t e prefetch sp \<Rightarrow> Inr (ng_call ''deferWhen'' [boolLit prefetch, e] sp)
      | StatementOp s \<Rightarrow> Inr c
      | _ \<Rightarrow>
          Inl (Error (''AssertionError: Unsupported reification of update op ''
                       @ opKindName (kind c))))"

definition reifyUpdateOp :: "op \<Rightarrow> error + op" where
  "reifyUpdateOp c =
     (case transformExpressionsInOp reifyIrExpressionTransform c () of
        Inl err \<Rightarrow> Inl err
      | Inr (c1, u) \<Rightarrow> reifyUpdateOp_switch c1)"

definition reifyUpdateOperations :: "op list \<Rightarrow> error + op list" where
  "reifyUpdateOperations ops = mapError reifyUpdateOp ops"

text \<open>
  The loop of \<^verbatim>\<open>reifyListenerHandler\<close> that collects the statements of the reified
  handler ops.
\<close>

fun handlerStatements :: "op list \<Rightarrow> error + statement list" where
  "handlerStatements [] = Inr []"
| "handlerStatements (c # cs) =
     (case c of
        StatementOp s \<Rightarrow>
          (case handlerStatements cs of Inl err \<Rightarrow> Inl err | Inr ss \<Rightarrow> Inr (s # ss))
      | _ \<Rightarrow>
          Inl (Error (''AssertionError: expected reified statements, but found op ''
                       @ opKindName (kind c))))"

text \<open>\<^verbatim>\<open>reifyListenerHandler\<close>; the parameters of the function are names.\<close>

definition reifyListenerHandler :: "string option \<Rightarrow> op list \<Rightarrow> bool \<Rightarrow> error + expr" where
  "reifyListenerHandler name hs consumesDollarEvent =
     (case reifyUpdateOperations hs of
        Inl err \<Rightarrow> Inl err
      | Inr hs1 \<Rightarrow>
          (case handlerStatements hs1 of
             Inl err \<Rightarrow> Inl err
           | Inr handlerStmts \<Rightarrow>
               Inr (FunctionExpr (if consumesDollarEvent then [''$event''] else [])
                      handlerStmts name)))"

text \<open>\<^verbatim>\<open>!!x\<close> for a number or \<^verbatim>\<open>null\<close>: 0 is falsy.\<close>

definition truthyNumber :: "nat option \<Rightarrow> bool" where
  "truthyNumber n = (case n of None \<Rightarrow> False | Some k \<Rightarrow> k \<noteq> 0)"

text \<open>The name of the kind of a trigger, and the arguments of \<^verbatim>\<open>ng.deferOn\<close> for it.\<close>

primrec triggerKindName :: "defer_trigger \<Rightarrow> string" where
  "triggerKindName IdleTrigger = ''Idle''"
| "triggerKindName ImmediateTrigger = ''Immediate''"
| "triggerKindName (TimerTrigger delay) = ''Timer''"
| "triggerKindName (HoverTrigger n x s v steps) = ''Hover''"
| "triggerKindName (InteractionTrigger n x s v steps) = ''Interaction''"
| "triggerKindName (ViewportTrigger n x s v steps) = ''Viewport''"

definition targetTriggerArgs :: "slot_handle option \<Rightarrow> nat option \<Rightarrow> error + expr list" where
  "targetTriggerArgs targetSlot targetSlotViewSteps =
     (case targetSlot of
        Some (Some slot) \<Rightarrow>
          (case targetSlotViewSteps of
             None \<Rightarrow> Inl (Error ''Slot or view steps not set in trigger reification'')
           | Some steps \<Rightarrow> Inr (numLit slot # (if steps \<noteq> 0 then [numLit steps] else [])))
      | _ \<Rightarrow> Inl (Error ''Slot or view steps not set in trigger reification''))"

primrec deferOnArgs :: "defer_trigger \<Rightarrow> error + expr list" where
  "deferOnArgs IdleTrigger = Inr []"
| "deferOnArgs ImmediateTrigger = Inr []"
| "deferOnArgs (TimerTrigger delay) = Inr [numLit delay]"
| "deferOnArgs (HoverTrigger n x targetSlot v steps) = targetTriggerArgs targetSlot steps"
| "deferOnArgs (InteractionTrigger n x targetSlot v steps) = targetTriggerArgs targetSlot steps"
| "deferOnArgs (ViewportTrigger n x targetSlot v steps) = targetTriggerArgs targetSlot steps"

text \<open>\<^verbatim>\<open>op.loadingSlot?.slot ?? null\<close>\<close>

definition optSlotLit :: "slot_handle option \<Rightarrow> expr" where
  "optSlotLit h = (case h of None \<Rightarrow> nullLit | Some slot \<Rightarrow> optNumLit slot)"

text \<open>
  The switch of \<^verbatim>\<open>reifyCreateOperations\<close> for one op of the unit \<open>unit\<close> of \<open>job\<close>.
\<close>

definition reifyCreateOp_switch :: "compilation_job \<Rightarrow> compilation_unit \<Rightarrow> op \<Rightarrow> error + op" where
  "reifyCreateOp_switch job unit c =
     (case c of
        TextOp x handle initialValue sp \<Rightarrow>
          Inr (ng_call ''text'' [optNumLit handle, strLit initialValue] sp)
      | ElementStartOp tag x handle attrs refs sp \<Rightarrow>
          Inr (ng_call ''elementStart''
                 [optNumLit handle, optStrLit tag, optNumLit attrs, localRefsLit refs] sp)
      | ElementOp tag x handle attrs refs sp \<Rightarrow>
          Inr (ng_call ''element''
                 [optNumLit handle, optStrLit tag, optNumLit attrs, localRefsLit refs] sp)
      | ElementEndOp x sp \<Rightarrow> Inr (ng_call ''elementEnd'' [] sp)
      | ContainerStartOp x handle attrs refs sp \<Rightarrow>
          Inr (ng_call ''elementContainerStart''
                 [optNumLit handle, optNumLit attrs, localRefsLit refs] sp)
      | ContainerOp x handle attrs refs sp \<Rightarrow>
          Inr (ng_call ''elementContainer''
                 [optNumLit handle, optNumLit attrs, localRefsLit refs] sp)
      | ContainerEndOp x \<Rightarrow> Inr (ng_call ''elementContainerEnd'' [] None)
      | I18nStartOp x handle r message ctx messageIndex subTemplateIndex \<Rightarrow>
          Inr (ng_call ''i18nStart''
                 [optNumLit handle, optNumLit messageIndex, optNumLit subTemplateIndex] None)
      | I18nEndOp x \<Rightarrow> Inr (ng_call ''i18nEnd'' [] None)
      | I18nOp x handle r message ctx messageIndex subTemplateIndex \<Rightarrow>
          Inr (ng_call ''i18n''
                 [optNumLit handle, optNumLit messageIndex, optNumLit subTemplateIndex] None)
      | TemplateOp x handle tag attrs refs sp \<Rightarrow>
          if \<not> isView unit then Inl (Error ''AssertionError: must be compiling a component'')
          else (case refs of
                  LocalRefArray rs \<Rightarrow>
                    Inl (Error
                      ''AssertionError: local refs array should have been extracted into a constant'')
                | LocalRefConst r \<Rightarrow>
                    (case views_get job x of
                       None \<Rightarrow> Inl (Error ''TypeError: Cannot read properties of undefined'')
                     | Some childView \<Rightarrow>
                         Inr (ng_call ''template''
                                [optNumLit handle, variable (fnName childView),
                                 optNumLit (decls childView), optNumLit (vars childView),
                                 optStrLit tag, optNumLit attrs, optNumLit r] sp)))
      | DisableBindingsOp x \<Rightarrow> Inr (ng_call ''disableBindings'' [] None)
      | EnableBindingsOp x \<Rightarrow> Inr (ng_call ''enableBindings'' [] None)
      | PipeOp x handle name \<Rightarrow> Inr (ng_call ''pipe'' [optNumLit handle, strLit name] None)
      | ListenerOp t name handlerFnName hs consumesDollarEvent hostListener isAnimationListener
          sp \<Rightarrow>
          (case reifyListenerHandler handlerFnName hs consumesDollarEvent of
             Inl err \<Rightarrow> Inl err
           | Inr listenerFn \<Rightarrow>
               if hostListener \<and> isAnimationListener
               then Inr (ng_call ''syntheticHostListener'' [strLit name, listenerFn] sp)
               else Inr (ng_call ''listener'' [strLit name, listenerFn] sp))
      | VariableOp x name initializer \<Rightarrow>
          (case name of
             None \<Rightarrow> Inl (Error ''AssertionError: unnamed variable'')
           | Some n \<Rightarrow> Inr (StatementOp (DeclareVarStmt n (Some initializer))))
      | NamespaceOp active \<Rightarrow>
          (case active of
             Namespace_HTML \<Rightarrow> Inr (ng_call ''namespaceHTML'' [] None)
           | Namespace_SVG \<Rightarrow> Inr (ng_call ''namespaceSVG'' [] None)
           | Namespace_Math \<Rightarrow> Inr (ng_call ''namespaceMath'' [] None))
      | DeferOp x handle mainSlot loadingSlot placeholderSlot errorSlot loadingMinimumTime
          loadingAfterTime placeholderMinimumTime resolverFn loadingConfig placeholderConfig
          sp \<Rightarrow>
          (let timerScheduling =
                 (truthyNumber loadingMinimumTime \<or> truthyNumber loadingAfterTime
                  \<or> truthyNumber placeholderMinimumTime)
           in Inr (ng_call ''defer''
                     [optNumLit handle, optNumLit mainSlot, optExpr resolverFn,
                      optSlotLit loadingSlot, optSlotLit placeholderSlot, optSlotLit errorSlot,
                      optExpr loadingConfig, optExpr placeholderConfig,
                      boolLit timerScheduling] sp))
      | DeferOnOp x trigger prefetch sp \<Rightarrow>
          (case deferOnArgs trigger of
             Inl err \<Rightarrow> Inl err
           | Inr args \<Rightarrow>
               Inr (ng_call ''deferOn''
                      (strLit (triggerKindName trigger) # args @ [boolLit prefetch]) sp))
      | ProjectionDefOp d \<Rightarrow> Inr (ng_call ''projectionDef'' [optExpr d] None)
      | ProjectionOp x handle projectionSlotIndex attrs sp \<Rightarrow>
          (case handle of
             None \<Rightarrow> Inl (Error ''No slot was assigned for project instruction'')
           | Some slot \<Rightarrow>
               Inr (ng_call ''projection''
                      [numLit slot, numLit projectionSlotIndex,
                       LiteralArrayExpr (map strLit attrs)] sp))
      | RepeaterCreateOp x handle emptyView tag attrs trackByFn usesComponentInstance d v sp \<Rightarrow>
          (case handle of
             None \<Rightarrow> Inl (Error ''No slot was assigned for repeater instruction'')
           | Some slot \<Rightarrow>
               if \<not> isView unit
               then Inl (Error ''AssertionError: must be compiling a component'')
               else
                 (case views_get job x of
                    None \<Rightarrow> Inl (Error ''TypeError: Cannot read properties of undefined'')
                  | Some repeaterView \<Rightarrow>
                      (case fnName repeaterView of
                         None \<Rightarrow>
                           Inl (Error
                             ''AssertionError: expected repeater primary view to have been named'')
                       | Some repeaterFnName \<Rightarrow>
                           (case (case emptyView of
                                    None \<Rightarrow> Inr (None, None, None)
                                  | Some ev \<Rightarrow>
                                      (case views_get job ev of
                                         None \<Rightarrow>
                                           Inl (Error
                                             ''AssertionError: repeater had empty view xref, but empty view was not found'')
                                       | Some emptyUnit \<Rightarrow>
                                           if fnName emptyUnit = None \<or> decls emptyUnit = None
                                              \<or> vars emptyUnit = None
                                           then Inl (Error
                                             ''AssertionError: expected repeater empty view to have been named and counted'')
                                           else Inr (fnName emptyUnit, decls emptyUnit,
                                                     vars emptyUnit))) of
                              Inl err \<Rightarrow> Inl err
                            | Inr (emptyViewFnName, emptyDecls, emptyVars) \<Rightarrow>
                                Inr (ng_call ''repeaterCreate''
                                       [numLit slot, ReadVarExpr repeaterFnName, optNumLit d,
                                        optNumLit v, optStrLit tag, optNumLit attrs,
                                        optExpr trackByFn, boolLit usesComponentInstance,
                                        optStrLit emptyViewFnName, optNumLit emptyDecls,
                                        optNumLit emptyVars] sp)))))
      | StatementOp s \<Rightarrow> Inr c
      | _ \<Rightarrow>
          Inl (Error (''AssertionError: Unsupported reification of create op ''
                       @ opKindName (kind c))))"

definition reifyCreateOp :: "compilation_job \<Rightarrow> compilation_unit \<Rightarrow> op \<Rightarrow> error + op" where
  "reifyCreateOp job unit c =
     (case transformExpressionsInOp reifyIrExpressionTransform c () of
        Inl err \<Rightarrow> Inl err
      | Inr (c1, u) \<Rightarrow> reifyCreateOp_switch job unit c1)"

definition reifyCreateOperations ::
    "compilation_job \<Rightarrow> compilation_unit \<Rightarrow> op list \<Rightarrow> error + op list" where
  "reifyCreateOperations job unit ops = mapError (reifyCreateOp job unit) ops"

text \<open>The body of the loop of \<^verbatim>\<open>reify\<close> for one unit, and \<^verbatim>\<open>reify\<close>.\<close>

definition reify_unit :: "compilation_job \<Rightarrow> compilation_unit \<Rightarrow> error + compilation_unit" where
  "reify_unit job unit =
     (case reifyCreateOperations job unit (create unit) of
        Inl err \<Rightarrow> Inl err
      | Inr cs \<Rightarrow>
          (case reifyUpdateOperations (update unit) of
             Inl err \<Rightarrow> Inl err
           | Inr us \<Rightarrow> Inr (unit\<lparr>create := cs, update := us\<rparr>)))"

definition reify :: "compilation_job \<Rightarrow> error + compilation_job" where
  "reify job =
     (case mapError (reify_unit job) (units job) of
        Inl err \<Rightarrow> Inl err
      | Inr us \<Rightarrow> Inr (job\<lparr>units := us\<rparr>))"

section \<open>What the claims say of expressions and ops\<close>

text \<open>No IR-specific expression remains in an expression, or in an op.\<close>

definition noIrExpr :: "expr \<Rightarrow> bool" where
  "noIrExpr e \<longleftrightarrow> (\<forall>x\<in>set (subexprs e). \<not> isIrExpression x)"

definition noIrOp :: "op \<Rightarrow> bool" where
  "noIrOp c \<longleftrightarrow> (\<forall>x\<in>set (opSubexprs c). \<not> isIrExpression x)"

text \<open>An op holds a lexical read of the name \<^verbatim>\<open>$event\<close>.\<close>

definition readsDollarEvent :: "op \<Rightarrow> bool" where
  "readsDollarEvent c \<longleftrightarrow> LexicalReadExpr ''$event'' \<in> set (opSubexprs c)"

text \<open>
  The kinds that have a case in the switch of \<^verbatim>\<open>reifyCreateOperations\<close>, and in that of
  \<^verbatim>\<open>reifyUpdateOperations\<close>.
\<close>

definition createOpKinds :: "op_kind set" where
  "createOpKinds =
     {OpKind_Text, OpKind_ElementStart, OpKind_Element, OpKind_ElementEnd,
      OpKind_ContainerStart, OpKind_Container, OpKind_ContainerEnd, OpKind_I18nStart,
      OpKind_I18nEnd, OpKind_I18n, OpKind_Template, OpKind_DisableBindings,
      OpKind_EnableBindings, OpKind_Pipe, OpKind_Listener, OpKind_Variable, OpKind_Namespace,
      OpKind_Defer, OpKind_DeferOn, OpKind_ProjectionDef, OpKind_Projection,
      OpKind_RepeaterCreate, OpKind_Statement}"

definition updateOpKinds :: "op_kind set" where
  "updateOpKinds =
     {OpKind_Advance, OpKind_Property, OpKind_StyleProp, OpKind_ClassProp, OpKind_StyleMap,
      OpKind_ClassMap, OpKind_I18nExpression, OpKind_I18nApply, OpKind_InterpolateText,
      OpKind_Attribute, OpKind_HostProperty, OpKind_Variable, OpKind_Conditional,
      OpKind_Repeater, OpKind_DeferWhen, OpKind_Statement}"

text \<open>The IR expressions that have a case in the switch of \<^verbatim>\<open>reifyIrExpression\<close>.\<close>

definition hasReifyCase :: "expr \<Rightarrow> bool" where
  "hasReifyCase e =
     (case e of
        NextContextExpr steps \<Rightarrow> True
      | ReferenceExpr target slot offset \<Rightarrow> True
      | LexicalReadExpr n \<Rightarrow> True
      | RestoreViewExpr v \<Rightarrow> True
      | ResetViewExpr x \<Rightarrow> True
      | GetCurrentViewExpr \<Rightarrow> True
      | ReadVariableExpr x n \<Rightarrow> True
      | ReadTemporaryExpr x n \<Rightarrow> True
      | AssignTemporaryExpr x xr n \<Rightarrow> True
      | PureFunctionExpr body args fn varOffset \<Rightarrow> True
      | PureFunctionParameterExpr i \<Rightarrow> True
      | PipeBindingExpr x slot n args varOffset \<Rightarrow> True
      | PipeBindingVariadicExpr x slot n args numArgs varOffset \<Rightarrow> True
      | SanitizerExpr fn \<Rightarrow> True
      | SlotLiteralExpr slot \<Rightarrow> True
      | _ \<Rightarrow> False)"

text \<open>
  What the claims say of the resolution of \<^verbatim>\<open>$event\<close> for an op of a create or update
  list and the op that the phase puts in its place: a listener op keeps all its fields but
  the handler ops and \<^verbatim>\<open>consumesDollarEvent\<close>, which is set if it was set before or a
  handler op holds a lexical read of \<^verbatim>\<open>$event\<close>; the handler ops keep their kinds, none
  holds a lexical read of \<^verbatim>\<open>$event\<close> any more, and one that held it holds a read of the
  variable \<^verbatim>\<open>$event\<close>. Any other op is left as it is.
\<close>

definition dollarEventResolved :: "op \<Rightarrow> op \<Rightarrow> bool" where
  "dollarEventResolved c c' =
     (case c of
        ListenerOp t n hfn hs cde hl al sp \<Rightarrow>
          (case c' of
             ListenerOp t' n' hfn' hs' cde' hl' al' sp' \<Rightarrow>
               t' = t \<and> n' = n \<and> hfn' = hfn \<and> hl' = hl \<and> al' = al \<and> sp' = sp
               \<and> cde' = (cde \<or> (\<exists>h\<in>set hs. readsDollarEvent h))
               \<and> list_all2 (\<lambda>h h'. kind h' = kind h \<and> \<not> readsDollarEvent h'
                     \<and> (readsDollarEvent h \<longrightarrow> ReadVarExpr ''$event'' \<in> set (opSubexprs h')))
                    hs hs'
           | _ \<Rightarrow> False)
      | _ \<Rightarrow> c' = c)"

text \<open>
  What they say of a listener op of a create list and the op that reification puts in its
  place: the call of the listener instruction with the name of the event and the handler
  function, whose only parameter is \<^verbatim>\<open>$event\<close> if the op is marked as consuming it and
  which has no parameter otherwise.
\<close>

definition listenerReified :: "op \<Rightarrow> op \<Rightarrow> bool" where
  "listenerReified c c' =
     (case c of
        ListenerOp t n hfn hs cde hl al sp \<Rightarrow>
          (\<exists>stmts. c' = ng_call (if hl \<and> al then ''syntheticHostListener'' else ''listener'')
                           [strLit n,
                            FunctionExpr (if cde then [''$event''] else []) stmts hfn] sp)
      | _ \<Rightarrow> True)"

section \<open>Properties of expression conversion\<close>

lemma convertAstList_elements:
  "convertAstList B as job base = Inr (xs, job') \<Longrightarrow>
     length xs = length as \<and>
     (\<forall>i<length as. \<exists>j j'. convertAst B (as ! i) j base = Inr (xs ! i, j'))"
proof (induction as arbitrary: job xs job')
  case Nil
  then show ?case by simp
next
  case (Cons a as)
  from Cons.prems obtain x job1 ys where
    a: "convertAst B a job base = Inr (x, job1)" and
    r: "convertAstList B as job1 base = Inr (ys, job')" and
    xs: "xs = x # ys"
    by (auto split: sum.splits)
  from Cons.IH [OF r] have len: "length ys = length as"
    and el: "\<forall>i<length as. \<exists>j j'. convertAst B (as ! i) j base = Inr (ys ! i, j')"
    by simp_all
  show ?case
  proof (intro conjI allI impI)
    show "length xs = length (a # as)" using len xs by simp
  next
    fix i assume "i < length (a # as)"
    then show "\<exists>j j'. convertAst B ((a # as) ! i) j base = Inr (xs ! i, j')"
      using a el xs by (cases i) auto
  qed
qed

text \<open>
  Claim C8. A \<^verbatim>\<open>Call\<close> whose receiver is an \<^verbatim>\<open>ImplicitReceiver\<close> (a \<^verbatim>\<open>ThisReceiver\<close> is
  one) is rejected with the error ``Unexpected ImplicitReceiver''. Any other call converts
  its receiver, then its arguments from left to right; an error of either is the error of
  the call, and otherwise the result is the invocation of the converted receiver on the
  converted arguments: as many as the call has, each the conversion of the argument at its
  position.
\<close>

theorem convertAst_Call:
  "(isImplicitReceiver receiver \<longrightarrow>
      convertAst B (Call span receiver args) job base = Inl (Error ''Unexpected ImplicitReceiver''))
   \<and> (\<not> isImplicitReceiver receiver \<longrightarrow>
        (\<forall>err. convertAst B receiver job base = Inl err \<longrightarrow>
           convertAst B (Call span receiver args) job base = Inl err)
      \<and> (\<forall>r job1.
           convertAst B receiver job base = Inr (r, job1) \<longrightarrow>
           (\<forall>err. convertAstList B args job1 base = Inl err \<longrightarrow>
              convertAst B (Call span receiver args) job base = Inl err)
         \<and> (\<forall>as job2.
              convertAstList B args job1 base = Inr (as, job2) \<longrightarrow>
              convertAst B (Call span receiver args) job base =
                Inr (InvokeFunctionExpr r as (convertSourceSpan span base), job2)
            \<and> length as = length args
            \<and> (\<forall>i<length args.
                  \<exists>j j'. convertAst B (args ! i) j base = Inr (as ! i, j')))))"
  using convertAstList_elements by (auto split: sum.splits)

theorem convertAst_Call_witness:
  "convertAst Map.empty (Call (ParseSpan 0 3) ThisReceiver []) \<lparr>nextXrefId = 1, root = 0, units = []\<rparr>
      None = Inl (Error ''Unexpected ImplicitReceiver'')
   \<and> convertAst Map.empty
        (Call (ParseSpan 0 9) (PropertyRead (ParseSpan 0 2) ImplicitReceiver ''fn'')
           [LiteralPrimitive (ParseSpan 3 4) (LNum 1), ThisReceiver])
        \<lparr>nextXrefId = 1, root = 0, units = []\<rparr> (Some (ParseSourceSpan 10 19 10))
      = Inr (InvokeFunctionExpr (LexicalReadExpr ''fn'')
               [LiteralExpr (LNum 1) (Some (ParseSourceSpan 13 14 13)), ContextExpr 0]
               (Some (ParseSourceSpan 10 19 10)),
             \<lparr>nextXrefId = 1, root = 0, units = []\<rparr>)"
  using convertAst_Call [of ThisReceiver Map.empty "ParseSpan 0 3" "[]"
          "\<lparr>nextXrefId = 1, root = 0, units = []\<rparr>" None]
        convertAst_Call [of "PropertyRead (ParseSpan 0 2) ImplicitReceiver ''fn''" Map.empty
          "ParseSpan 0 9" "[LiteralPrimitive (ParseSpan 3 4) (LNum 1), ThisReceiver]"
          "\<lparr>nextXrefId = 1, root = 0, units = []\<rparr>" "Some (ParseSourceSpan 10 19 10)"]
  by simp

text \<open>
  Claim C7, as the code has it. The \<^verbatim>\<open>this\<close> receiver, and the receiver of a property
  write on the implicit receiver, convert to a context expression for the root view of the
  job, \<^verbatim>\<open>job.root.xref\<close>: \<^verbatim>\<open>convertAst\<close> is given the job and not the unit, so the view
  that owns the expression plays no part. The third conjunct shows it for a binding ingested
  into any view \<open>view\<close>.
\<close>

theorem convertAst_this_receiver_root_context:
  "convertAst B ThisReceiver job base = Inr (ContextExpr (root job), job)
   \<and> (isImplicitReceiver receiver \<longrightarrow>
        convertAst B (PropertyWrite span receiver name val) job base =
          (case convertAst B val job base of
             Inl err \<Rightarrow> Inl err
           | Inr (v, job1) \<Rightarrow>
               Inr (WritePropExpr (ContextExpr (root job)) name v (convertSourceSpan span base),
                    job1)))
   \<and> (\<not> (flags AND BindingFlags_OnNgTemplateElement \<noteq> 0
           \<and> \<not> (flags AND BindingFlags_BindingTargetsTemplate \<noteq> 0)
           \<and> type = BindingType_Property) \<longrightarrow>
        ingestBinding B job view x name (Inl ThisReceiver) type unit securityContext sourceSpan
            flags =
          Inr (pushUpdate view
                [BindingOp x (BINDING_KINDS type) name (Plain (ContextExpr (root job))) unit
                   securityContext (flags AND BindingFlags_TextValue \<noteq> 0)
                   (flags AND BindingFlags_IsStructuralTemplateAttribute \<noteq> 0) sourceSpan]
                job))"
  by (simp add: ingestBinding_def)

theorem convertAst_this_receiver_root_context_witness:
  "convertAst Map.empty (PropertyWrite (ParseSpan 0 5) ImplicitReceiver ''a'' ThisReceiver)
      \<lparr>nextXrefId = 2, root = 0, units = []\<rparr> None
     = Inr (WritePropExpr (ContextExpr 0) ''a'' (ContextExpr 0) None,
            \<lparr>nextXrefId = 2, root = 0, units = []\<rparr>)
   \<and> ingestBinding Map.empty
        \<lparr>nextXrefId = 2, root = 0, units =
           [\<lparr>xref = 0, create = [], update = [], isView = True, fnName = None, decls = None,
              vars = None\<rparr>,
            \<lparr>xref = 1, create = [], update = [], isView = True, fnName = None, decls = None,
              vars = None\<rparr>]\<rparr>
        1 7 ''title'' (Inl ThisReceiver) BindingType_Property None NONE None 0
     = Inr \<lparr>nextXrefId = 2, root = 0, units =
           [\<lparr>xref = 0, create = [], update = [], isView = True, fnName = None, decls = None,
              vars = None\<rparr>,
            \<lparr>xref = 1, create = [],
              update = [BindingOp 7 BindingKind_Property ''title'' (Plain (ContextExpr 0)) None
                          NONE False False None],
              isView = True, fnName = None, decls = None, vars = None\<rparr>]\<rparr>"
  using convertAst_this_receiver_root_context [where B = Map.empty
          and job = "\<lparr>nextXrefId = 2, root = 0, units = []\<rparr>" and base = None
          and receiver = ImplicitReceiver and span = "ParseSpan 0 5" and name = "''a''"
          and val = ThisReceiver and flags = 0 and type = BindingType_Property]
        convertAst_this_receiver_root_context [where B = Map.empty
          and job = "\<lparr>nextXrefId = 2, root = 0, units =
           [\<lparr>xref = 0, create = [], update = [], isView = True, fnName = None, decls = None,
              vars = None\<rparr>,
            \<lparr>xref = 1, create = [], update = [], isView = True, fnName = None, decls = None,
              vars = None\<rparr>]\<rparr>" and base = None
          and receiver = ImplicitReceiver and flags = 0 and type = BindingType_Property
          and view = 1 and x = 7 and name = "''title''" and unit = None
          and securityContext = NONE and sourceSpan = None]
  by (simp add: pushUpdate_def BindingFlags_OnNgTemplateElement_def BindingFlags_TextValue_def
        BindingFlags_IsStructuralTemplateAttribute_def)

text \<open>
  Claim C7 as stated fails: a binding to \<^verbatim>\<open>this\<close> ingested into the child view 1 of a job
  whose root view is 0 holds a context expression for view 0, not for the owning view 1.
\<close>

theorem this_receiver_in_child_view_counterexample:
  "ingestBinding Map.empty
        \<lparr>nextXrefId = 2, root = 0, units =
           [\<lparr>xref = 0, create = [], update = [], isView = True, fnName = None, decls = None,
              vars = None\<rparr>,
            \<lparr>xref = 1, create = [], update = [], isView = True, fnName = None, decls = None,
              vars = None\<rparr>]\<rparr>
        1 7 ''title'' (Inl ThisReceiver) BindingType_Property None NONE None 0
     = Inr \<lparr>nextXrefId = 2, root = 0, units =
           [\<lparr>xref = 0, create = [], update = [], isView = True, fnName = None, decls = None,
              vars = None\<rparr>,
            \<lparr>xref = 1, create = [],
              update = [BindingOp 7 BindingKind_Property ''title'' (Plain (ContextExpr 0)) None
                          NONE False False None],
              isView = True, fnName = None, decls = None, vars = None\<rparr>]\<rparr>
   \<and> ContextExpr 0 \<noteq> ContextExpr 1"
  by (simp add: ingestBinding_def pushUpdate_def BindingFlags_OnNgTemplateElement_def
        BindingFlags_TextValue_def BindingFlags_IsStructuralTemplateAttribute_def)

section \<open>Properties of content projection inference and of defer triggers\<close>

lemmas BindingFlags_defs =
  BindingFlags_TextValue_def BindingFlags_BindingTargetsTemplate_def
  BindingFlags_IsStructuralTemplateAttribute_def BindingFlags_OnNgTemplateElement_def

text \<open>
  Claim C2, at an input where the code departs from it. The branch
  \<^verbatim>\<open>@if (c) { hello <div foo="1"></div> }\<close> has two root children, a text and an element.
  The loop of \<^verbatim>\<open>ingestControlFlowInsertionPoint\<close> only returns \<^verbatim>\<open>null\<close> for a node that
  follows a root element; a node that is neither comment nor element is passed over while
  \<^verbatim>\<open>root\<close> is still \<^verbatim>\<open>null\<close>. So the element after the text becomes the root: its tag name
  is returned and its attribute is copied as a binding of the template \<open>1\<close> into the unit
  \<open>0\<close>.
\<close>

theorem leading_text_root_inferred:
  "ingestControlFlowInsertionPoint Map.empty
     \<lparr>nextXrefId = 2, root = 0, units =
        [\<lparr>xref = 0, create = [], update = [], isView = True, fnName = None, decls = None,
           vars = None\<rparr>,
         \<lparr>xref = 1, create = [], update = [], isView = True, fnName = None, decls = None,
           vars = None\<rparr>]\<rparr>
     0 1
     (IfBlockBranch None
        [Text ''hello'', Element ''div'' [TextAttribute ''foo'' ''1'' None] []])
   = Inr (Some ''div'',
       \<lparr>nextXrefId = 2, root = 0, units =
        [\<lparr>xref = 0, create = [],
           update = [BindingOp 1 BindingKind_Attribute ''foo''
                       (Plain (LiteralExpr (LStr ''1'') None)) None NONE True False None],
           isView = True, fnName = None, decls = None, vars = None\<rparr>,
         \<lparr>xref = 1, create = [], update = [], isView = True, fnName = None, decls = None,
           vars = None\<rparr>]\<rparr>)"
  by (simp add: ingestControlFlowInsertionPoint_def ingestBinding_def pushUpdate_def
        BindingFlags_defs)





section \<open>Properties of sanitizer resolution\<close>

lemma resolveSanitizersOp_again:
  "resolveSanitizersOp ev sens el (fst (resolveSanitizersOp ev sens el u)) =
     resolveSanitizersOp ev sens el u"
  by (cases u) (simp_all add: resolveSanitizersOp_def split: prod.splits)

lemma resolveSanitizersOps_again:
  "resolveSanitizersOps ev sens el (fst (resolveSanitizersOps ev sens el us)) =
     resolveSanitizersOps ev sens el us"
proof (induction us)
  case Nil
  then show ?case by simp
next
  case (Cons u us)
  obtain u1 e1 where u1: "resolveSanitizersOp ev sens el u = (u1, e1)"
    by (cases "resolveSanitizersOp ev sens el u")
  have again: "resolveSanitizersOp ev sens el u1 = (u1, e1)"
    using resolveSanitizersOp_again [of ev sens el u] u1 by simp
  obtain us1 e2 where us1: "resolveSanitizersOps ev sens el us = (us1, e2)"
    by (cases "resolveSanitizersOps ev sens el us")
  have again2: "resolveSanitizersOps ev sens el us1 = (us1, e2)"
    using Cons.IH us1 by simp
  show ?case
    by (cases e1) (simp_all add: u1 again us1 again2)
qed

lemma createOpXrefMap_update [simp]: "createOpXrefMap (unit\<lparr>update := us\<rparr>) = createOpXrefMap unit"
  by (simp add: createOpXrefMap_def)

lemma resolveSanitizersUnits_again:
  "resolveSanitizersUnits ev sens (fst (resolveSanitizersUnits ev sens units0)) =
     resolveSanitizersUnits ev sens units0"
proof (induction units0)
  case Nil
  then show ?case by simp
next
  case (Cons unit rest)
  obtain ops1 e1 where o1:
    "resolveSanitizersOps ev sens (createOpXrefMap unit) (update unit) = (ops1, e1)"
    by (cases "resolveSanitizersOps ev sens (createOpXrefMap unit) (update unit)")
  have again: "resolveSanitizersOps ev sens (createOpXrefMap unit) ops1 = (ops1, e1)"
    using resolveSanitizersOps_again [of ev sens "createOpXrefMap unit" "update unit"] o1 by simp
  obtain rest1 e2 where r1: "resolveSanitizersUnits ev sens rest = (rest1, e2)"
    by (cases "resolveSanitizersUnits ev sens rest")
  have again2: "resolveSanitizersUnits ev sens rest1 = (rest1, e2)"
    using Cons.IH r1 by simp
  show ?case
    by (cases e1) (simp_all add: o1 again r1 again2)
qed

text \<open>
  Claim C9. Running sanitizer resolution on the job that a first run has left gives the
  same job and the same outcome (no error, or the same error) as the first run.
\<close>

theorem resolveSanitizers_idempotent:
  "resolveSanitizers enumValue isSensitive (fst (resolveSanitizers enumValue isSensitive job)) =
     resolveSanitizers enumValue isSensitive job"
proof -
  obtain us e where r: "resolveSanitizersUnits enumValue isSensitive (units job) = (us, e)"
    by (cases "resolveSanitizersUnits enumValue isSensitive (units job)")
  have "resolveSanitizersUnits enumValue isSensitive us = (us, e)"
    using resolveSanitizersUnits_again [of enumValue isSensitive "units job"] r by simp
  then show ?thesis
    by (simp add: resolveSanitizers_def r)
qed

text \<open>
  Claim C4 fails for the security context \<^verbatim>\<open>HTML\<close>. The table maps it to the sanitizer
  \<^verbatim>\<open>Html\<close>, whose enum value 0 is falsy, so that \<^verbatim>\<open>sanitizers.get(...) || null\<close> gives
  \<^verbatim>\<open>null\<close>: a property \<^verbatim>\<open>innerHTML\<close> of an \<^verbatim>\<open>a\<close> element is left without sanitizer, while the
  property \<^verbatim>\<open>href\<close> beside it gets the sanitizer of its context \<^verbatim>\<open>URL\<close>. For every op the
  context \<^verbatim>\<open>HTML\<close> is treated as the context \<^verbatim>\<open>NONE\<close> is, which has no entry; each
  of the four other entries of the table is applied.
\<close>

theorem resolveSanitizers_html_unsanitized:
  "resolveSanitizers sanitizerFnValue isSensitive
     \<lparr>nextXrefId = 2, root = 0, units =
        [\<lparr>xref = 0,
           create = [ElementOp (Some ''a'') 1 None None (LocalRefArray []) None],
           update = [PropertyOp 1 ''innerHTML''
                       (Plain (ReadPropExpr (ContextExpr 0) ''html'' None)) None HTML None,
                     PropertyOp 1 ''href''
                       (Plain (ReadPropExpr (ContextExpr 0) ''link'' None)) None URL None],
           isView = True, fnName = None, decls = None, vars = None\<rparr>]\<rparr>
   = (\<lparr>nextXrefId = 2, root = 0, units =
        [\<lparr>xref = 0,
           create = [ElementOp (Some ''a'') 1 None None (LocalRefArray []) None],
           update = [PropertyOp 1 ''innerHTML''
                       (Plain (ReadPropExpr (ContextExpr 0) ''html'' None)) None HTML None,
                     PropertyOp 1 ''href''
                       (Plain (ReadPropExpr (ContextExpr 0) ''link'' None))
                       (Some (SanitizerExpr SanitizerFn_Url)) URL None],
           isView = True, fnName = None, decls = None, vars = None\<rparr>]\<rparr>, None)
   \<and> sanitizers HTML = Some SanitizerFn_Html
   \<and> resolveSanitizer sanitizerFnValue isSensitive elements target name HTML =
       resolveSanitizer sanitizerFnValue isSensitive elements target name NONE
   \<and> resolveSanitizer sanitizerFnValue isSensitive elements target name SCRIPT =
       (Some (SanitizerExpr SanitizerFn_Script), None)
   \<and> resolveSanitizer sanitizerFnValue isSensitive elements target name STYLE =
       (Some (SanitizerExpr SanitizerFn_Style), None)
   \<and> resolveSanitizer sanitizerFnValue isSensitive elements target name URL =
       (Some (SanitizerExpr SanitizerFn_Url), None)
   \<and> resolveSanitizer sanitizerFnValue isSensitive elements target name RESOURCE_URL =
       (Some (SanitizerExpr SanitizerFn_ResourceUrl), None)"
  by (simp add: resolveSanitizers_def resolveSanitizersOp_def resolveSanitizer_def
        createOpXrefMap_def slotOpXref_def isElementOrContainerOp_def isIframeElement_def
        toLowerCase_def)

section \<open>Properties of the creation of i18n contexts\<close>

text \<open>
  Claim C3, at an input where the code departs from it. The root i18n block 2 of the unit 0
  has the child block 3 in the unit 1, and the child block encloses the ICU 4 with the
  message id of the block. The first pass copies to the ICU the context that the child
  block holds at that moment, which is none; the second pass gives the child block the
  context 5 of its root and leaves the ICU as it is. The ICU does not share the context of
  its enclosing block.
\<close>

theorem createI18nContexts_icu_in_child_block:
  "createI18nContexts
     \<lparr>nextXrefId = 5, root = 0, units =
        [\<lparr>xref = 0,
           create = [I18nStartOp 2 None 2 (Message ''m'') None None None, I18nEndOp 2],
           update = [], isView = True, fnName = None, decls = None, vars = None\<rparr>,
         \<lparr>xref = 1,
           create = [I18nStartOp 3 None 2 (Message ''m'') None None None,
                     IcuStartOp 4 (Message ''m'') None, IcuEndOp 4, I18nEndOp 3],
           update = [], isView = True, fnName = None, decls = None, vars = None\<rparr>]\<rparr>
   = Inr \<lparr>nextXrefId = 6, root = 0, units =
        [\<lparr>xref = 0,
           create = [I18nStartOp 2 None 2 (Message ''m'') (Some 5) None None, I18nEndOp 2,
                     I18nContextOp I18nContextKind_RootI18n 5 2 (Message ''m'') None],
           update = [], isView = True, fnName = None, decls = None, vars = None\<rparr>,
         \<lparr>xref = 1,
           create = [I18nStartOp 3 None 2 (Message ''m'') (Some 5) None None,
                     IcuStartOp 4 (Message ''m'') None, IcuEndOp 4, I18nEndOp 3],
           update = [], isView = True, fnName = None, decls = None, vars = None\<rparr>]\<rparr>"
  by (simp add: createI18nContexts_def createI18nContexts_op_def allocateXrefId_def
        assignRootContext_def)

section \<open>Properties of the transformation of expressions\<close>

declare transformExpressionsInExpression.simps [simp del]
declare subexprs.simps [simp del]
declare transformExpressionsInOp.simps [simp del]
declare opSubexprs.simps [simp del]

lemma mapState_length: "mapState f xs s = Inr (ys, s') \<Longrightarrow> length ys = length xs"
  by (induction xs arbitrary: s ys) (auto split: sum.splits)

lemma mapState_invariant:
  assumes "\<And>x u y u'. x \<in> set xs \<Longrightarrow> f x u = Inr (y, u') \<Longrightarrow> Q y"
  shows "mapState f xs s = Inr (ys, s') \<Longrightarrow> list_all Q ys"
  using assms
proof (induction xs arbitrary: s ys)
  case Nil
  then show ?case by simp
next
  case (Cons x xs)
  from Cons.prems(1) obtain y s1 zs where
    x: "f x s = Inr (y, s1)" and r: "mapState f xs s1 = Inr (zs, s')" and ys: "ys = y # zs"
    by (auto split: sum.splits)
  have "Q y" using Cons.prems(2) [of x s y s1] x by simp
  moreover have "list_all Q zs"
  proof (rule Cons.IH [OF r])
    fix z u w u'
    assume "z \<in> set xs" and "f z u = Inr (w, u')"
    then show "Q w" using Cons.prems(2) [of z u w u'] by simp
  qed
  ultimately show ?case using ys by simp
qed

lemma mapState_fails:
  "x \<in> set xs \<Longrightarrow> (\<And>u. \<exists>err. f x u = Inl err) \<Longrightarrow> \<exists>err. mapState f xs s = Inl err"
proof (induction xs arbitrary: s)
  case Nil
  then show ?case by simp
next
  case (Cons a xs)
  show ?case
  proof (cases "f a s")
    case (Inl err)
    then show ?thesis by simp
  next
    case (Inr p)
    obtain y s1 where p: "p = (y, s1)" by (cases p)
    show ?thesis
    proof (cases "x = a")
      case True
      then show ?thesis using Cons.prems(2) [of s] Inr by simp
    next
      case False
      then have "x \<in> set xs" using Cons.prems(1) by simp
      from Cons.IH [OF this Cons.prems(2), of s1] obtain err where
        "mapState f xs s1 = Inl err" by blast
      then show ?thesis using Inr p by simp
    qed
  qed
qed

lemma optionWith_exprs:
  "length (optionExprs v) \<le> length cs \<Longrightarrow>
     optionExprs (fst (optionWith v cs)) = take (length (optionExprs v)) cs
     \<and> snd (optionWith v cs) = drop (length (optionExprs v)) cs"
  by (cases v; cases cs) (simp_all add: optionExprs_def optionWith_def)

lemma stmtWith_exprs:
  "length (stmtExprs s) \<le> length cs \<Longrightarrow>
     stmtExprs (fst (stmtWith s cs)) = take (length (stmtExprs s)) cs
     \<and> snd (stmtWith s cs) = drop (length (stmtExprs s)) cs"
  by (cases s; cases cs) (auto split: option.splits)

lemma stmtsWith_exprs:
  "length cs = length (concat (map stmtExprs ss)) \<Longrightarrow>
     concat (map stmtExprs (stmtsWith ss cs)) = cs"
proof (induction ss arbitrary: cs)
  case Nil
  then show ?case by simp
next
  case (Cons s ss)
  have le: "length (stmtExprs s) \<le> length cs" using Cons.prems by simp
  obtain s1 r where w: "stmtWith s cs = (s1, r)" by (cases "stmtWith s cs")
  from stmtWith_exprs [OF le] w have s1: "stmtExprs s1 = take (length (stmtExprs s)) cs"
    and r: "r = drop (length (stmtExprs s)) cs" by simp_all
  have "length r = length (concat (map stmtExprs ss))" using r Cons.prems by simp
  from Cons.IH [OF this] show ?case using w s1 r by simp
qed

lemma entriesWith_values:
  "length cs = length ens \<Longrightarrow> map entryValue (entriesWith ens cs) = cs"
proof (induction ens arbitrary: cs)
  case Nil
  then show ?case by simp
next
  case (Cons en ens)
  then show ?case by (cases en; cases cs) simp_all
qed

lemma immediate_withImmediate:
  "length cs = length (immediate e) \<Longrightarrow> immediate (withImmediate e cs) = cs"
proof (cases e)
  case (PureFunctionExpr body args fn varOffset)
  assume len: "length cs = length (immediate e)"
  obtain b1 r1 where b: "optionWith body cs = (b1, r1)" by (cases "optionWith body cs")
  obtain f1 r2 where f: "optionWith fn r1 = (f1, r2)" by (cases "optionWith fn r1")
  have l1: "length (optionExprs body) \<le> length cs" using len PureFunctionExpr by simp
  from optionWith_exprs [OF l1] b have b1: "optionExprs b1 = take (length (optionExprs body)) cs"
    and r1: "r1 = drop (length (optionExprs body)) cs" by simp_all
  have l2: "length (optionExprs fn) \<le> length r1" using len PureFunctionExpr r1 by simp
  from optionWith_exprs [OF l2] f have f1: "optionExprs f1 = take (length (optionExprs fn)) r1"
    and r2: "r2 = drop (length (optionExprs fn)) r1" by simp_all
  have "take (length (optionExprs fn)) r1 @ r2 = r1" using r2 by simp
  moreover have "take (length (optionExprs body)) cs @ r1 = cs" using r1 by simp
  ultimately have "optionExprs b1 @ optionExprs f1 @ r2 = cs" using b1 f1 by simp
  then show ?thesis using PureFunctionExpr b f by simp
next
  case (ConditionalCaseExpr c target slot al)
  assume len: "length cs = length (immediate e)"
  then have "length (optionExprs c) \<le> length cs" using ConditionalCaseExpr by simp
  from optionWith_exprs [OF this] show ?thesis using ConditionalCaseExpr len by simp
qed (auto simp: stmtsWith_exprs entriesWith_values length_Suc_conv split: list.splits sum.splits)

lemma isIrExpression_withImmediate [simp]:
  "isIrExpression (withImmediate e cs) = isIrExpression e"
  by (cases e) (auto split: list.splits sum.splits prod.splits)

lemma withImmediate_LexicalRead [simp]:
  "(withImmediate e cs = LexicalReadExpr n) = (e = LexicalReadExpr n)"
  by (cases e) (auto split: list.splits sum.splits prod.splits)

lemma set_subexprs:
  "set (subexprs e) = insert e (\<Union>c\<in>set (immediate e). set (subexprs c))"
  by (subst subexprs.simps) simp

lemma transform_invariant:
  assumes step: "\<And>e cs s r s'. length cs = length (immediate e) \<Longrightarrow> list_all Q cs \<Longrightarrow>
                   f (withImmediate e cs) s = Inr (r, s') \<Longrightarrow> Q r"
  shows "transformExpressionsInExpression f e s = Inr (e', s') \<Longrightarrow> Q e'"
  using step
proof (induction f e s arbitrary: e' s' rule: transformExpressionsInExpression.induct)
  case (1 transform e s)
  note step1 = "1.prems"(2)
  from "1.prems"(1) obtain cs s1 where
    m: "mapState (transformExpressionsInExpression transform) (immediate e) s = Inr (cs, s1)"
    and t: "transform (withImmediate e cs) s1 = Inr (e', s')"
    by (subst (asm) transformExpressionsInExpression.simps) (auto split: sum.splits)
  have "list_all Q cs"
  proof (rule mapState_invariant [OF _ m])
    fix x u y u'
    assume "x \<in> set (immediate e)"
      and "transformExpressionsInExpression transform x u = Inr (y, u')"
    then show "Q y" using "1.IH" step1 by blast
  qed
  moreover have "length cs = length (immediate e)" using m by (rule mapState_length)
  ultimately show ?case using step1 t by blast
qed

lemma bindingWith_exprs:
  "length (bindingExprs b) \<le> length cs \<Longrightarrow>
     bindingExprs (fst (bindingWith b cs)) = take (length (bindingExprs b)) cs
     \<and> snd (bindingWith b cs) = drop (length (bindingExprs b)) cs"
  by (cases b; cases cs) simp_all

lemma two_parts:
  assumes "length cs = length (bindingExprs b) + length (optionExprs v)"
  shows "bindingExprs (fst (bindingWith b cs))
         @ optionExprs (fst (optionWith v (snd (bindingWith b cs)))) = cs"
proof -
  have l1: "length (bindingExprs b) \<le> length cs" using assms by simp
  note b = bindingWith_exprs [OF l1]
  have l2: "length (optionExprs v) \<le> length (snd (bindingWith b cs))" using assms b by simp
  note v = optionWith_exprs [OF l2]
  show ?thesis using b v assms by simp
qed

lemma two_options:
  assumes "length cs = length (optionExprs a) + length (optionExprs b)"
  shows "optionExprs (fst (optionWith a cs))
         @ optionExprs (fst (optionWith b (snd (optionWith a cs)))) = cs"
proof -
  have l1: "length (optionExprs a) \<le> length cs" using assms by simp
  note a = optionWith_exprs [OF l1]
  have l2: "length (optionExprs b) \<le> length (snd (optionWith a cs))" using assms a by simp
  note b = optionWith_exprs [OF l2]
  show ?thesis using a b assms by simp
qed

lemma three_options:
  assumes "length cs = length (optionExprs a) + length (optionExprs b) + length (optionExprs c)"
  shows "optionExprs (fst (optionWith a cs))
         @ optionExprs (fst (optionWith b (snd (optionWith a cs))))
         @ optionExprs (fst (optionWith c (snd (optionWith b (snd (optionWith a cs)))))) = cs"
proof -
  have l1: "length (optionExprs a) \<le> length cs" using assms by simp
  note a = optionWith_exprs [OF l1]
  have l2: "length cs - length (optionExprs a) =
      length (optionExprs b) + length (optionExprs c)" using assms by simp
  have "optionExprs (fst (optionWith b (snd (optionWith a cs))))
         @ optionExprs (fst (optionWith c (snd (optionWith b (snd (optionWith a cs))))))
        = snd (optionWith a cs)"
    by (rule two_options) (simp add: a l2)
  then show ?thesis using a by simp
qed

lemma one_option:
  "length cs = length (optionExprs a) \<Longrightarrow> optionExprs (fst (optionWith a cs)) = cs"
  using optionWith_exprs [of a cs] by simp

lemma one_binding:
  "length cs = length (bindingExprs b) \<Longrightarrow> bindingExprs (fst (bindingWith b cs)) = cs"
  using bindingWith_exprs [of b cs] by simp

lemma one_stmt:
  "length cs = length (stmtExprs s) \<Longrightarrow> stmtExprs (fst (stmtWith s cs)) = cs"
  using stmtWith_exprs [of s cs] by simp

lemma opExprs_withOpExprs:
  "length cs = length (opExprs c) \<Longrightarrow> opExprs (withOpExprs c cs) = cs"
  by (cases c)
     (auto simp: opExprs_def withOpExprs_def one_option one_binding one_stmt two_parts
        two_options three_options length_Suc_conv split_beta split: list.splits)

lemma kind_withOpExprs [simp]: "kind (withOpExprs c cs) = kind c"
  by (cases c) (auto simp: withOpExprs_def split: prod.splits list.splits)

lemma handlerOps_withOpExprs [simp]: "handlerOps (withOpExprs c cs) = handlerOps c"
  by (cases c) (auto simp: withOpExprs_def handlerOps_def split: prod.splits list.splits)

lemma kind_withHandlerOps [simp]: "kind (withHandlerOps c hs) = kind c"
  by (cases c) (auto simp: withHandlerOps_def)

lemma opExprs_withHandlerOps [simp]: "opExprs (withHandlerOps c hs) = opExprs c"
  by (cases c) (auto simp: withHandlerOps_def opExprs_def)

lemma handlerOps_withHandlerOps:
  "length hs = length (handlerOps c) \<Longrightarrow> handlerOps (withHandlerOps c hs) = hs"
  by (cases c) (auto simp: withHandlerOps_def handlerOps_def)

lemma set_opSubexprs:
  "set (opSubexprs c) =
     (\<Union>e\<in>set (opExprs c). set (subexprs e)) \<union> (\<Union>h\<in>set (handlerOps c). set (opSubexprs h))"
  by (subst opSubexprs.simps) simp

lemma noIrExpr_unfold:
  "noIrExpr e \<longleftrightarrow> \<not> isIrExpression e \<and> (\<forall>c\<in>set (immediate e). noIrExpr c)"
  unfolding noIrExpr_def by (subst set_subexprs) auto

lemma noIrOp_unfold:
  "noIrOp c \<longleftrightarrow> (\<forall>e\<in>set (opExprs c). noIrExpr e) \<and> (\<forall>h\<in>set (handlerOps c). noIrOp h)"
  unfolding noIrOp_def noIrExpr_def by (subst set_opSubexprs) auto

lemma noIrExpr_output [simp]:
  "noIrExpr (InvokeFunctionExpr f args sp) \<longleftrightarrow> noIrExpr f \<and> (\<forall>a\<in>set args. noIrExpr a)"
  "noIrExpr (ExternalExpr r)"
  "noIrExpr (LiteralExpr v sp)"
  "noIrExpr (ReadVarExpr n)"
  "noIrExpr (WriteVarExpr n x) \<longleftrightarrow> noIrExpr x"
  "noIrExpr (LiteralArrayExpr es) \<longleftrightarrow> (\<forall>a\<in>set es. noIrExpr a)"
  "noIrExpr (FunctionExpr ps stmts name) \<longleftrightarrow> (\<forall>s\<in>set stmts. \<forall>a\<in>set (stmtExprs s). noIrExpr a)"
  by (subst noIrExpr_unfold, simp)+

lemma noIrExpr_literals [simp]:
  "noIrExpr (numLit n)" "noIrExpr (strLit s)" "noIrExpr (boolLit b)" "noIrExpr nullLit"
  "noIrExpr (optNumLit k)" "noIrExpr (optStrLit t)" "noIrExpr (optSlotLit h)"
  "noIrExpr (localRefsLit refs)" "noIrExpr (variable name)"
  by (auto simp: numLit_def strLit_def boolLit_def nullLit_def optNumLit_def optStrLit_def
      optSlotLit_def localRefsLit_def variable_def split: option.splits local_refs.splits)

lemma noIrExpr_optExpr: "(\<forall>a\<in>set (optionExprs x). noIrExpr a) \<Longrightarrow> noIrExpr (optExpr x)"
  by (cases x) (simp_all add: optExpr_def optionExprs_def)

lemma reify_step:
  assumes len: "length cs = length (immediate e)"
    and cs: "list_all noIrExpr cs"
    and r: "reifyIrExpressionTransform (withImmediate e cs) s = Inr (r, s')"
  shows "noIrExpr r"
proof (cases "isIrExpression e")
  case False
  then have "r = withImmediate e cs"
    using r by (simp add: reifyIrExpressionTransform_def reifyIrExpression_def)
  moreover have "noIrExpr (withImmediate e cs)"
    using False cs immediate_withImmediate [OF len]
    by (subst noIrExpr_unfold) (simp add: list_all_iff)
  ultimately show ?thesis by simp
next
  case True
  then show ?thesis
    using len cs r
    by (cases e)
       (auto simp: reifyIrExpressionTransform_def reifyIrExpression_def ng_expr_def
          optionExprs_def optionWith_def length_Suc_conv list_all_iff
          split: sum.splits option.splits list.splits if_splits)
qed

lemma reify_expr_noIr:
  "transformExpressionsInExpression reifyIrExpressionTransform e s = Inr (e', s') \<Longrightarrow> noIrExpr e'"
  by (rule transform_invariant [where Q = noIrExpr and f = reifyIrExpressionTransform])
     (auto intro: reify_step)

lemma mapError_invariant:
  assumes "\<And>x y. x \<in> set xs \<Longrightarrow> f x = Inr y \<Longrightarrow> Q y"
  shows "mapError f xs = Inr ys \<Longrightarrow> list_all Q ys"
  using assms
proof (induction xs arbitrary: ys)
  case Nil
  then show ?case by simp
next
  case (Cons x xs)
  from Cons.prems(1) obtain y zs where
    x: "f x = Inr y" and r: "mapError f xs = Inr zs" and ys: "ys = y # zs"
    by (auto split: sum.splits)
  have "Q y" using Cons.prems(2) [of x y] x by simp
  moreover have "list_all Q zs"
  proof (rule Cons.IH [OF r])
    fix z w
    assume "z \<in> set xs" and "f z = Inr w"
    then show "Q w" using Cons.prems(2) [of z w] by simp
  qed
  ultimately show ?case using ys by simp
qed

lemma mapError_list_all2:
  assumes "\<And>x y. x \<in> set xs \<Longrightarrow> f x = Inr y \<Longrightarrow> R x y"
  shows "mapError f xs = Inr ys \<Longrightarrow> list_all2 R xs ys"
  using assms
proof (induction xs arbitrary: ys)
  case Nil
  then show ?case by simp
next
  case (Cons x xs)
  from Cons.prems(1) obtain y zs where
    x: "f x = Inr y" and r: "mapError f xs = Inr zs" and ys: "ys = y # zs"
    by (auto split: sum.splits)
  have "R x y" using Cons.prems(2) [of x y] x by simp
  moreover have "list_all2 R xs zs"
  proof (rule Cons.IH [OF r])
    fix z w
    assume "z \<in> set xs" and "f z = Inr w"
    then show "R z w" using Cons.prems(2) [of z w] by simp
  qed
  ultimately show ?case using ys by simp
qed

lemma mapError_fails:
  "x \<in> set xs \<Longrightarrow> f x = Inl e \<Longrightarrow> \<exists>err. mapError f xs = Inl err"
  by (induction xs) (auto split: sum.splits)

lemma noIrExpr_optExpr_iff [simp]:
  "noIrExpr (optExpr x) \<longleftrightarrow> (\<forall>a\<in>set (optionExprs x). noIrExpr a)"
  by (cases x) (simp_all add: optExpr_def optionExprs_def nullLit_def)

lemma noIrOp_StatementOp [simp]:
  "noIrOp (StatementOp s) \<longleftrightarrow> (\<forall>a\<in>set (stmtExprs s). noIrExpr a)"
  by (subst noIrOp_unfold) (simp add: opExprs_def handlerOps_def)

lemma noIrOp_ng_call [simp]:
  "noIrOp (ng_call instruction args sp) \<longleftrightarrow> (\<forall>a\<in>set args. noIrExpr a)"
  by (simp add: ng_call_def ng_expr_def)

lemma kind_ng_call [simp]: "kind (ng_call instruction args sp) = OpKind_Statement"
  by (simp add: ng_call_def)

lemma noIrExpr_interpolationArgs [simp]:
  "(\<forall>a\<in>set (interpolationArgs strings es). noIrExpr a) \<longleftrightarrow> (\<forall>a\<in>set es. noIrExpr a)"
  by (auto simp: interpolationArgs_def strLit_def)

lemma reify_op_noIr:
  "transformExpressionsInOp reifyIrExpressionTransform c s = Inr (c', s') \<Longrightarrow>
     noIrOp c' \<and> kind c' = kind c"
proof (induction "reifyIrExpressionTransform" c s arbitrary: c' s'
    rule: transformExpressionsInOp.induct)
  case (1 c s)
  from "1.prems" obtain cs s1 hs where
    m: "mapState (transformExpressionsInExpression reifyIrExpressionTransform) (opExprs c) s
          = Inr (cs, s1)"
    and h: "mapState (transformExpressionsInOp reifyIrExpressionTransform) (handlerOps c) s1
          = Inr (hs, s')"
    and c': "c' = withHandlerOps (withOpExprs c cs) hs"
    by (subst (asm) transformExpressionsInOp.simps) (auto split: sum.splits)
  have cs: "list_all noIrExpr cs"
    by (rule mapState_invariant [OF _ m]) (rule reify_expr_noIr)
  have lcs: "length cs = length (opExprs c)" using m by (rule mapState_length)
  have hs: "list_all (\<lambda>h. noIrOp h) hs"
  proof (rule mapState_invariant [OF _ h])
    fix x u y u'
    assume "x \<in> set (handlerOps c)"
      and "transformExpressionsInOp reifyIrExpressionTransform x u = Inr (y, u')"
    then show "noIrOp y" using "1.hyps" [OF m refl] by blast
  qed
  have lhs: "length hs = length (handlerOps c)" using h by (rule mapState_length)
  have "opExprs c' = cs" using c' opExprs_withOpExprs [OF lcs] by simp
  moreover have "handlerOps c' = hs"
    using c' handlerOps_withHandlerOps [of hs "withOpExprs c cs"] lhs by simp
  ultimately have "noIrOp c'"
    using cs hs by (subst noIrOp_unfold) (simp add: list_all_iff)
  then show ?case using c' by simp
qed

lemma reifyUpdateOp_switch_statement:
  assumes "noIrOp c" and "reifyUpdateOp_switch c = Inr r"
  shows "kind r = OpKind_Statement \<and> noIrOp r"
proof -
  have e: "\<forall>a\<in>set (opExprs c). noIrExpr a" using assms(1) by (subst (asm) noIrOp_unfold) simp
  show ?thesis
    using e assms(2)
    by (cases c)
       (auto simp: reifyUpdateOp_switch_def opExprs_def optionExprs_def
          split: binding_expr.splits option.splits if_splits)
qed

lemma reifyUpdateOp_statement:
  "reifyUpdateOp c = Inr r \<Longrightarrow> kind r = OpKind_Statement \<and> noIrOp r"
  unfolding reifyUpdateOp_def
  by (auto split: sum.splits dest!: reify_op_noIr dest: reifyUpdateOp_switch_statement)

lemma reifyUpdateOperations_statements:
  "reifyUpdateOperations cs = Inr rs \<Longrightarrow>
     list_all (\<lambda>r. kind r = OpKind_Statement \<and> noIrOp r) rs"
  unfolding reifyUpdateOperations_def
  by (rule mapError_invariant [where f = reifyUpdateOp]) (auto dest: reifyUpdateOp_statement)

lemma handlerStatements_members:
  "handlerStatements cs = Inr ss \<Longrightarrow> \<forall>s\<in>set ss. StatementOp s \<in> set cs"
proof (induction cs arbitrary: ss)
  case Nil
  then show ?case by simp
next
  case (Cons c cs)
  then show ?case by (cases c) (auto split: sum.splits)
qed

lemma reifyListenerHandler_noIr:
  assumes "reifyListenerHandler name hs consumes = Inr fn"
  shows "noIrExpr fn"
proof -
  from assms obtain hs1 stmts where
    r: "reifyUpdateOperations hs = Inr hs1" and
    s: "handlerStatements hs1 = Inr stmts" and
    fn: "fn = FunctionExpr (if consumes then [''$event''] else []) stmts name"
    by (auto simp: reifyListenerHandler_def split: sum.splits)
  have "\<forall>st\<in>set stmts. \<forall>a\<in>set (stmtExprs st). noIrExpr a"
  proof
    fix st assume "st \<in> set stmts"
    then have "StatementOp st \<in> set hs1" using handlerStatements_members [OF s] by blast
    then have "noIrOp (StatementOp st)"
      using reifyUpdateOperations_statements [OF r] by (auto simp: list_all_iff)
    then show "\<forall>a\<in>set (stmtExprs st). noIrExpr a" by simp
  qed
  then show ?thesis using fn by simp
qed

lemma deferOnArgs_noIr: "deferOnArgs trigger = Inr args \<Longrightarrow> \<forall>a\<in>set args. noIrExpr a"
  by (cases trigger)
     (auto simp: targetTriggerArgs_def split: option.splits if_splits)

lemma reifyCreateOp_switch_statement:
  assumes "noIrOp c" and "reifyCreateOp_switch job unit c = Inr r"
  shows "kind r = OpKind_Statement \<and> noIrOp r"
proof -
  have e: "\<forall>a\<in>set (opExprs c). noIrExpr a" using assms(1) by (subst (asm) noIrOp_unfold) simp
  show ?thesis
    using e assms(2)
    by (cases c)
       (auto simp: reifyCreateOp_switch_def opExprs_def optionExprs_def Let_def
          split: option.splits if_splits sum.splits local_refs.splits namespace.splits
            prod.splits
          dest: reifyListenerHandler_noIr deferOnArgs_noIr)
qed

lemma reifyCreateOp_statement:
  "reifyCreateOp job unit c = Inr r \<Longrightarrow> kind r = OpKind_Statement \<and> noIrOp r"
  unfolding reifyCreateOp_def
  by (auto split: sum.splits dest!: reify_op_noIr dest: reifyCreateOp_switch_statement)

lemma reify_unit_statements:
  assumes "reify_unit job unit = Inr unit'"
  shows "\<forall>c\<in>set (create unit') \<union> set (update unit'). kind c = OpKind_Statement \<and> noIrOp c"
proof -
  from assms obtain cs us where
    c: "reifyCreateOperations job unit (create unit) = Inr cs" and
    u: "reifyUpdateOperations (update unit) = Inr us" and
    unit': "unit' = unit\<lparr>create := cs, update := us\<rparr>"
    by (auto simp: reify_unit_def split: sum.splits)
  have "list_all (\<lambda>r. kind r = OpKind_Statement \<and> noIrOp r) cs"
    using c unfolding reifyCreateOperations_def
    by (rule mapError_invariant [where f = "reifyCreateOp job unit", rotated])
       (auto dest: reifyCreateOp_statement)
  moreover note reifyUpdateOperations_statements [OF u]
  ultimately show ?thesis using unit' by (auto simp: list_all_iff)
qed

lemma reifyCreateOp_switch_unsupported:
  "kind c \<notin> createOpKinds \<Longrightarrow>
     reifyCreateOp_switch job unit c =
       Inl (Error (''AssertionError: Unsupported reification of create op ''
                    @ opKindName (kind c)))"
  by (cases c) (simp_all add: createOpKinds_def reifyCreateOp_switch_def)

lemma reifyUpdateOp_switch_unsupported:
  "kind c \<notin> updateOpKinds \<Longrightarrow>
     reifyUpdateOp_switch c =
       Inl (Error (''AssertionError: Unsupported reification of update op ''
                    @ opKindName (kind c)))"
  by (cases c) (simp_all add: updateOpKinds_def reifyUpdateOp_switch_def)

lemma reifyCreateOp_unsupported:
  assumes "kind c \<notin> createOpKinds"
  shows "(\<exists>err. reifyCreateOp job unit c = Inl err)
       \<and> (\<forall>c1 u. transformExpressionsInOp reifyIrExpressionTransform c () = Inr (c1, u) \<longrightarrow>
            reifyCreateOp job unit c =
              Inl (Error (''AssertionError: Unsupported reification of create op ''
                           @ opKindName (kind c))))"
proof (cases "transformExpressionsInOp reifyIrExpressionTransform c ()")
  case (Inl err)
  then show ?thesis by (simp add: reifyCreateOp_def)
next
  case (Inr p)
  obtain c1 u where p: "p = (c1, u)" by (cases p)
  have k: "kind c1 = kind c" using reify_op_noIr Inr p by blast
  then have "kind c1 \<notin> createOpKinds" using assms by simp
  from reifyCreateOp_switch_unsupported [OF this, of job unit]
  show ?thesis using Inr p k by (simp add: reifyCreateOp_def)
qed

lemma reifyUpdateOp_unsupported:
  assumes "kind c \<notin> updateOpKinds"
  shows "(\<exists>err. reifyUpdateOp c = Inl err)
       \<and> (\<forall>c1 u. transformExpressionsInOp reifyIrExpressionTransform c () = Inr (c1, u) \<longrightarrow>
            reifyUpdateOp c =
              Inl (Error (''AssertionError: Unsupported reification of update op ''
                           @ opKindName (kind c))))"
proof (cases "transformExpressionsInOp reifyIrExpressionTransform c ()")
  case (Inl err)
  then show ?thesis by (simp add: reifyUpdateOp_def)
next
  case (Inr p)
  obtain c1 u where p: "p = (c1, u)" by (cases p)
  have k: "kind c1 = kind c" using reify_op_noIr Inr p by blast
  then have "kind c1 \<notin> updateOpKinds" using assms by simp
  from reifyUpdateOp_switch_unsupported [OF this]
  show ?thesis using Inr p k by (simp add: reifyUpdateOp_def)
qed

lemma reify_unit_fails_create:
  "c \<in> set (create unit) \<Longrightarrow> reifyCreateOp job unit c = Inl e \<Longrightarrow>
     \<exists>err. reify_unit job unit = Inl err"
  using mapError_fails [of c "create unit" "reifyCreateOp job unit" e]
  by (auto simp: reify_unit_def reifyCreateOperations_def)

lemma reify_unit_fails_update:
  "c \<in> set (update unit) \<Longrightarrow> reifyUpdateOp c = Inl e \<Longrightarrow>
     \<exists>err. reify_unit job unit = Inl err"
  using mapError_fails [of c "update unit" reifyUpdateOp e]
  by (auto simp: reify_unit_def reifyUpdateOperations_def split: sum.splits)

lemma reify_fails:
  "unit \<in> set (units job) \<Longrightarrow> reify_unit job unit = Inl e \<Longrightarrow> \<exists>err. reify job = Inl err"
  using mapError_fails [of unit "units job" "reify_unit job" e]
  by (auto simp: reify_def)

lemma reifyIrExpression_unsupported:
  "isIrExpression e \<Longrightarrow> \<not> hasReifyCase e \<Longrightarrow>
     reifyIrExpression e =
       Inl (Error ''AssertionError: Unsupported reification of ir.Expression kind'')"
  by (cases e) (simp_all add: hasReifyCase_def reifyIrExpression_def)

lemma hasReifyCase_withImmediate [simp]:
  "hasReifyCase (withImmediate e cs) = hasReifyCase e"
  by (cases e) (auto simp: hasReifyCase_def split: list.splits sum.splits prod.splits)

lemma reify_expr_fails_unsupported:
  "x \<in> set (subexprs e) \<Longrightarrow> isIrExpression x \<Longrightarrow> \<not> hasReifyCase x \<Longrightarrow>
     \<exists>err. transformExpressionsInExpression reifyIrExpressionTransform e s = Inl err"
proof (induction e arbitrary: s rule: measure_induct_rule [of size])
  case (less e)
  show ?case
  proof (cases "x = e")
    case True
    show ?thesis
    proof (cases "mapState (transformExpressionsInExpression reifyIrExpressionTransform)
                    (immediate e) s")
      case (Inl err)
      then show ?thesis by (subst transformExpressionsInExpression.simps) simp
    next
      case (Inr p)
      obtain cs s1 where p: "p = (cs, s1)" by (cases p)
      have "reifyIrExpression (withImmediate e cs) =
              Inl (Error ''AssertionError: Unsupported reification of ir.Expression kind'')"
        using less.prems True by (intro reifyIrExpression_unsupported) simp_all
      then show ?thesis using Inr p
        by (subst transformExpressionsInExpression.simps)
           (simp add: reifyIrExpressionTransform_def)
    qed
  next
    case False
    with less.prems(1) obtain c where c: "c \<in> set (immediate e)"
      and r: "x \<in> set (subexprs c)"
      by (subst (asm) set_subexprs) auto
    have "size c < size e" using c by (rule size_immediate)
    from less.IH [OF this r less.prems(2,3)]
    have "\<And>u. \<exists>err. transformExpressionsInExpression reifyIrExpressionTransform c u = Inl err" .
    from mapState_fails
      [where f = "transformExpressionsInExpression reifyIrExpressionTransform", OF c this]
    obtain err where
      "mapState (transformExpressionsInExpression reifyIrExpressionTransform) (immediate e) s
         = Inl err" by blast
    then show ?thesis by (subst transformExpressionsInExpression.simps) simp
  qed
qed

lemma reify_op_fails_unsupported:
  "x \<in> set (opSubexprs c) \<Longrightarrow> isIrExpression x \<Longrightarrow> \<not> hasReifyCase x \<Longrightarrow>
     \<exists>err. transformExpressionsInOp reifyIrExpressionTransform c s = Inl err"
proof (induction c arbitrary: s rule: measure_induct_rule [of size])
  case (less c)
  from less.prems(1) consider
    (e) y where "y \<in> set (opExprs c)" "x \<in> set (subexprs y)"
    | (h) y where "y \<in> set (handlerOps c)" "x \<in> set (opSubexprs y)"
    by (subst (asm) set_opSubexprs) auto
  then show ?case
  proof cases
    case e
    have "\<And>u. \<exists>err. transformExpressionsInExpression reifyIrExpressionTransform y u = Inl err"
      using reify_expr_fails_unsupported [OF e(2) less.prems(2,3)] .
    from mapState_fails
      [where f = "transformExpressionsInExpression reifyIrExpressionTransform", OF e(1) this]
    obtain err where
      "mapState (transformExpressionsInExpression reifyIrExpressionTransform) (opExprs c) s
         = Inl err" by blast
    then show ?thesis by (subst transformExpressionsInOp.simps) simp
  next
    case h
    have "size y < size c" using h(1) by (rule size_handlerOps)
    from less.IH [OF this h(2) less.prems(2,3)]
    have f: "\<And>u. \<exists>err. transformExpressionsInOp reifyIrExpressionTransform y u = Inl err" .
    show ?thesis
    proof (cases "mapState (transformExpressionsInExpression reifyIrExpressionTransform)
                    (opExprs c) s")
      case (Inl err)
      then show ?thesis by (subst transformExpressionsInOp.simps) simp
    next
      case (Inr p)
      obtain cs s1 where p: "p = (cs, s1)" by (cases p)
      from mapState_fails
        [where f = "transformExpressionsInOp reifyIrExpressionTransform", OF h(1) f]
      obtain err where
        "mapState (transformExpressionsInOp reifyIrExpressionTransform) (handlerOps c) s1
           = Inl err" by blast
      then show ?thesis using Inr p by (subst transformExpressionsInOp.simps) simp
    qed
  qed
qed

lemma reifyOp_fails_unsupported_expr:
  assumes "x \<in> set (opSubexprs c)" and "isIrExpression x" and "\<not> hasReifyCase x"
  shows "(\<exists>err. reifyCreateOp job unit c = Inl err) \<and> (\<exists>err. reifyUpdateOp c = Inl err)"
proof -
  from reify_op_fails_unsupported [OF assms, of "()"] obtain err where
    "transformExpressionsInOp reifyIrExpressionTransform c () = Inl err" by blast
  then show ?thesis by (simp add: reifyCreateOp_def reifyUpdateOp_def)
qed

text \<open>
  Claim C1. If \<^verbatim>\<open>reify\<close> completes, every op of the create and update lists of every unit
  is a Statement op, and no expression of any op, nested expressions and the bodies of
  listener functions included, is an IR expression. A job with a create op, or an update
  op, of a kind without case in the respective switch, or with an op that holds an IR
  expression without case in \<^verbatim>\<open>reifyIrExpression\<close>, makes \<^verbatim>\<open>reify\<close> throw. Where the
  expressions of an op of such a kind reify, the error is the assertion ``Unsupported
  reification of create op'' (``of update op'') with the name of the kind; for an IR
  expression without case, \<^verbatim>\<open>reifyIrExpression\<close> gives the assertion ``Unsupported
  reification of ir.Expression kind''.
\<close>

theorem reify_only_statements:
  "(\<forall>job'. reify job = Inr job' \<longrightarrow>
      (\<forall>unit\<in>set (units job'). \<forall>c\<in>set (create unit) \<union> set (update unit).
         kind c = OpKind_Statement \<and> noIrOp c))
   \<and> (\<forall>unit\<in>set (units job).
        (\<exists>c\<in>set (create unit). kind c \<notin> createOpKinds)
        \<or> (\<exists>c\<in>set (update unit). kind c \<notin> updateOpKinds)
        \<or> (\<exists>c\<in>set (create unit) \<union> set (update unit). \<exists>x\<in>set (opSubexprs c).
              isIrExpression x \<and> \<not> hasReifyCase x) \<longrightarrow>
        (\<exists>err. reify job = Inl err))
   \<and> (kind c \<notin> createOpKinds \<longrightarrow>
        (\<forall>c1 u. transformExpressionsInOp reifyIrExpressionTransform c () = Inr (c1, u) \<longrightarrow>
           reifyCreateOp job unit0 c =
             Inl (Error (''AssertionError: Unsupported reification of create op ''
                          @ opKindName (kind c)))))
   \<and> (kind c \<notin> updateOpKinds \<longrightarrow>
        (\<forall>c1 u. transformExpressionsInOp reifyIrExpressionTransform c () = Inr (c1, u) \<longrightarrow>
           reifyUpdateOp c =
             Inl (Error (''AssertionError: Unsupported reification of update op ''
                          @ opKindName (kind c)))))
   \<and> (isIrExpression e \<and> \<not> hasReifyCase e \<longrightarrow>
        reifyIrExpression e =
          Inl (Error ''AssertionError: Unsupported reification of ir.Expression kind''))"
proof (intro conjI allI impI ballI)
  fix job' unit c'
  assume r: "reify job = Inr job'" and u: "unit \<in> set (units job')"
    and c: "c' \<in> set (create unit) \<union> set (update unit)"
  from r obtain us where m: "mapError (reify_unit job) (units job) = Inr us"
    and job': "job' = job\<lparr>units := us\<rparr>"
    by (auto simp: reify_def split: sum.splits)
  have "list_all (\<lambda>unit'. \<forall>c\<in>set (create unit') \<union> set (update unit').
                   kind c = OpKind_Statement \<and> noIrOp c) us"
    by (rule mapError_invariant [OF _ m]) (rule reify_unit_statements)
  then have "\<forall>c\<in>set (create unit) \<union> set (update unit). kind c = OpKind_Statement \<and> noIrOp c"
    using u job' by (simp add: list_all_iff)
  with c show "kind c' = OpKind_Statement" and "noIrOp c'" by blast+
next
  fix unit
  assume u: "unit \<in> set (units job)"
    and k: "(\<exists>c\<in>set (create unit). kind c \<notin> createOpKinds)
            \<or> (\<exists>c\<in>set (update unit). kind c \<notin> updateOpKinds)
            \<or> (\<exists>c\<in>set (create unit) \<union> set (update unit). \<exists>x\<in>set (opSubexprs c).
                  isIrExpression x \<and> \<not> hasReifyCase x)"
  from k consider
    (cr) c where "c \<in> set (create unit)" "\<exists>err. reifyCreateOp job unit c = Inl err"
    | (up) c where "c \<in> set (update unit)" "\<exists>err. reifyUpdateOp c = Inl err"
    using reifyCreateOp_unsupported [of _ job unit] reifyUpdateOp_unsupported
      reifyOp_fails_unsupported_expr [of _ _ job unit]
    by (metis Un_iff)
  then have "\<exists>err. reify_unit job unit = Inl err"
  proof cases
    case cr
    then show ?thesis using reify_unit_fails_create [of c unit job] by blast
  next
    case up
    then show ?thesis using reify_unit_fails_update [of c unit _ job] by blast
  qed
  then show "\<exists>err. reify job = Inl err" using reify_fails [OF u] by blast
next
  fix c1 u
  assume "kind c \<notin> createOpKinds"
    and "transformExpressionsInOp reifyIrExpressionTransform c () = Inr (c1, u)"
  then show "reifyCreateOp job unit0 c =
      Inl (Error (''AssertionError: Unsupported reification of create op ''
                   @ opKindName (kind c)))"
    using reifyCreateOp_unsupported [of c job unit0] by blast
next
  fix c1 u
  assume "kind c \<notin> updateOpKinds"
    and "transformExpressionsInOp reifyIrExpressionTransform c () = Inr (c1, u)"
  then show "reifyUpdateOp c =
      Inl (Error (''AssertionError: Unsupported reification of update op ''
                   @ opKindName (kind c)))"
    using reifyUpdateOp_unsupported [of c] by blast
next
  assume "isIrExpression e \<and> \<not> hasReifyCase e"
  then show "reifyIrExpression e =
      Inl (Error ''AssertionError: Unsupported reification of ir.Expression kind'')"
    using reifyIrExpression_unsupported by blast
qed

lemmas traversal_simps =
  transformExpressionsInExpression.simps transformExpressionsInOp.simps subexprs.simps
  opSubexprs.simps

theorem reify_only_statements_witness:
  "reify \<lparr>nextXrefId = 5, root = 0, units =
      [\<lparr>xref = 0,
         create = [ElementStartOp (Some ''button'') 1 (Some 0) None (LocalRefConst None) None,
                   ListenerOp 1 ''click'' (Some ''h'')
                     [StatementOp (ReturnStatement
                        (InvokeFunctionExpr (ReadVariableExpr 3 (Some ''f''))
                           [ReadVarExpr ''$event''] None) None)]
                     True False False None,
                   ElementEndOp 1 None],
         update = [AdvanceOp 1 None,
                   PropertyOp 1 ''title'' (Plain (ReadVariableExpr 4 (Some ''t'')))
                     (Some (SanitizerExpr SanitizerFn_Html)) HTML None],
         isView = True, fnName = Some ''T'', decls = Some 1, vars = Some 1\<rparr>]\<rparr>
   = Inr \<lparr>nextXrefId = 5, root = 0, units =
      [\<lparr>xref = 0,
         create = [ng_call ''elementStart''
                     [numLit 0, strLit ''button'', nullLit, nullLit] None,
                   ng_call ''listener''
                     [strLit ''click'',
                      FunctionExpr [''$event'']
                        [ReturnStatement
                           (InvokeFunctionExpr (ReadVarExpr ''f'') [ReadVarExpr ''$event'']
                              None) None]
                        (Some ''h'')] None,
                   ng_call ''elementEnd'' [] None],
         update = [ng_call ''advance'' [numLit 1] None,
                   ng_call ''property''
                     [strLit ''title'', ReadVarExpr ''t'', ExternalExpr ''sanitizeHtml''] None],
         isView = True, fnName = Some ''T'', decls = Some 1, vars = Some 1\<rparr>]\<rparr>
   \<and> noIrOp (ng_call ''property''
               [strLit ''title'', ReadVarExpr ''t'', ExternalExpr ''sanitizeHtml''] None)
   \<and> (\<exists>err. reify \<lparr>nextXrefId = 5, root = 0, units =
        [\<lparr>xref = 0,
           create = [I18nContextOp I18nContextKind_RootI18n 2 1 (Message ''m'') None],
           update = [],
           isView = True, fnName = Some ''T'', decls = Some 1, vars = Some 1\<rparr>]\<rparr> = Inl err)
   \<and> (\<exists>err. reify \<lparr>nextXrefId = 5, root = 0, units =
        [\<lparr>xref = 0,
           create = [],
           update = [PropertyOp 1 ''title'' (Plain (ReadPropExpr (ContextExpr 0) ''t'' None)) None
                       NONE None],
           isView = True, fnName = Some ''T'', decls = Some 1, vars = Some 1\<rparr>]\<rparr> = Inl err)
   \<and> reifyIrExpression (ContextExpr 0) =
       Inl (Error ''AssertionError: Unsupported reification of ir.Expression kind'')"
proof -
  let ?ctx = "\<lparr>nextXrefId = 5, root = 0, units =
        [\<lparr>xref = 0,
           create = [],
           update = [PropertyOp 1 ''title'' (Plain (ReadPropExpr (ContextExpr 0) ''t'' None)) None
                       NONE None],
           isView = True, fnName = Some ''T'', decls = Some 1, vars = Some 1\<rparr>]\<rparr>"
  let ?job = "\<lparr>nextXrefId = 5, root = 0, units =
      [\<lparr>xref = 0,
         create = [ElementStartOp (Some ''button'') 1 (Some 0) None (LocalRefConst None) None,
                   ListenerOp 1 ''click'' (Some ''h'')
                     [StatementOp (ReturnStatement
                        (InvokeFunctionExpr (ReadVariableExpr 3 (Some ''f''))
                           [ReadVarExpr ''$event''] None) None)]
                     True False False None,
                   ElementEndOp 1 None],
         update = [AdvanceOp 1 None,
                   PropertyOp 1 ''title'' (Plain (ReadVariableExpr 4 (Some ''t'')))
                     (Some (SanitizerExpr SanitizerFn_Html)) HTML None],
         isView = True, fnName = Some ''T'', decls = Some 1, vars = Some 1\<rparr>]\<rparr>"
  let ?bad = "\<lparr>nextXrefId = 5, root = 0, units =
        [\<lparr>xref = 0,
           create = [I18nContextOp I18nContextKind_RootI18n 2 1 (Message ''m'') None],
           update = [],
           isView = True, fnName = Some ''T'', decls = Some 1, vars = Some 1\<rparr>]\<rparr>"
  have a: "reify ?job = Inr \<lparr>nextXrefId = 5, root = 0, units =
      [\<lparr>xref = 0,
         create = [ng_call ''elementStart''
                     [numLit 0, strLit ''button'', nullLit, nullLit] None,
                   ng_call ''listener''
                     [strLit ''click'',
                      FunctionExpr [''$event'']
                        [ReturnStatement
                           (InvokeFunctionExpr (ReadVarExpr ''f'') [ReadVarExpr ''$event'']
                              None) None]
                        (Some ''h'')] None,
                   ng_call ''elementEnd'' [] None],
         update = [ng_call ''advance'' [numLit 1] None,
                   ng_call ''property''
                     [strLit ''title'', ReadVarExpr ''t'', ExternalExpr ''sanitizeHtml''] None],
         isView = True, fnName = Some ''T'', decls = Some 1, vars = Some 1\<rparr>]\<rparr>"
    by (simp add: reify_def reify_unit_def reifyCreateOperations_def reifyUpdateOperations_def
          reifyCreateOp_def reifyUpdateOp_def reifyCreateOp_switch_def reifyUpdateOp_switch_def
          reifyListenerHandler_def reifyIrExpressionTransform_def reifyIrExpression_def
          traversal_simps opExprs_def withOpExprs_def handlerOps_def withHandlerOps_def
          optionExprs_def optionWith_def optNumLit_def optStrLit_def optExpr_def
          localRefsLit_def ng_expr_def ng_call_def)
  note t = reify_only_statements [where job = ?job and c = "ElementEndOp 1 None"
      and e = "ReadVarExpr ''x''"]
  have b: "noIrOp (ng_call ''property''
               [strLit ''title'', ReadVarExpr ''t'', ExternalExpr ''sanitizeHtml''] None)"
    using t a by simp
  note t2 = reify_only_statements [where job = ?bad
      and c = "I18nContextOp I18nContextKind_RootI18n 2 1 (Message ''m'') None"
      and e = "ContextExpr 0"]
  have c: "\<exists>err. reify ?bad = Inl err"
    using t2 by (simp add: createOpKinds_def)
  have d: "reifyIrExpression (ContextExpr 0) =
       Inl (Error ''AssertionError: Unsupported reification of ir.Expression kind'')"
    using t2 by (simp add: hasReifyCase_def)
  note t3 = reify_only_statements [where job = ?ctx and c = "ElementEndOp 1 None"
      and e = "ReadVarExpr ''x''"]
  have f: "\<exists>err. reify ?ctx = Inl err"
    using t3
    by (simp add: hasReifyCase_def traversal_simps opExprs_def handlerOps_def optionExprs_def)
  from a b c d f show ?thesis by blast
qed

section \<open>Properties of the resolution of \<^verbatim>\<open>$event\<close>\<close>

lemma list_all2_member:
  "list_all2 R xs ys \<Longrightarrow> x \<in> set xs \<Longrightarrow> \<exists>y\<in>set ys. R x y"
  by (induction rule: list_all2_induct) auto

lemma list_all2_member2:
  "list_all2 R xs ys \<Longrightarrow> y \<in> set ys \<Longrightarrow> \<exists>x\<in>set xs. R x y"
  by (induction rule: list_all2_induct) auto

lemma mapState_total:
  assumes "\<And>x u. x \<in> set xs \<Longrightarrow> \<exists>y. f x u = Inr (y, u \<or> P x) \<and> R x y"
  shows "\<exists>ys. mapState f xs s = Inr (ys, s \<or> (\<exists>x\<in>set xs. P x)) \<and> list_all2 R xs ys"
  using assms
proof (induction xs arbitrary: s)
  case Nil
  then show ?case by simp
next
  case (Cons x xs)
  from Cons.prems [of x s] obtain y where y: "f x s = Inr (y, s \<or> P x)" and r: "R x y"
    by auto
  have "\<exists>ys. mapState f xs (s \<or> P x) = Inr (ys, (s \<or> P x) \<or> (\<exists>x\<in>set xs. P x))
          \<and> list_all2 R xs ys"
    by (rule Cons.IH) (use Cons.prems in simp)
  then obtain ys where
    ys: "mapState f xs (s \<or> P x) = Inr (ys, (s \<or> P x) \<or> (\<exists>x\<in>set xs. P x))"
    and rs: "list_all2 R xs ys" by blast
  have "(s \<or> P x) \<or> (\<exists>x\<in>set xs. P x) \<longleftrightarrow> s \<or> (\<exists>z\<in>set (x # xs). P z)" by auto
  then show ?case using y r ys rs by simp
qed

lemma mapError_total:
  assumes "\<And>x. x \<in> set xs \<Longrightarrow> \<exists>y. f x = Inr y \<and> R x y"
  shows "\<exists>ys. mapError f xs = Inr ys \<and> list_all2 R xs ys"
  using assms
proof (induction xs)
  case Nil
  then show ?case by simp
next
  case (Cons x xs)
  from Cons.prems [of x] obtain y where y: "f x = Inr y" and r: "R x y" by auto
  have "\<exists>ys. mapError f xs = Inr ys \<and> list_all2 R xs ys"
    by (rule Cons.IH) (use Cons.prems in simp)
  then show ?case using y r by auto
qed

lemma subexprs_leaf [simp]:
  "set (subexprs (ReadVarExpr n)) = {ReadVarExpr n}"
  "set (subexprs (LexicalReadExpr n)) = {LexicalReadExpr n}"
  by (subst set_subexprs, simp)+

lemma dollarEventTransform_other:
  "e \<noteq> LexicalReadExpr ''$event'' \<Longrightarrow> dollarEventTransform e s = Inr (e, s)"
  by (cases e) (auto simp: dollarEventTransform_def)

lemma dollarEvent_expr:
  "\<exists>e'. transformExpressionsInExpression dollarEventTransform e s =
           Inr (e', s \<or> LexicalReadExpr ''$event'' \<in> set (subexprs e))
       \<and> LexicalReadExpr ''$event'' \<notin> set (subexprs e')
       \<and> (LexicalReadExpr ''$event'' \<in> set (subexprs e) \<longrightarrow>
            ReadVarExpr ''$event'' \<in> set (subexprs e'))"
proof (induction e arbitrary: s rule: measure_induct_rule [of size])
  case (less e)
  let ?P = "\<lambda>x. LexicalReadExpr ''$event'' \<in> set (subexprs x)"
  let ?R = "\<lambda>x y. LexicalReadExpr ''$event'' \<notin> set (subexprs y)
              \<and> (?P x \<longrightarrow> ReadVarExpr ''$event'' \<in> set (subexprs y))"
  have "\<exists>cs. mapState (transformExpressionsInExpression dollarEventTransform) (immediate e) s =
               Inr (cs, s \<or> (\<exists>x\<in>set (immediate e). ?P x))
          \<and> list_all2 ?R (immediate e) cs"
  proof (rule mapState_total)
    fix x u
    assume "x \<in> set (immediate e)"
    then have "size x < size e" by (rule size_immediate)
    from less [OF this, of u]
    show "\<exists>y. transformExpressionsInExpression dollarEventTransform x u = Inr (y, u \<or> ?P x)
            \<and> ?R x y" by blast
  qed
  then obtain cs where
    m: "mapState (transformExpressionsInExpression dollarEventTransform) (immediate e) s =
          Inr (cs, s \<or> (\<exists>x\<in>set (immediate e). ?P x))"
    and r: "list_all2 ?R (immediate e) cs" by blast
  show ?case
  proof (cases "e = LexicalReadExpr ''$event''")
    case True
    then show ?thesis
      by (subst transformExpressionsInExpression.simps) (simp add: dollarEventTransform_def)
  next
    case False
    have len: "length cs = length (immediate e)" using r by (simp add: list_all2_lengthD)
    have imm: "immediate (withImmediate e cs) = cs" by (rule immediate_withImmediate [OF len])
    have ne: "withImmediate e cs \<noteq> LexicalReadExpr ''$event''" using False by simp
    have t: "transformExpressionsInExpression dollarEventTransform e s =
               Inr (withImmediate e cs, s \<or> (\<exists>x\<in>set (immediate e). ?P x))"
      by (subst transformExpressionsInExpression.simps)
         (simp add: m dollarEventTransform_other [OF ne])
    have p: "?P e \<longleftrightarrow> (\<exists>x\<in>set (immediate e). ?P x)"
      using False by (subst set_subexprs) auto
    have s': "set (subexprs (withImmediate e cs)) =
                insert (withImmediate e cs) (\<Union>c\<in>set cs. set (subexprs c))"
      by (subst set_subexprs) (simp add: imm)
    have no: "LexicalReadExpr ''$event'' \<notin> set (subexprs (withImmediate e cs))"
      using r ne list_all2_member2 [OF r] unfolding s' by fastforce
    have has: "ReadVarExpr ''$event'' \<in> set (subexprs (withImmediate e cs))" if "?P e"
    proof -
      from that p obtain x where x: "x \<in> set (immediate e)" and px: "?P x" by blast
      from list_all2_member [OF r x] px obtain y where
        "y \<in> set cs" and "ReadVarExpr ''$event'' \<in> set (subexprs y)" by blast
      then show ?thesis unfolding s' by blast
    qed
    show ?thesis using t p no has by simp
  qed
qed

lemma dollarEvent_op:
  "\<exists>c'. transformExpressionsInOp dollarEventTransform c s = Inr (c', s \<or> readsDollarEvent c)
       \<and> \<not> readsDollarEvent c'
       \<and> (readsDollarEvent c \<longrightarrow> ReadVarExpr ''$event'' \<in> set (opSubexprs c'))
       \<and> kind c' = kind c"
proof (induction c arbitrary: s rule: measure_induct_rule [of size])
  case (less c)
  let ?P = "\<lambda>x. LexicalReadExpr ''$event'' \<in> set (subexprs x)"
  let ?R = "\<lambda>x y. LexicalReadExpr ''$event'' \<notin> set (subexprs y)
              \<and> (?P x \<longrightarrow> ReadVarExpr ''$event'' \<in> set (subexprs y))"
  let ?Q = "\<lambda>x y. \<not> readsDollarEvent y
              \<and> (readsDollarEvent x \<longrightarrow> ReadVarExpr ''$event'' \<in> set (opSubexprs y))
              \<and> kind y = kind x"
  let ?s1 = "s \<or> (\<exists>x\<in>set (opExprs c). ?P x)"
  have "\<exists>cs. mapState (transformExpressionsInExpression dollarEventTransform) (opExprs c) s =
               Inr (cs, ?s1) \<and> list_all2 ?R (opExprs c) cs"
    by (rule mapState_total) (use dollarEvent_expr in blast)
  then obtain cs where
    m: "mapState (transformExpressionsInExpression dollarEventTransform) (opExprs c) s =
          Inr (cs, ?s1)"
    and r: "list_all2 ?R (opExprs c) cs" by blast
  have "\<exists>hs. mapState (transformExpressionsInOp dollarEventTransform) (handlerOps c) ?s1 =
               Inr (hs, ?s1 \<or> (\<exists>h\<in>set (handlerOps c). readsDollarEvent h))
          \<and> list_all2 ?Q (handlerOps c) hs"
  proof (rule mapState_total)
    fix h u
    assume "h \<in> set (handlerOps c)"
    then have "size h < size c" by (rule size_handlerOps)
    from less [OF this, of u]
    show "\<exists>y. transformExpressionsInOp dollarEventTransform h u = Inr (y, u \<or> readsDollarEvent h)
            \<and> ?Q h y" by blast
  qed
  then obtain hs where
    mh: "mapState (transformExpressionsInOp dollarEventTransform) (handlerOps c) ?s1 =
           Inr (hs, ?s1 \<or> (\<exists>h\<in>set (handlerOps c). readsDollarEvent h))"
    and rh: "list_all2 ?Q (handlerOps c) hs" by blast
  let ?c' = "withHandlerOps (withOpExprs c cs) hs"
  have len: "length cs = length (opExprs c)" using r by (simp add: list_all2_lengthD)
  have lenh: "length hs = length (handlerOps (withOpExprs c cs))"
    using rh by (simp add: list_all2_lengthD)
  have ex: "opExprs ?c' = cs" by (simp add: opExprs_withOpExprs [OF len])
  have hx: "handlerOps ?c' = hs" by (rule handlerOps_withHandlerOps [OF lenh])
  have t: "transformExpressionsInOp dollarEventTransform c s =
             Inr (?c', ?s1 \<or> (\<exists>h\<in>set (handlerOps c). readsDollarEvent h))"
    by (subst transformExpressionsInOp.simps) (simp add: m mh)
  have p: "readsDollarEvent c \<longleftrightarrow>
             (\<exists>x\<in>set (opExprs c). ?P x) \<or> (\<exists>h\<in>set (handlerOps c). readsDollarEvent h)"
    unfolding readsDollarEvent_def by (subst set_opSubexprs) auto
  have s': "set (opSubexprs ?c') =
              (\<Union>e\<in>set cs. set (subexprs e)) \<union> (\<Union>h\<in>set hs. set (opSubexprs h))"
    by (subst set_opSubexprs) (simp add: opExprs_withOpExprs [OF len] hx)
  have no: "\<not> readsDollarEvent ?c'"
    using list_all2_member2 [OF r] list_all2_member2 [OF rh]
    unfolding readsDollarEvent_def s' by fastforce
  have has: "ReadVarExpr ''$event'' \<in> set (opSubexprs ?c')" if "readsDollarEvent c"
  proof -
    from that p consider
      (e) x where "x \<in> set (opExprs c)" "?P x"
      | (h) x where "x \<in> set (handlerOps c)" "readsDollarEvent x" by blast
    then show ?thesis
    proof cases
      case e
      from list_all2_member [OF r e(1)] e(2) obtain y where
        "y \<in> set cs" and "ReadVarExpr ''$event'' \<in> set (subexprs y)" by blast
      then show ?thesis unfolding s' by blast
    next
      case h
      from list_all2_member [OF rh h(1)] h(2) obtain y where
        "y \<in> set hs" and "ReadVarExpr ''$event'' \<in> set (opSubexprs y)" by blast
      then show ?thesis unfolding s' by blast
    qed
  qed
  have "s \<or> readsDollarEvent c \<longleftrightarrow>
          ?s1 \<or> (\<exists>h\<in>set (handlerOps c). readsDollarEvent h)" using p by blast
  then show ?case using t no has by simp
qed

lemma dollarEvent_handlers:
  "\<exists>hs'. mapState (transformExpressionsInOp dollarEventTransform) hs s =
            Inr (hs', s \<or> (\<exists>h\<in>set hs. readsDollarEvent h))
        \<and> list_all2 (\<lambda>h h'. \<not> readsDollarEvent h'
              \<and> (readsDollarEvent h \<longrightarrow> ReadVarExpr ''$event'' \<in> set (opSubexprs h'))
              \<and> kind h' = kind h) hs hs'"
  by (rule mapState_total) (use dollarEvent_op in blast)

lemma transformDollarEvent_op_Listener:
  "\<exists>hs'. transformDollarEvent_op (ListenerOp t n hfn hs cde hl al sp) =
            Inr (ListenerOp t n hfn hs' (cde \<or> (\<exists>h\<in>set hs. readsDollarEvent h)) hl al sp)
        \<and> list_all2 (\<lambda>h h'. \<not> readsDollarEvent h'
              \<and> (readsDollarEvent h \<longrightarrow> ReadVarExpr ''$event'' \<in> set (opSubexprs h'))
              \<and> kind h' = kind h) hs hs'"
proof -
  from dollarEvent_handlers [of hs cde] obtain hs' where
    m: "mapState (transformExpressionsInOp dollarEventTransform) hs cde =
          Inr (hs', cde \<or> (\<exists>h\<in>set hs. readsDollarEvent h))"
    and r: "list_all2 (\<lambda>h h'. \<not> readsDollarEvent h'
              \<and> (readsDollarEvent h \<longrightarrow> ReadVarExpr ''$event'' \<in> set (opSubexprs h'))
              \<and> kind h' = kind h) hs hs'" by blast
  have "transformExpressionsInOp dollarEventTransform (ListenerOp t n hfn hs cde hl al sp) cde =
          Inr (ListenerOp t n hfn hs' cde hl al sp,
               cde \<or> (\<exists>h\<in>set hs. readsDollarEvent h))"
    by (subst transformExpressionsInOp.simps)
       (simp add: opExprs_def handlerOps_def withOpExprs_def withHandlerOps_def m
          del: opExprs_withHandlerOps handlerOps_withOpExprs)
  then have "transformDollarEvent_op (ListenerOp t n hfn hs cde hl al sp) =
          Inr (ListenerOp t n hfn hs' (cde \<or> (\<exists>h\<in>set hs. readsDollarEvent h)) hl al sp)"
    by (simp add: transformDollarEvent_op_def)
  then show ?thesis using r by blast
qed

lemma reify_Listener_shape:
  assumes "reifyCreateOp job unit (ListenerOp t n hfn hs cde hl al sp) = Inr r"
  shows "\<exists>stmts. r = ng_call (if hl \<and> al then ''syntheticHostListener'' else ''listener'')
                      [strLit n, FunctionExpr (if cde then [''$event''] else []) stmts hfn] sp"
proof -
  from assms obtain c1 u where
    t: "transformExpressionsInOp reifyIrExpressionTransform (ListenerOp t n hfn hs cde hl al sp) ()
          = Inr (c1, u)"
    and s: "reifyCreateOp_switch job unit c1 = Inr r"
    by (auto simp: reifyCreateOp_def split: sum.splits)
  have ox: "opExprs (ListenerOp t n hfn hs cde hl al sp) = []" by (simp add: opExprs_def)
  have hx: "handlerOps (ListenerOp t n hfn hs cde hl al sp) = hs" by (simp add: handlerOps_def)
  have wx: "withOpExprs (ListenerOp t n hfn hs cde hl al sp) [] =
              ListenerOp t n hfn hs cde hl al sp" by (simp add: withOpExprs_def)
  have wh: "withHandlerOps (ListenerOp t n hfn hs cde hl al sp) hs1 =
              ListenerOp t n hfn hs1 cde hl al sp" for hs1 by (simp add: withHandlerOps_def)
  from t obtain hs1 where c1: "c1 = ListenerOp t n hfn hs1 cde hl al sp"
    by (subst (asm) transformExpressionsInOp.simps)
       (auto simp: ox hx wx wh split: sum.splits)
  have sw: "reifyCreateOp_switch job unit (ListenerOp t n hfn hs1 cde hl al sp) =
          (case reifyListenerHandler hfn hs1 cde of
             Inl err \<Rightarrow> Inl err
           | Inr listenerFn \<Rightarrow>
               if hl \<and> al
               then Inr (ng_call ''syntheticHostListener'' [strLit n, listenerFn] sp)
               else Inr (ng_call ''listener'' [strLit n, listenerFn] sp))"
    by (simp add: reifyCreateOp_switch_def)
  from s obtain fn where fn: "reifyListenerHandler hfn hs1 cde = Inr fn"
    and r: "r = ng_call (if hl \<and> al then ''syntheticHostListener'' else ''listener'')
                  [strLit n, fn] sp"
    unfolding c1 sw by (auto split: sum.splits if_splits)
  from fn obtain stmts where "fn = FunctionExpr (if cde then [''$event''] else []) stmts hfn"
    unfolding reifyListenerHandler_def by (auto split: sum.splits)
  then show ?thesis using r by blast
qed

section \<open>What the resolution of \<^verbatim>\<open>$event\<close> leaves as it is\<close>

lemma reify_expr_fails_lexical:
  "LexicalReadExpr n \<in> set (subexprs e) \<Longrightarrow>
     \<exists>err. transformExpressionsInExpression reifyIrExpressionTransform e s = Inl err"
proof (induction e arbitrary: s rule: measure_induct_rule [of size])
  case (less e)
  show ?case
  proof (cases "e = LexicalReadExpr n")
    case True
    then show ?thesis
      by (subst transformExpressionsInExpression.simps)
         (simp add: reifyIrExpressionTransform_def reifyIrExpression_def)
  next
    case False
    with less.prems obtain c where c: "c \<in> set (immediate e)"
      and r: "LexicalReadExpr n \<in> set (subexprs c)"
      by (subst (asm) set_subexprs) auto
    have "size c < size e" using c by (rule size_immediate)
    from less.IH [OF this r]
    have "\<And>u. \<exists>err. transformExpressionsInExpression reifyIrExpressionTransform c u = Inl err" .
    from mapState_fails
      [where f = "transformExpressionsInExpression reifyIrExpressionTransform", OF c this]
    obtain err where
      "mapState (transformExpressionsInExpression reifyIrExpressionTransform) (immediate e) s
         = Inl err" by blast
    then show ?thesis by (subst transformExpressionsInExpression.simps) simp
  qed
qed

lemma reify_op_fails_lexical:
  "LexicalReadExpr n \<in> set (opSubexprs c) \<Longrightarrow>
     \<exists>err. transformExpressionsInOp reifyIrExpressionTransform c s = Inl err"
proof (induction c arbitrary: s rule: measure_induct_rule [of size])
  case (less c)
  from less.prems consider
    (e) x where "x \<in> set (opExprs c)" "LexicalReadExpr n \<in> set (subexprs x)"
    | (h) x where "x \<in> set (handlerOps c)" "LexicalReadExpr n \<in> set (opSubexprs x)"
    by (subst (asm) set_opSubexprs) auto
  then show ?case
  proof cases
    case e
    have "\<And>u. \<exists>err. transformExpressionsInExpression reifyIrExpressionTransform x u = Inl err"
      using reify_expr_fails_lexical [OF e(2)] .
    from mapState_fails
      [where f = "transformExpressionsInExpression reifyIrExpressionTransform", OF e(1) this]
    obtain err where
      "mapState (transformExpressionsInExpression reifyIrExpressionTransform) (opExprs c) s
         = Inl err" by blast
    then show ?thesis by (subst transformExpressionsInOp.simps) simp
  next
    case h
    have "size x < size c" using h(1) by (rule size_handlerOps)
    from less.IH [OF this h(2)]
    have f: "\<And>u. \<exists>err. transformExpressionsInOp reifyIrExpressionTransform x u = Inl err" .
    show ?thesis
    proof (cases "mapState (transformExpressionsInExpression reifyIrExpressionTransform)
                    (opExprs c) s")
      case (Inl err)
      then show ?thesis by (subst transformExpressionsInOp.simps) simp
    next
      case (Inr p)
      obtain cs s1 where p: "p = (cs, s1)" by (cases p)
      from mapState_fails
        [where f = "transformExpressionsInOp reifyIrExpressionTransform", OF h(1) f]
      obtain err where
        "mapState (transformExpressionsInOp reifyIrExpressionTransform) (handlerOps c) s1
           = Inl err" by blast
      then show ?thesis using Inr p by (subst transformExpressionsInOp.simps) simp
    qed
  qed
qed

lemma reify_fails_dollar_event:
  assumes "readsDollarEvent c"
  shows "(\<exists>err. reifyCreateOp job unit c = Inl err) \<and> (\<exists>err. reifyUpdateOp c = Inl err)"
proof -
  from assms reify_op_fails_lexical [of "''$event''" c "()"] obtain err where
    "transformExpressionsInOp reifyIrExpressionTransform c () = Inl err"
    unfolding readsDollarEvent_def by blast
  then show ?thesis by (simp add: reifyCreateOp_def reifyUpdateOp_def)
qed

lemma transformDollarEvent_op_other:
  "kind c \<noteq> OpKind_Listener \<Longrightarrow> transformDollarEvent_op c = Inr c"
  by (cases c) (simp_all add: transformDollarEvent_op_def)

lemma transformDollarEvent_op_total:
  "\<exists>c'. transformDollarEvent_op c = Inr c' \<and> (kind c \<noteq> OpKind_Listener \<longrightarrow> c' = c)"
proof (cases "kind c = OpKind_Listener")
  case True
  then obtain t n hfn hs cde hl al sp where "c = ListenerOp t n hfn hs cde hl al sp"
    by (cases c) simp_all
  then show ?thesis using True transformDollarEvent_op_Listener [of t n hfn hs cde hl al sp]
    by auto
next
  case False
  then show ?thesis by (simp add: transformDollarEvent_op_other)
qed

lemma transformDollarEvent_total:
  "\<exists>ops'. transformDollarEvent ops = Inr ops'
         \<and> list_all2 (\<lambda>c c'. kind c \<noteq> OpKind_Listener \<longrightarrow> c' = c) ops ops'"
  unfolding transformDollarEvent_def
  by (rule mapError_total) (use transformDollarEvent_op_total in blast)

lemma resolveDollarEvent_unit_total:
  "\<exists>u'. resolveDollarEvent_unit u = Inr u'
       \<and> u' = u\<lparr>create := create u', update := update u'\<rparr>
       \<and> list_all2 (\<lambda>c c'. kind c \<noteq> OpKind_Listener \<longrightarrow> c' = c) (create u) (create u')
       \<and> list_all2 (\<lambda>c c'. kind c \<noteq> OpKind_Listener \<longrightarrow> c' = c) (update u) (update u')"
proof -
  from transformDollarEvent_total [of "create u"] obtain cs where
    c: "transformDollarEvent (create u) = Inr cs"
    and rc: "list_all2 (\<lambda>c c'. kind c \<noteq> OpKind_Listener \<longrightarrow> c' = c) (create u) cs" by blast
  from transformDollarEvent_total [of "update u"] obtain us where
    u: "transformDollarEvent (update u) = Inr us"
    and ru: "list_all2 (\<lambda>c c'. kind c \<noteq> OpKind_Listener \<longrightarrow> c' = c) (update u) us" by blast
  have "resolveDollarEvent_unit u = Inr (u\<lparr>create := cs, update := us\<rparr>)"
    by (simp add: resolveDollarEvent_unit_def c u)
  then show ?thesis using rc ru by simp
qed

lemma list_all2_other_member:
  "list_all2 (\<lambda>c c'. kind c \<noteq> OpKind_Listener \<longrightarrow> c' = c) ops ops' \<Longrightarrow> c \<in> set ops \<Longrightarrow>
     kind c \<noteq> OpKind_Listener \<Longrightarrow> c \<in> set ops'"
  using list_all2_member [of "\<lambda>c c'. kind c \<noteq> OpKind_Listener \<longrightarrow> c' = c" ops ops' c]
  by auto

text \<open>
  Claim C10. The phase leaves an op that is not a listener op as it is. It completes for
  every job; the job that it gives differs from the given one in its units only, a unit in
  its create and update lists only, and, position by position, an op of these lists that is
  not a listener op is the op that was there. An op that holds a lexical read of
  \<^verbatim>\<open>$event\<close> is rejected by the reification of create ops and by that of update ops. So a
  job with such an op that is not a listener op is rejected by \<^verbatim>\<open>reify\<close> after the phase.
  The error for the lexical read itself is ``unresolved LexicalRead of $event''.
\<close>

theorem resolveDollarEvent_frame:
  "(kind c \<noteq> OpKind_Listener \<longrightarrow> transformDollarEvent_op c = Inr c)
   \<and> (\<exists>job'. resolveDollarEvent job = Inr job'
         \<and> job' = job\<lparr>units := units job'\<rparr>
         \<and> list_all2 (\<lambda>u u'. u' = u\<lparr>create := create u', update := update u'\<rparr>
               \<and> list_all2 (\<lambda>c c'. kind c \<noteq> OpKind_Listener \<longrightarrow> c' = c)
                    (create u) (create u')
               \<and> list_all2 (\<lambda>c c'. kind c \<noteq> OpKind_Listener \<longrightarrow> c' = c)
                    (update u) (update u'))
             (units job) (units job')
         \<and> ((\<exists>u\<in>set (units job). \<exists>c\<in>set (create u) \<union> set (update u).
                kind c \<noteq> OpKind_Listener \<and> readsDollarEvent c) \<longrightarrow>
              (\<exists>err. reify job' = Inl err)))
   \<and> (readsDollarEvent c \<longrightarrow>
        (\<exists>err. reifyCreateOp job unit c = Inl err) \<and> (\<exists>err. reifyUpdateOp c = Inl err))
   \<and> reifyIrExpression (LexicalReadExpr ''$event'') =
       Inl (Error ''AssertionError: unresolved LexicalRead of $event'')"
proof -
  let ?O = "\<lambda>c c'. kind c \<noteq> OpKind_Listener \<longrightarrow> c' = c"
  let ?U = "\<lambda>u u'. u' = u\<lparr>create := create u', update := update u'\<rparr>
               \<and> list_all2 ?O (create u) (create u') \<and> list_all2 ?O (update u) (update u')"
  have "\<exists>us. mapError resolveDollarEvent_unit (units job) = Inr us
          \<and> list_all2 ?U (units job) us"
    by (rule mapError_total) (use resolveDollarEvent_unit_total in blast)
  then obtain us where m: "mapError resolveDollarEvent_unit (units job) = Inr us"
    and r: "list_all2 ?U (units job) us" by blast
  let ?job' = "job\<lparr>units := us\<rparr>"
  have res: "resolveDollarEvent job = Inr ?job'" by (simp add: resolveDollarEvent_def m)
  have rej: "\<exists>err. reify ?job' = Inl err"
    if "\<exists>u\<in>set (units job). \<exists>c\<in>set (create u) \<union> set (update u).
          kind c \<noteq> OpKind_Listener \<and> readsDollarEvent c"
  proof -
    from that obtain u c where u: "u \<in> set (units job)"
      and c: "c \<in> set (create u) \<union> set (update u)"
      and k: "kind c \<noteq> OpKind_Listener" and rd: "readsDollarEvent c" by blast
    from list_all2_member [OF r u] obtain u' where u': "u' \<in> set us"
      and rc: "list_all2 ?O (create u) (create u')"
      and ru: "list_all2 ?O (update u) (update u')" by blast
    from c k list_all2_other_member [OF rc] list_all2_other_member [OF ru]
    have c': "c \<in> set (create u') \<or> c \<in> set (update u')" by blast
    from reify_fails_dollar_event [OF rd, of ?job' u'] obtain e1 e2 where
      e1: "reifyCreateOp ?job' u' c = Inl e1" and e2: "reifyUpdateOp c = Inl e2" by blast
    from c' e1 e2 reify_unit_fails_create [of c u' ?job'] reify_unit_fails_update [of c u' _ ?job']
    obtain e3 where "reify_unit ?job' u' = Inl e3" by blast
    from reify_fails [of u' ?job', OF _ this] u' show ?thesis by simp
  qed
  have a: "kind c \<noteq> OpKind_Listener \<longrightarrow> transformDollarEvent_op c = Inr c"
    by (simp add: transformDollarEvent_op_other)
  have b: "readsDollarEvent c \<longrightarrow>
        (\<exists>err. reifyCreateOp job unit c = Inl err) \<and> (\<exists>err. reifyUpdateOp c = Inl err)"
    using reify_fails_dollar_event by blast
  have d: "reifyIrExpression (LexicalReadExpr ''$event'') =
       Inl (Error ''AssertionError: unresolved LexicalRead of $event'')"
    by (simp add: reifyIrExpression_def)
  have e: "\<exists>job'. resolveDollarEvent job = Inr job'
         \<and> job' = job\<lparr>units := units job'\<rparr>
         \<and> list_all2 ?U (units job) (units job')
         \<and> ((\<exists>u\<in>set (units job). \<exists>c\<in>set (create u) \<union> set (update u).
                kind c \<noteq> OpKind_Listener \<and> readsDollarEvent c) \<longrightarrow>
              (\<exists>err. reify job' = Inl err))"
    using res r rej by (intro exI [of _ ?job']) simp
  from a e b d show ?thesis by blast
qed

theorem resolveDollarEvent_frame_witness:
  "readsDollarEvent (PropertyOp 1 ''title'' (Plain (LexicalReadExpr ''$event'')) None NONE None)
   \<and> resolveDollarEvent \<lparr>nextXrefId = 2, root = 0, units =
        [\<lparr>xref = 0,
           create = [ElementOp (Some ''div'') 1 (Some 0) None (LocalRefConst None) None],
           update = [PropertyOp 1 ''title'' (Plain (LexicalReadExpr ''$event'')) None NONE None],
           isView = True, fnName = Some ''T'', decls = Some 1, vars = Some 1\<rparr>]\<rparr>
     = Inr \<lparr>nextXrefId = 2, root = 0, units =
        [\<lparr>xref = 0,
           create = [ElementOp (Some ''div'') 1 (Some 0) None (LocalRefConst None) None],
           update = [PropertyOp 1 ''title'' (Plain (LexicalReadExpr ''$event'')) None NONE None],
           isView = True, fnName = Some ''T'', decls = Some 1, vars = Some 1\<rparr>]\<rparr>
   \<and> reify \<lparr>nextXrefId = 2, root = 0, units =
        [\<lparr>xref = 0,
           create = [ElementOp (Some ''div'') 1 (Some 0) None (LocalRefConst None) None],
           update = [PropertyOp 1 ''title'' (Plain (LexicalReadExpr ''$event'')) None NONE None],
           isView = True, fnName = Some ''T'', decls = Some 1, vars = Some 1\<rparr>]\<rparr>
     = Inl (Error ''AssertionError: unresolved LexicalRead of $event'')"
proof -
  let ?c = "PropertyOp 1 ''title'' (Plain (LexicalReadExpr ''$event'')) None NONE None"
  let ?u = "\<lparr>xref = 0,
           create = [ElementOp (Some ''div'') 1 (Some 0) None (LocalRefConst None) None],
           update = [?c],
           isView = True, fnName = Some ''T'', decls = Some 1, vars = Some 1\<rparr>"
  let ?job = "\<lparr>nextXrefId = 2, root = 0, units = [?u]\<rparr>"
  have rd: "readsDollarEvent ?c"
    by (simp add: readsDollarEvent_def traversal_simps opExprs_def handlerOps_def
          optionExprs_def)
  have res: "resolveDollarEvent ?job = Inr ?job"
    by (simp add: resolveDollarEvent_def resolveDollarEvent_unit_def transformDollarEvent_def
          transformDollarEvent_op_def)
  have rf: "reify ?job = Inl (Error ''AssertionError: unresolved LexicalRead of $event'')"
    by (simp add: reify_def reify_unit_def reifyCreateOperations_def reifyUpdateOperations_def
          reifyCreateOp_def reifyUpdateOp_def reifyCreateOp_switch_def
          reifyIrExpressionTransform_def reifyIrExpression_def
          traversal_simps opExprs_def withOpExprs_def handlerOps_def withHandlerOps_def
          optionExprs_def optionWith_def optNumLit_def optStrLit_def optExpr_def
          localRefsLit_def ng_expr_def ng_call_def
          del: opExprs_withHandlerOps handlerOps_withOpExprs)
  note t = resolveDollarEvent_frame [where c = ?c and job = ?job and unit = ?u]
  from t rd res rf show ?thesis by simp
qed

section \<open>Listeners from the resolution of \<^verbatim>\<open>$event\<close> to reification\<close>

lemma transformDollarEvent_op_resolved:
  "\<exists>c'. transformDollarEvent_op c = Inr c' \<and> dollarEventResolved c c'"
proof (cases "kind c = OpKind_Listener")
  case True
  then obtain t n hfn hs cde hl al sp where c: "c = ListenerOp t n hfn hs cde hl al sp"
    by (cases c) simp_all
  from transformDollarEvent_op_Listener [of t n hfn hs cde hl al sp] obtain hs' where
    a: "transformDollarEvent_op (ListenerOp t n hfn hs cde hl al sp) =
          Inr (ListenerOp t n hfn hs' (cde \<or> (\<exists>h\<in>set hs. readsDollarEvent h)) hl al sp)"
    and b: "list_all2 (\<lambda>h h'. \<not> readsDollarEvent h'
              \<and> (readsDollarEvent h \<longrightarrow> ReadVarExpr ''$event'' \<in> set (opSubexprs h'))
              \<and> kind h' = kind h) hs hs'" by blast
  have "list_all2 (\<lambda>h h'. kind h' = kind h \<and> \<not> readsDollarEvent h'
          \<and> (readsDollarEvent h \<longrightarrow> ReadVarExpr ''$event'' \<in> set (opSubexprs h'))) hs hs'"
    using b by (rule list_all2_mono) blast
  then show ?thesis using a c by (simp add: dollarEventResolved_def)
next
  case False
  then have "transformDollarEvent_op c = Inr c" by (rule transformDollarEvent_op_other)
  moreover have "dollarEventResolved c c"
    using False by (cases c) (simp_all add: dollarEventResolved_def)
  ultimately show ?thesis by blast
qed

lemma transformDollarEvent_resolved:
  "\<exists>ops'. transformDollarEvent ops = Inr ops' \<and> list_all2 dollarEventResolved ops ops'"
  unfolding transformDollarEvent_def
  by (rule mapError_total) (use transformDollarEvent_op_resolved in blast)

lemma resolveDollarEvent_unit_resolved:
  "\<exists>u'. resolveDollarEvent_unit u = Inr u'
       \<and> u' = u\<lparr>create := create u', update := update u'\<rparr>
       \<and> list_all2 dollarEventResolved (create u) (create u')
       \<and> list_all2 dollarEventResolved (update u) (update u')"
proof -
  from transformDollarEvent_resolved [of "create u"] obtain cs where
    c: "transformDollarEvent (create u) = Inr cs"
    and rc: "list_all2 dollarEventResolved (create u) cs" by blast
  from transformDollarEvent_resolved [of "update u"] obtain us where
    u: "transformDollarEvent (update u) = Inr us"
    and ru: "list_all2 dollarEventResolved (update u) us" by blast
  have "resolveDollarEvent_unit u = Inr (u\<lparr>create := cs, update := us\<rparr>)"
    by (simp add: resolveDollarEvent_unit_def c u)
  then show ?thesis using rc ru by simp
qed

lemma resolveDollarEvent_resolved:
  "\<exists>job'. resolveDollarEvent job = Inr job'
       \<and> job' = job\<lparr>units := units job'\<rparr>
       \<and> list_all2 (\<lambda>u u'. u' = u\<lparr>create := create u', update := update u'\<rparr>
             \<and> list_all2 dollarEventResolved (create u) (create u')
             \<and> list_all2 dollarEventResolved (update u) (update u'))
           (units job) (units job')"
proof -
  let ?U = "\<lambda>u u'. u' = u\<lparr>create := create u', update := update u'\<rparr>
             \<and> list_all2 dollarEventResolved (create u) (create u')
             \<and> list_all2 dollarEventResolved (update u) (update u')"
  have "\<exists>us. mapError resolveDollarEvent_unit (units job) = Inr us
          \<and> list_all2 ?U (units job) us"
    by (rule mapError_total) (use resolveDollarEvent_unit_resolved in blast)
  then obtain us where m: "mapError resolveDollarEvent_unit (units job) = Inr us"
    and r: "list_all2 ?U (units job) us" by blast
  have "resolveDollarEvent job = Inr (job\<lparr>units := us\<rparr>)"
    by (simp add: resolveDollarEvent_def m)
  then show ?thesis using r by (intro exI [of _ "job\<lparr>units := us\<rparr>"]) simp
qed

lemma reifyCreateOp_listenerReified:
  "reifyCreateOp job unit c = Inr c' \<Longrightarrow> listenerReified c c'"
proof (cases "kind c = OpKind_Listener")
  case True
  assume r: "reifyCreateOp job unit c = Inr c'"
  from True obtain t n hfn hs cde hl al sp where c: "c = ListenerOp t n hfn hs cde hl al sp"
    by (cases c) simp_all
  from reify_Listener_shape [OF r [unfolded c]] show ?thesis
    by (simp add: c listenerReified_def)
next
  case False
  then show ?thesis by (cases c) (simp_all add: listenerReified_def)
qed

lemma reify_unit_listenerReified:
  assumes "reify_unit job u = Inr u'"
  shows "list_all2 listenerReified (create u) (create u')"
proof -
  from assms obtain cs where
    m: "mapError (reifyCreateOp job u) (create u) = Inr cs" and c: "create u' = cs"
    by (auto simp: reify_unit_def reifyCreateOperations_def split: sum.splits)
  have "list_all2 listenerReified (create u) cs"
    by (rule mapError_list_all2 [OF _ m]) (rule reifyCreateOp_listenerReified)
  then show ?thesis using c by simp
qed

lemma reify_listenerReified:
  assumes "reify job = Inr job'"
  shows "list_all2 (\<lambda>u u'. list_all2 listenerReified (create u) (create u'))
           (units job) (units job')"
proof -
  from assms obtain us where m: "mapError (reify_unit job) (units job) = Inr us"
    and j: "job' = job\<lparr>units := us\<rparr>"
    by (auto simp: reify_def split: sum.splits)
  have "list_all2 (\<lambda>u u'. list_all2 listenerReified (create u) (create u')) (units job) us"
    by (rule mapError_list_all2 [OF _ m]) (rule reify_unit_listenerReified)
  then show ?thesis using j by simp
qed

lemma list_all2_compose:
  "list_all2 R xs ys \<Longrightarrow> list_all2 S ys zs \<Longrightarrow> (\<And>x y z. R x y \<Longrightarrow> S y z \<Longrightarrow> T x z) \<Longrightarrow>
     list_all2 T xs zs"
proof (induction xs ys arbitrary: zs rule: list_all2_induct)
  case Nil
  then show ?case by simp
next
  case (Cons x xs y ys)
  then show ?case by (cases zs) auto
qed

text \<open>
  Claim C6. The phase completes for every job and puts, in every create and update list
  of every unit, in the place of a listener op the same listener with
  \<^verbatim>\<open>consumesDollarEvent\<close> set exactly if it was set before or a handler op held a lexical
  read of \<^verbatim>\<open>$event\<close>, and with every such read rewritten (no handler op holds one
  afterwards, and one that held it holds a read of the variable \<^verbatim>\<open>$event\<close>); it leaves the
  other ops as they are. Where \<^verbatim>\<open>reify\<close> completes on a job, whatever phases have run on
  it, it puts in the place of a listener op of a create list the call of the listener
  instruction with the handler function, whose parameter list is \<^verbatim>\<open>$event\<close> if the op is
  marked and empty otherwise. So, where \<^verbatim>\<open>reify\<close> completes on the job that the phase
  gives, the handler function of a listener that was not marked before the phase declares
  \<^verbatim>\<open>$event\<close> if and only if a handler op held a lexical read of \<^verbatim>\<open>$event\<close>.
\<close>

theorem resolveDollarEvent_listeners:
  "(\<exists>job1. resolveDollarEvent job = Inr job1
       \<and> job1 = job\<lparr>units := units job1\<rparr>
       \<and> list_all2 (\<lambda>u u'. u' = u\<lparr>create := create u', update := update u'\<rparr>
             \<and> list_all2 dollarEventResolved (create u) (create u')
             \<and> list_all2 dollarEventResolved (update u) (update u'))
           (units job) (units job1))
   \<and> (\<forall>job3. reify job2 = Inr job3 \<longrightarrow>
         list_all2 (\<lambda>u u'. list_all2 listenerReified (create u) (create u'))
           (units job2) (units job3))
   \<and> (\<forall>job1 job3. resolveDollarEvent job = Inr job1 \<and> reify job1 = Inr job3 \<longrightarrow>
         list_all2 (\<lambda>u u'.
             list_all2 (\<lambda>c c'. \<forall>t n hfn hs hl al sp.
                 c = ListenerOp t n hfn hs False hl al sp \<longrightarrow>
                 (\<exists>stmts. c' =
                    ng_call (if hl \<and> al then ''syntheticHostListener'' else ''listener'')
                      [strLit n,
                       FunctionExpr (if \<exists>h\<in>set hs. readsDollarEvent h
                                     then [''$event''] else []) stmts hfn] sp))
               (create u) (create u'))
           (units job) (units job3))"
proof (intro conjI allI impI)
  show "\<exists>job1. resolveDollarEvent job = Inr job1
       \<and> job1 = job\<lparr>units := units job1\<rparr>
       \<and> list_all2 (\<lambda>u u'. u' = u\<lparr>create := create u', update := update u'\<rparr>
             \<and> list_all2 dollarEventResolved (create u) (create u')
             \<and> list_all2 dollarEventResolved (update u) (update u'))
           (units job) (units job1)"
    by (rule resolveDollarEvent_resolved)
next
  fix job3
  assume "reify job2 = Inr job3"
  then show "list_all2 (\<lambda>u u'. list_all2 listenerReified (create u) (create u'))
           (units job2) (units job3)"
    by (rule reify_listenerReified)
next
  fix job1 job3
  assume a: "resolveDollarEvent job = Inr job1 \<and> reify job1 = Inr job3"
  let ?T = "\<lambda>c c'. \<forall>t n hfn hs hl al sp.
                 c = ListenerOp t n hfn hs False hl al sp \<longrightarrow>
                 (\<exists>stmts. c' =
                    ng_call (if hl \<and> al then ''syntheticHostListener'' else ''listener'')
                      [strLit n,
                       FunctionExpr (if \<exists>h\<in>set hs. readsDollarEvent h
                                     then [''$event''] else []) stmts hfn] sp)"
  from resolveDollarEvent_resolved [of job] a have
    r1: "list_all2 (\<lambda>u u'. list_all2 dollarEventResolved (create u) (create u'))
           (units job) (units job1)"
    by (auto elim!: list_all2_mono)
  from a have r2: "list_all2 (\<lambda>u u'. list_all2 listenerReified (create u) (create u'))
           (units job1) (units job3)"
    by (intro reify_listenerReified) simp
  have ops: "?T c c''" if "dollarEventResolved c c'" and "listenerReified c' c''" for c c' c''
  proof (intro allI impI)
    fix t n hfn hs hl al sp
    assume c: "c = ListenerOp t n hfn hs False hl al sp"
    from that(1) c obtain hs' where
      c': "c' = ListenerOp t n hfn hs' (\<exists>h\<in>set hs. readsDollarEvent h) hl al sp"
      by (cases c') (auto simp: dollarEventResolved_def)
    from that(2) show "\<exists>stmts. c'' =
                    ng_call (if hl \<and> al then ''syntheticHostListener'' else ''listener'')
                      [strLit n,
                       FunctionExpr (if \<exists>h\<in>set hs. readsDollarEvent h
                                     then [''$event''] else []) stmts hfn] sp"
      unfolding c' by (simp add: listenerReified_def)
  qed
  have lists: "list_all2 ?T xs zs"
    if "list_all2 dollarEventResolved xs ys" and "list_all2 listenerReified ys zs" for xs ys zs
    using that by (rule list_all2_compose) (rule ops)
  show "list_all2 (\<lambda>u u'. list_all2 ?T (create u) (create u')) (units job) (units job3)"
    using r1 r2 by (rule list_all2_compose) (rule lists)
qed

theorem resolveDollarEvent_listeners_witness:
  "convertAst Map.empty
     (Call (ParseSpan 0 15) (PropertyRead (ParseSpan 0 7) ImplicitReceiver ''onClick'')
        [PropertyRead (ParseSpan 8 14) ImplicitReceiver ''$event''])
     \<lparr>nextXrefId = 2, root = 0, units = []\<rparr> None
   = Inr (InvokeFunctionExpr (LexicalReadExpr ''onClick'') [LexicalReadExpr ''$event''] None,
          \<lparr>nextXrefId = 2, root = 0, units = []\<rparr>)
   \<and> resolveDollarEvent \<lparr>nextXrefId = 2, root = 0, units =
        [\<lparr>xref = 0,
           create = [ElementStartOp (Some ''button'') 1 None None (LocalRefArray []) None,
                     ListenerOp 1 ''click'' None
                       [StatementOp (ReturnStatement
                          (InvokeFunctionExpr (LexicalReadExpr ''onClick'')
                             [LexicalReadExpr ''$event''] None) None)]
                       False False False None,
                     ListenerOp 1 ''blur'' None
                       [StatementOp (ReturnStatement
                          (InvokeFunctionExpr (LexicalReadExpr ''onBlur'') [] None) None)]
                       False False False None,
                     ElementEndOp 1 None],
           update = [], isView = True, fnName = None, decls = None, vars = None\<rparr>]\<rparr>
     = Inr \<lparr>nextXrefId = 2, root = 0, units =
        [\<lparr>xref = 0,
           create = [ElementStartOp (Some ''button'') 1 None None (LocalRefArray []) None,
                     ListenerOp 1 ''click'' None
                       [StatementOp (ReturnStatement
                          (InvokeFunctionExpr (LexicalReadExpr ''onClick'')
                             [ReadVarExpr ''$event''] None) None)]
                       True False False None,
                     ListenerOp 1 ''blur'' None
                       [StatementOp (ReturnStatement
                          (InvokeFunctionExpr (LexicalReadExpr ''onBlur'') [] None) None)]
                       False False False None,
                     ElementEndOp 1 None],
           update = [], isView = True, fnName = None, decls = None, vars = None\<rparr>]\<rparr>
   \<and> reify \<lparr>nextXrefId = 2, root = 0, units =
        [\<lparr>xref = 0,
           create = [ElementStartOp (Some ''button'') 1 (Some 0) None (LocalRefConst None) None,
                     ListenerOp 1 ''click'' (Some ''T_click_1'')
                       [StatementOp (ReturnStatement
                          (InvokeFunctionExpr (ReadPropExpr (ReadVarExpr ''ctx'') ''onClick'' None)
                             [ReadVarExpr ''$event''] None) None)]
                       True False False None,
                     ListenerOp 1 ''blur'' (Some ''T_blur_2'')
                       [StatementOp (ReturnStatement
                          (InvokeFunctionExpr (ReadPropExpr (ReadVarExpr ''ctx'') ''onBlur'' None)
                             [] None) None)]
                       False False False None,
                     ElementEndOp 1 None],
           update = [], isView = True, fnName = Some ''T'', decls = Some 1, vars = Some 0\<rparr>]\<rparr>
     = Inr \<lparr>nextXrefId = 2, root = 0, units =
        [\<lparr>xref = 0,
           create = [ng_call ''elementStart''
                       [numLit 0, strLit ''button'', nullLit, nullLit] None,
                     ng_call ''listener''
                       [strLit ''click'',
                        FunctionExpr [''$event'']
                          [ReturnStatement
                             (InvokeFunctionExpr
                                (ReadPropExpr (ReadVarExpr ''ctx'') ''onClick'' None)
                                [ReadVarExpr ''$event''] None) None]
                          (Some ''T_click_1'')] None,
                     ng_call ''listener''
                       [strLit ''blur'',
                        FunctionExpr []
                          [ReturnStatement
                             (InvokeFunctionExpr
                                (ReadPropExpr (ReadVarExpr ''ctx'') ''onBlur'' None)
                                [] None) None]
                          (Some ''T_blur_2'')] None,
                     ng_call ''elementEnd'' [] None],
           update = [], isView = True, fnName = Some ''T'', decls = Some 1, vars = Some 0\<rparr>]\<rparr>
   \<and> resolveDollarEvent \<lparr>nextXrefId = 2, root = 0, units =
        [\<lparr>xref = 0,
           create = [ListenerOp 1 ''click'' (Some ''h'')
                       [StatementOp (ReturnStatement (LexicalReadExpr ''$event'') None)]
                       False False False None],
           update = [], isView = True, fnName = None, decls = None, vars = None\<rparr>]\<rparr>
     = Inr \<lparr>nextXrefId = 2, root = 0, units =
        [\<lparr>xref = 0,
           create = [ListenerOp 1 ''click'' (Some ''h'')
                       [StatementOp (ReturnStatement (ReadVarExpr ''$event'') None)]
                       True False False None],
           update = [], isView = True, fnName = None, decls = None, vars = None\<rparr>]\<rparr>
   \<and> reify \<lparr>nextXrefId = 2, root = 0, units =
        [\<lparr>xref = 0,
           create = [ListenerOp 1 ''click'' (Some ''h'')
                       [StatementOp (ReturnStatement (ReadVarExpr ''$event'') None)]
                       True False False None],
           update = [], isView = True, fnName = None, decls = None, vars = None\<rparr>]\<rparr>
     = Inr \<lparr>nextXrefId = 2, root = 0, units =
        [\<lparr>xref = 0,
           create = [ng_call ''listener''
                       [strLit ''click'',
                        FunctionExpr [''$event'']
                          [ReturnStatement (ReadVarExpr ''$event'') None] (Some ''h'')] None],
           update = [], isView = True, fnName = None, decls = None, vars = None\<rparr>]\<rparr>
   \<and> readsDollarEvent
       (StatementOp (ReturnStatement
          (InvokeFunctionExpr (LexicalReadExpr ''onClick'') [LexicalReadExpr ''$event''] None)
          None))
   \<and> \<not> readsDollarEvent
       (StatementOp (ReturnStatement
          (InvokeFunctionExpr (LexicalReadExpr ''onBlur'') [] None) None))"
proof -
  let ?h1 = "StatementOp (ReturnStatement
       (InvokeFunctionExpr (LexicalReadExpr ''onClick'') [LexicalReadExpr ''$event''] None) None)"
  let ?h1' = "StatementOp (ReturnStatement
       (InvokeFunctionExpr (LexicalReadExpr ''onClick'') [ReadVarExpr ''$event''] None) None)"
  let ?h2 = "StatementOp (ReturnStatement
       (InvokeFunctionExpr (LexicalReadExpr ''onBlur'') [] None) None)"
  let ?g1 = "StatementOp (ReturnStatement
       (InvokeFunctionExpr (ReadPropExpr (ReadVarExpr ''ctx'') ''onClick'' None)
          [ReadVarExpr ''$event''] None) None)"
  let ?g2 = "StatementOp (ReturnStatement
       (InvokeFunctionExpr (ReadPropExpr (ReadVarExpr ''ctx'') ''onBlur'' None) [] None) None)"
  let ?A = "\<lparr>nextXrefId = 2, root = 0, units =
        [\<lparr>xref = 0,
           create = [ElementStartOp (Some ''button'') 1 None None (LocalRefArray []) None,
                     ListenerOp 1 ''click'' None [?h1] False False False None,
                     ListenerOp 1 ''blur'' None [?h2] False False False None,
                     ElementEndOp 1 None],
           update = [], isView = True, fnName = None, decls = None, vars = None\<rparr>]\<rparr>"
  let ?A' = "\<lparr>nextXrefId = 2, root = 0, units =
        [\<lparr>xref = 0,
           create = [ElementStartOp (Some ''button'') 1 None None (LocalRefArray []) None,
                     ListenerOp 1 ''click'' None [?h1'] True False False None,
                     ListenerOp 1 ''blur'' None [?h2] False False False None,
                     ElementEndOp 1 None],
           update = [], isView = True, fnName = None, decls = None, vars = None\<rparr>]\<rparr>"
  let ?B = "\<lparr>nextXrefId = 2, root = 0, units =
        [\<lparr>xref = 0,
           create = [ElementStartOp (Some ''button'') 1 (Some 0) None (LocalRefConst None) None,
                     ListenerOp 1 ''click'' (Some ''T_click_1'') [?g1] True False False None,
                     ListenerOp 1 ''blur'' (Some ''T_blur_2'') [?g2] False False False None,
                     ElementEndOp 1 None],
           update = [], isView = True, fnName = Some ''T'', decls = Some 1, vars = Some 0\<rparr>]\<rparr>"
  have cv: "convertAst Map.empty
     (Call (ParseSpan 0 15) (PropertyRead (ParseSpan 0 7) ImplicitReceiver ''onClick'')
        [PropertyRead (ParseSpan 8 14) ImplicitReceiver ''$event''])
     \<lparr>nextXrefId = 2, root = 0, units = []\<rparr> None
   = Inr (InvokeFunctionExpr (LexicalReadExpr ''onClick'') [LexicalReadExpr ''$event''] None,
          \<lparr>nextXrefId = 2, root = 0, units = []\<rparr>)"
    by simp
  have r1: "readsDollarEvent ?h1"
    by (simp add: readsDollarEvent_def traversal_simps opExprs_def handlerOps_def)
  have r2: "\<not> readsDollarEvent ?h2"
    by (simp add: readsDollarEvent_def traversal_simps opExprs_def handlerOps_def)
  have res: "resolveDollarEvent ?A = Inr ?A'"
    by (simp add: resolveDollarEvent_def resolveDollarEvent_unit_def transformDollarEvent_def
          transformDollarEvent_op_def traversal_simps opExprs_def handlerOps_def
          withOpExprs_def withHandlerOps_def dollarEventTransform_def
          del: opExprs_withHandlerOps handlerOps_withOpExprs)
  have rf: "reify ?B = Inr \<lparr>nextXrefId = 2, root = 0, units =
        [\<lparr>xref = 0,
           create = [ng_call ''elementStart''
                       [numLit 0, strLit ''button'', nullLit, nullLit] None,
                     ng_call ''listener''
                       [strLit ''click'',
                        FunctionExpr [''$event'']
                          [ReturnStatement
                             (InvokeFunctionExpr
                                (ReadPropExpr (ReadVarExpr ''ctx'') ''onClick'' None)
                                [ReadVarExpr ''$event''] None) None]
                          (Some ''T_click_1'')] None,
                     ng_call ''listener''
                       [strLit ''blur'',
                        FunctionExpr []
                          [ReturnStatement
                             (InvokeFunctionExpr
                                (ReadPropExpr (ReadVarExpr ''ctx'') ''onBlur'' None)
                                [] None) None]
                          (Some ''T_blur_2'')] None,
                     ng_call ''elementEnd'' [] None],
           update = [], isView = True, fnName = Some ''T'', decls = Some 1, vars = Some 0\<rparr>]\<rparr>"
    by (simp add: reify_def reify_unit_def reifyCreateOperations_def reifyUpdateOperations_def
          reifyCreateOp_def reifyUpdateOp_def reifyCreateOp_switch_def reifyUpdateOp_switch_def
          reifyListenerHandler_def reifyIrExpressionTransform_def reifyIrExpression_def
          traversal_simps opExprs_def withOpExprs_def handlerOps_def withHandlerOps_def
          optionExprs_def optionWith_def optNumLit_def optStrLit_def optExpr_def
          localRefsLit_def ng_expr_def ng_call_def
          del: opExprs_withHandlerOps handlerOps_withOpExprs)
  let ?C = "\<lparr>nextXrefId = 2, root = 0, units =
        [\<lparr>xref = 0,
           create = [ListenerOp 1 ''click'' (Some ''h'')
                       [StatementOp (ReturnStatement (LexicalReadExpr ''$event'') None)]
                       False False False None],
           update = [], isView = True, fnName = None, decls = None, vars = None\<rparr>]\<rparr>"
  let ?C' = "\<lparr>nextXrefId = 2, root = 0, units =
        [\<lparr>xref = 0,
           create = [ListenerOp 1 ''click'' (Some ''h'')
                       [StatementOp (ReturnStatement (ReadVarExpr ''$event'') None)]
                       True False False None],
           update = [], isView = True, fnName = None, decls = None, vars = None\<rparr>]\<rparr>"
  have resC: "resolveDollarEvent ?C = Inr ?C'"
    by (simp add: resolveDollarEvent_def resolveDollarEvent_unit_def transformDollarEvent_def
          transformDollarEvent_op_def traversal_simps opExprs_def handlerOps_def
          withOpExprs_def withHandlerOps_def dollarEventTransform_def
          del: opExprs_withHandlerOps handlerOps_withOpExprs)
  have rfC: "reify ?C' = Inr \<lparr>nextXrefId = 2, root = 0, units =
        [\<lparr>xref = 0,
           create = [ng_call ''listener''
                       [strLit ''click'',
                        FunctionExpr [''$event'']
                          [ReturnStatement (ReadVarExpr ''$event'') None] (Some ''h'')] None],
           update = [], isView = True, fnName = None, decls = None, vars = None\<rparr>]\<rparr>"
    by (simp add: reify_def reify_unit_def reifyCreateOperations_def reifyUpdateOperations_def
          reifyCreateOp_def reifyUpdateOp_def reifyCreateOp_switch_def reifyUpdateOp_switch_def
          reifyListenerHandler_def reifyIrExpressionTransform_def reifyIrExpression_def
          traversal_simps opExprs_def withOpExprs_def handlerOps_def withHandlerOps_def
          optionExprs_def optionWith_def optNumLit_def optStrLit_def optExpr_def
          localRefsLit_def ng_expr_def ng_call_def
          del: opExprs_withHandlerOps handlerOps_withOpExprs)
  note t = resolveDollarEvent_listeners [where job = ?A and ?job2.0 = ?B]
  note t2 = resolveDollarEvent_listeners [where job = ?C and ?job2.0 = ?C']
  from t t2 cv r1 r2 res rf resC rfC show ?thesis by simp
qed

lemma sameUnits_refl [simp]: "sameUnits job job"
  by (simp add: sameUnits_def)




section \<open>Properties of the ingestion of deferred blocks\<close>


lemma pushUpdate_Nil [simp]: "pushUpdate v [] job = job"
proof -
  have "map (\<lambda>u. if xref u = v then u\<lparr>update := update u @ []\<rparr> else u) (units job) = units job"
    by (induction "units job") (simp_all add: map_idI)
  then show ?thesis by (simp add: pushUpdate_def)
qed






end
